(* ===== verification/Prelude.thy ===== *)
theory Prelude
  imports Main "HOL-Library.Multiset"
begin

text \<open>
  Shared vocabulary of the mezzanine-agenda model: the Python and Django exceptions the
  views raise, a bind on the \<open>error + value\<close> sum through which the views thread their
  early exits, Django's \<open>QuerySet.get\<close> and \<open>get_object_or_404\<close> lookups over a table
  held as a list, Python's \<open>str(n)\<close>, \<open>int(s)\<close> and single-character
  \<open>str.replace\<close> on strings, and the stable orderings the ORM's \<open>order_by\<close> is
  modelled with. Every component theory imports this one.
\<close>

named_theorems agenda_defs "unfolding rules of the model's operations"
named_theorems agenda_simps "derived rewrite rules shared by the component proofs"

section \<open>Exceptions and the error monad\<close>

text \<open>
  The exceptions that reach the caller of a view or template tag. \<open>Http404\<close> is
  Django's not-found response, \<open>DoesNotExist\<close> and \<open>MultipleObjectsReturned\<close> are
  raised by \<open>QuerySet.get\<close>, \<open>NoReverseMatch\<close> by \<open>reverse\<close>,
  \<open>NonExistentTimeError\<close> and \<open>AmbiguousTimeError\<close> by pytz's \<open>localize\<close>, the rest
  are Python built-in exceptions.
\<close>

datatype py_exc =
    Http404
  | DoesNotExist
  | MultipleObjectsReturned
  | ValueError
  | IndexError
  | KeyError
  | AttributeError
  | NameError
  | NoReverseMatch
  | OverflowError
  | NonExistentTimeError
  | AmbiguousTimeError

definition sbind :: "'e + 'a \<Rightarrow> ('a \<Rightarrow> 'e + 'b) \<Rightarrow> 'e + 'b" where
  "sbind r f = (case r of Inl e \<Rightarrow> Inl e | Inr a \<Rightarrow> f a)"

section \<open>Django lookups over a table\<close>

text \<open>
  A table is the list of its rows in primary-key order. \<open>QuerySet.get(cond)\<close> returns
  the one row satisfying the condition and raises otherwise;
  \<open>django.shortcuts.get_object_or_404\<close> turns \<open>DoesNotExist\<close> into \<open>Http404\<close> and
  lets \<open>MultipleObjectsReturned\<close> through.
\<close>

definition qs_get :: "('a \<Rightarrow> bool) \<Rightarrow> 'a list \<Rightarrow> py_exc + 'a" where
  "qs_get P xs =
     (case filter P xs of
        [] \<Rightarrow> Inl DoesNotExist
      | [x] \<Rightarrow> Inr x
      | _ \<Rightarrow> Inl MultipleObjectsReturned)"

definition get_object_or_404 :: "('a \<Rightarrow> bool) \<Rightarrow> 'a list \<Rightarrow> py_exc + 'a" where
  "get_object_or_404 P xs =
     (case qs_get P xs of Inl DoesNotExist \<Rightarrow> Inl Http404 | r \<Rightarrow> r)"

section \<open>Python integers rendered and parsed as decimal strings\<close>

text \<open>
  \<open>str(n)\<close> for a non-negative integer, and \<open>int(s)\<close> on a string of ASCII digits
  (the only strings the URL patterns pass to \<open>int\<close>: they match \<open>\d{1,2}\<close>
  or \<open>\d{4}\<close>). Signs, surrounding blanks and underscores, which \<open>int\<close> also
  accepts, never reach it and are not modelled: such a string parses to \<open>None\<close>.
\<close>

definition digit_char :: "nat \<Rightarrow> char" where
  "digit_char d = char_of (48 + d)"

fun str_nat :: "nat \<Rightarrow> string" where
  "str_nat n = (if n < 10 then [digit_char n] else str_nat (n div 10) @ [digit_char (n mod 10)])"

declare str_nat.simps [simp del]

definition is_digit :: "char \<Rightarrow> bool" where
  "is_digit c \<longleftrightarrow> 48 \<le> (of_char c :: nat) \<and> (of_char c :: nat) < 58"

definition digit_val :: "char \<Rightarrow> nat" where
  "digit_val c = of_char c - 48"

definition digits_value :: "string \<Rightarrow> nat" where
  "digits_value s = foldl (\<lambda>a c. 10 * a + digit_val c) 0 s"

definition parse_nat :: "string \<Rightarrow> nat option" where
  "parse_nat s = (if s \<noteq> [] \<and> list_all is_digit s then Some (digits_value s) else None)"

text \<open>The two-digit padding the event URL applies to each date part.\<close>

definition pad2 :: "nat \<Rightarrow> string" where
  "pad2 n = (let s = str_nat n in if length s = 1 then ''0'' @ s else s)"

section \<open>Single-character str.replace\<close>

text \<open>\<open>s.replace(old, new)\<close> for a one-character \<open>old\<close>.\<close>

definition py_replace_char :: "char \<Rightarrow> string \<Rightarrow> string \<Rightarrow> string" where
  "py_replace_char old new s = concat (map (\<lambda>c. if c = old then new else [c]) s)"

section \<open>Stable orderings\<close>

text \<open>
  \<open>order_by("f")\<close> and \<open>order_by("-f")\<close>. The database does not fix the order of
  rows with equal keys; the model keeps them in primary-key order (the order of the
  table list), which both orderings below do: \<open>sort_key\<close> is stable, and the
  descending order sorts the reversed list and reverses the result.
\<close>

definition order_asc :: "('a \<Rightarrow> 'k::linorder) \<Rightarrow> 'a list \<Rightarrow> 'a list" where
  "order_asc f xs = sort_key f xs"

definition order_desc :: "('a \<Rightarrow> 'k::linorder) \<Rightarrow> 'a list \<Rightarrow> 'a list" where
  "order_desc f xs = rev (sort_key f (rev xs))"

section \<open>Lemmas\<close>

lemma sbind_Inl [simp]: "sbind (Inl e) f = Inl e"
  by (simp add: sbind_def)

lemma sbind_Inr [simp]: "sbind (Inr a) f = f a"
  by (simp add: sbind_def)

lemma sbind_eq_Inr [agenda_simps]:
  "sbind r f = Inr b \<longleftrightarrow> (\<exists>a. r = Inr a \<and> f a = Inr b)"
  by (cases r) auto

lemma sbind_eq_Inl [agenda_simps]:
  "sbind r f = Inl e \<longleftrightarrow> r = Inl e \<or> (\<exists>a. r = Inr a \<and> f a = Inl e)"
  by (cases r) auto

lemma sbind_assoc [agenda_simps]: "sbind (sbind m f) g = sbind m (\<lambda>x. sbind (f x) g)"
  by (cases m) auto

lemma map_sum_sbind [agenda_simps]: "map_sum h f (sbind m g) = sbind (map_sum h id m) (\<lambda>x. map_sum h f (g x))"
  by (cases m) auto

lemma map_sum_id_id [simp]: "map_sum id id x = x"
  by (cases x) auto

lemma qs_get_Inr [agenda_simps]:
  "qs_get P xs = Inr x \<longleftrightarrow> filter P xs = [x]"
  by (auto simp: qs_get_def split: list.splits)

lemma qs_get_none [agenda_simps]:
  "\<not> (\<exists>x\<in>set xs. P x) \<Longrightarrow> qs_get P xs = Inl DoesNotExist"
  by (simp add: qs_get_def filter_empty_conv)

lemma qs_get_Inl_cases:
  "qs_get P xs = Inl e \<Longrightarrow> e = DoesNotExist \<or> e = MultipleObjectsReturned"
  by (auto simp: qs_get_def split: list.splits)

lemma get_object_or_404_Inr [agenda_simps]:
  "get_object_or_404 P xs = Inr x \<longleftrightarrow> filter P xs = [x]"
  by (auto simp: get_object_or_404_def qs_get_def split: list.splits)

lemma get_object_or_404_none [agenda_simps]:
  "\<not> (\<exists>x\<in>set xs. P x) \<Longrightarrow> get_object_or_404 P xs = Inl Http404"
  by (simp add: get_object_or_404_def qs_get_none)

lemma filter_singleton_mem:
  "filter P xs = [x] \<Longrightarrow> x \<in> set xs \<and> P x"
proof -
  assume "filter P xs = [x]"
  then have "x \<in> set (filter P xs)" by simp
  then show ?thesis by simp
qed

lemma digit_char_props [agenda_simps]:
  "d < 10 \<Longrightarrow> is_digit (digit_char d) \<and> digit_val (digit_char d) = d"
  by (simp add: digit_char_def is_digit_def digit_val_def)

lemma digit_char_eval:
  "digit_char 0 = CHR ''0''" "digit_char (Suc 0) = CHR ''1''" "digit_char 2 = CHR ''2''" "digit_char 3 = CHR ''3''"
  "digit_char 4 = CHR ''4''" "digit_char 5 = CHR ''5''" "digit_char 6 = CHR ''6''" "digit_char 7 = CHR ''7''"
  "digit_char 8 = CHR ''8''" "digit_char 9 = CHR ''9''"
  by code_simp+

lemma digits_value_snoc:
  "digits_value (s @ [c]) = 10 * digits_value s + digit_val c"
  by (simp add: digits_value_def)

lemma str_nat_digits: "str_nat n \<noteq> [] \<and> list_all is_digit (str_nat n) \<and> digits_value (str_nat n) = n"
proof (induction n rule: str_nat.induct)
  case (1 n)
  show ?case
  proof (cases "n < 10")
    case True
    then show ?thesis
      by (simp add: str_nat.simps [of n] digit_char_props digits_value_def)
  next
    case False
    with "1.IH" have ih: "list_all is_digit (str_nat (n div 10)) \<and> digits_value (str_nat (n div 10)) = n div 10"
      by simp
    have "digits_value (str_nat n) = 10 * (n div 10) + n mod 10"
      using False ih by (simp add: str_nat.simps [of n] digits_value_snoc digit_char_props)
    then show ?thesis
      using False ih by (simp add: str_nat.simps [of n] digit_char_props)
  qed
qed

lemma parse_str_nat [agenda_simps]: "parse_nat (str_nat n) = Some n"
  using str_nat_digits [of n] by (simp add: parse_nat_def)

lemma str_nat_inj [agenda_simps]: "str_nat m = str_nat n \<longleftrightarrow> m = n"
  by (metis option.inject parse_str_nat)

lemma str_nat_nonempty [simp]: "str_nat n \<noteq> []"
  using str_nat_digits by blast

lemma str_nat_small [agenda_simps]: "n < 10 \<Longrightarrow> str_nat n = [digit_char n]"
  by (simp add: str_nat.simps [of n])

lemma str_nat_length_ge2: "\<not> n < 10 \<Longrightarrow> 2 \<le> length (str_nat n)"
proof -
  assume "\<not> n < 10"
  then have "str_nat n = str_nat (n div 10) @ [digit_char (n mod 10)]"
    by (simp add: str_nat.simps [of n])
  moreover have "str_nat (n div 10) \<noteq> []" by simp
  ultimately show ?thesis by (cases "str_nat (n div 10)") auto
qed

lemma pad2_small: "n < 10 \<Longrightarrow> pad2 n = [CHR ''0'', digit_char n]"
  by (simp add: pad2_def str_nat_small)

lemma pad2_large: "\<not> n < 10 \<Longrightarrow> pad2 n = str_nat n"
  using str_nat_length_ge2 [of n] by (simp add: pad2_def Let_def)

lemma parse_pad2 [agenda_simps]: "parse_nat (pad2 n) = Some n"
proof (cases "n < 10")
  case True
  then have "is_digit (digit_char n) \<and> digit_val (digit_char n) = n"
    by (rule digit_char_props)
  moreover have "is_digit CHR ''0''" by (simp add: is_digit_def)
  ultimately show ?thesis
    using True by (simp add: pad2_small parse_nat_def digits_value_def digit_val_def)
next
  case False
  then show ?thesis by (simp add: pad2_large parse_str_nat)
qed

lemma pad2_length: "2 \<le> length (pad2 n)"
  by (cases "n < 10") (simp_all add: pad2_small pad2_large str_nat_length_ge2)

lemma py_replace_char_simps [simp]:
  "py_replace_char old new [] = []"
  "py_replace_char old new (c # s) = (if c = old then new else [c]) @ py_replace_char old new s"
  by (simp_all add: py_replace_char_def)

lemma py_replace_char_absent [agenda_simps]:
  "old \<notin> set s \<Longrightarrow> py_replace_char old new s = s"
  by (induction s) auto

lemma py_replace_char_removes [agenda_simps]:
  "old \<notin> set new \<Longrightarrow> old \<notin> set (py_replace_char old new s)"
  by (induction s) auto

lemma py_replace_char_empty_iff [agenda_simps]:
  "new \<noteq> [] \<Longrightarrow> py_replace_char old new s = [] \<longleftrightarrow> s = []"
  by (cases s) auto

lemma py_replace_char_length:
  "length (py_replace_char old new s) + count_list s old = length s + count_list s old * length new"
  by (induction s) auto

lemma mset_order_asc [simp]: "mset (order_asc f xs) = mset xs"
  by (simp add: order_asc_def)

lemma mset_order_desc [simp]: "mset (order_desc f xs) = mset xs"
  by (simp add: order_desc_def)

lemma set_order_asc [simp]: "set (order_asc f xs) = set xs"
  by (metis mset_order_asc set_mset_mset)

lemma set_order_desc [simp]: "set (order_desc f xs) = set xs"
  by (metis mset_order_desc set_mset_mset)

lemma length_order_asc [simp]: "length (order_asc f xs) = length xs"
  by (metis mset_order_asc size_mset)

lemma length_order_desc [simp]: "length (order_desc f xs) = length xs"
  by (metis mset_order_desc size_mset)

lemma sorted_order_asc: "sorted (map f (order_asc f xs))"
  by (simp add: order_asc_def)

lemma sorted_order_desc: "sorted_wrt (\<ge>) (map f (order_desc f xs))"
  by (simp add: order_desc_def rev_map [symmetric] sorted_wrt_rev)

lemma order_asc_stable:
  "filter (\<lambda>y. f y = k) (order_asc f xs) = filter (\<lambda>y. f y = k) xs"
  by (simp add: order_asc_def sort_key_stable)

lemma order_desc_stable:
  "filter (\<lambda>y. f y = k) (order_desc f xs) = filter (\<lambda>y. f y = k) xs"
  by (simp add: order_desc_def sort_key_stable rev_filter [symmetric])


lemma length_str_nat: "length (str_nat n) = (if n < 10 then 1 else Suc (length (str_nat (n div 10))))"
  by (simp add: str_nat.simps [of n])

lemma str_nat_length_4: "1000 \<le> n \<Longrightarrow> n < 10000 \<Longrightarrow> length (str_nat n) = 4"
proof -
  assume a: "1000 \<le> n" "n < 10000"
  have "n div 10 div 10 div 10 < 10" "\<not> n div 10 div 10 < 10" "\<not> n div 10 < 10" "\<not> n < 10"
    using a by linarith+
  then show ?thesis by (simp add: length_str_nat [of n] length_str_nat [of "n div 10"]
                                  length_str_nat [of "n div 10 div 10"] length_str_nat [of "n div 10 div 10 div 10"])
qed

lemma pad2_length_2: "n < 100 \<Longrightarrow> length (pad2 n) = 2"
proof (cases "n < 10")
  case True
  then show ?thesis by (simp add: pad2_small)
next
  case False
  assume "n < 100"
  with False have "n div 10 < 10" by linarith
  with False show ?thesis by (simp add: pad2_large length_str_nat [of n] length_str_nat [of "n div 10"])
qed

lemma pad2_digits: "list_all is_digit (pad2 n)"
proof (cases "n < 10")
  case True
  moreover have "is_digit CHR ''0''" by (simp add: is_digit_def)
  ultimately show ?thesis using digit_char_props [of n] by (simp add: pad2_small)
next
  case False
  then show ?thesis using str_nat_digits [of n] by (simp add: pad2_large)
qed

end
