(* ===== verification/DateTime.thy ===== *)
theory DateTime
  imports Prelude "HOL-Library.Product_Lexorder"
begin

text \<open>
  Python's naive \<open>datetime.datetime\<close>: seven fields compared lexicographically, the
  way \<open>datetime.__lt__\<close> compares them. The type is an instance of \<open>linorder\<close>,
  so the ORM orderings of the Prelude (\<open>order_asc\<close>, \<open>order_desc\<close>) and the
  comparisons \<open>start > end\<close>, \<open>start__gt=now\<close> apply to it directly. The
  calendar module's \<open>month_name\<close> table is here too. Time zones are not modelled:
  every timestamp is naive, as \<open>datetime.now()\<close> in the views is.
\<close>

datatype datetime =
  DT (dt_year: nat) (dt_month: nat) (dt_day: nat)
     (dt_hour: nat) (dt_minute: nat) (dt_second: nat) (dt_micro: nat)

definition dt_key :: "datetime \<Rightarrow> nat \<times> nat \<times> nat \<times> nat \<times> nat \<times> nat \<times> nat" where
  "dt_key d = (dt_year d, dt_month d, dt_day d, dt_hour d, dt_minute d, dt_second d, dt_micro d)"

instantiation datetime :: linorder
begin

definition less_eq_datetime :: "datetime \<Rightarrow> datetime \<Rightarrow> bool" where
  "less_eq_datetime a b \<longleftrightarrow> dt_key a \<le> dt_key b"

definition less_datetime :: "datetime \<Rightarrow> datetime \<Rightarrow> bool" where
  "less_datetime a b \<longleftrightarrow> dt_key a < dt_key b"

instance
proof
  fix a b c :: datetime
  show "a < b \<longleftrightarrow> a \<le> b \<and> \<not> b \<le> a"
    by (simp add: less_eq_datetime_def less_datetime_def less_le_not_le)
  show "a \<le> a"
    by (simp add: less_eq_datetime_def)
  show "a \<le> b \<Longrightarrow> b \<le> c \<Longrightarrow> a \<le> c"
    unfolding less_eq_datetime_def by (rule order_trans)
  show "a = b" if "a \<le> b" and "b \<le> a"
  proof -
    from that have "dt_key a = dt_key b"
      unfolding less_eq_datetime_def by (rule antisym)
    then show "a = b" by (cases a; cases b) (simp add: dt_key_def)
  qed
  show "a \<le> b \<or> b \<le> a"
    by (simp add: less_eq_datetime_def linear)
qed

end

text \<open>A datetime the \<open>datetime\<close> constructor accepts.\<close>

definition days_in_month :: "nat \<Rightarrow> nat \<Rightarrow> nat" where
  "days_in_month y m =
     (if m = 2 then (if (4 dvd y \<and> \<not> 100 dvd y) \<or> 400 dvd y then 29 else 28)
      else if m \<in> {4, 6, 9, 11} then 30 else 31)"

definition valid_datetime :: "datetime \<Rightarrow> bool" where
  "valid_datetime d \<longleftrightarrow>
     1 \<le> dt_year d \<and> dt_year d \<le> 9999 \<and> 1 \<le> dt_month d \<and> dt_month d \<le> 12 \<and>
     1 \<le> dt_day d \<and> dt_day d \<le> days_in_month (dt_year d) (dt_month d) \<and>
     dt_hour d < 24 \<and> dt_minute d < 60 \<and> dt_second d < 60 \<and> dt_micro d < 1000000"

text \<open>\<open>datetime(d.year, d.month, 1)\<close>, as \<open>event_months\<close> builds it.\<close>

definition month_start :: "datetime \<Rightarrow> datetime" where
  "month_start d = DT (dt_year d) (dt_month d) 1 0 0 0 0"

text \<open>\<open>calendar.month_name\<close>: index 0 is the empty string, 1 to 12 the month names.\<close>

definition month_name :: "string list" where
  "month_name = [[], ''January'', ''February'', ''March'', ''April'', ''May'', ''June'',
                 ''July'', ''August'', ''September'', ''October'', ''November'', ''December'']"

lemma month_start_le [agenda_simps]: "valid_datetime d \<Longrightarrow> month_start d \<le> d"
  by (cases d) (simp add: month_start_def less_eq_datetime_def dt_key_def valid_datetime_def)

lemma month_start_eq_iff [agenda_simps]:
  "month_start a = month_start b \<longleftrightarrow> dt_year a = dt_year b \<and> dt_month a = dt_month b"
  by (simp add: month_start_def)

lemma length_month_name [simp]: "length month_name = 13"
  by (simp add: month_name_def)

end
