(* ===== verification/TimeZone.thy ===== *)
theory TimeZone
  imports DateTime
begin

text \<open>
  The date arithmetic behind \<open>_get_utc\<close> of
  \<open>src/mezzanine_agenda/templatetags/event_tags.py\<close> (lines 143-159) and the
  timestamp \<open>google_calendar_url\<close> formats. \<open>tz.make_aware(d, zone)\<close> calls pytz's
  \<open>zone.localize(d, is_dst=None)\<close>, which finds the UTC offsets the zone's rules give
  the wall-clock time \<open>d\<close>; \<open>tz.make_naive(d, tz.utc)\<close> is
  \<open>d.astimezone(utc).replace(tzinfo=None)\<close>, the wall time minus that offset, which
  raises \<open>OverflowError\<close> when the result leaves the years 1 to 9999. A zone is
  modelled by its rules: the list of offsets, in seconds east of UTC, that it gives a
  wall time (one outside a transition, none in the gap a clock change skips, two in the
  hour it repeats). Moving a date by whole days is done a day at a time with the
  calendar's month lengths, which yields the date \<open>datetime\<close>'s ordinal arithmetic
  yields.
\<close>

section \<open>Calendar days\<close>

type_synonym ymd = "nat \<times> nat \<times> nat"

definition next_day :: "ymd \<Rightarrow> ymd" where
  "next_day x = (case x of (y, m, d) \<Rightarrow>
     if d < days_in_month y m then (y, m, Suc d) else if m < 12 then (y, Suc m, 1) else (Suc y, 1, 1))"

definition prev_day :: "ymd \<Rightarrow> ymd" where
  "prev_day x = (case x of (y, m, d) \<Rightarrow>
     if 1 < d then (y, m, d - 1) else if 1 < m then (y, m - 1, days_in_month y (m - 1)) else (y - 1, 12, 31))"

definition move_days :: "int \<Rightarrow> ymd \<Rightarrow> ymd" where
  "move_days k x = (if 0 \<le> k then (next_day ^^ nat k) x else (prev_day ^^ nat (- k)) x)"


section \<open>Shifting a naive datetime by an offset\<close>

definition seconds_of_day :: "datetime \<Rightarrow> int" where
  "seconds_of_day d = int (dt_hour d * 3600 + dt_minute d * 60 + dt_second d)"

text \<open>
  \<open>d + timedelta(seconds=off)\<close>: the carry of the seconds into whole days moves the
  date, and a result outside the years 1 to 9999 raises \<open>OverflowError\<close>.
\<close>

definition dt_shift :: "int \<Rightarrow> datetime \<Rightarrow> py_exc + datetime" where
  "dt_shift off d =
     (let t = seconds_of_day d + off; r = nat (t mod 86400) in
      case move_days (t div 86400) (dt_year d, dt_month d, dt_day d) of
        (y, m, dd) \<Rightarrow>
          if 1 \<le> y \<and> y \<le> 9999
          then Inr (DT y m dd (r div 3600) (r mod 3600 div 60) (r mod 60) (dt_micro d))
          else Inl OverflowError)"

text \<open>A time zone: the UTC offsets, in seconds, its rules give a wall-clock time.\<close>

type_synonym time_zone = "datetime \<Rightarrow> int list"

text \<open>
  pytz's \<open>localize(d, is_dst=None)\<close>: a wall time the zone skips raises
  \<open>NonExistentTimeError\<close>, one it repeats \<open>AmbiguousTimeError\<close>.
\<close>

definition localize :: "time_zone \<Rightarrow> datetime \<Rightarrow> py_exc + int" where
  "localize z d = (case z d of [] \<Rightarrow> Inl NonExistentTimeError | [off] \<Rightarrow> Inr off | _ \<Rightarrow> Inl AmbiguousTimeError)"

text \<open>\<open>make_naive(make_aware(d, z), utc)\<close> for a naive \<open>d\<close>.\<close>

definition to_utc :: "time_zone \<Rightarrow> datetime \<Rightarrow> py_exc + datetime" where
  "to_utc z d = sbind (localize z d) (\<lambda>off. dt_shift (- off) d)"

section \<open>strftime\<close>

text \<open>
  \<open>d.strftime("%Y%m%dT%H%M%SZ")\<close>. Python 2's \<open>strftime\<close> refuses years before 1900
  with \<open>ValueError\<close>; the other fields are padded to two digits.
\<close>

definition strftime_stamp :: "datetime \<Rightarrow> py_exc + string" where
  "strftime_stamp d =
     (if dt_year d < 1900 then Inl ValueError
      else Inr (str_nat (dt_year d) @ pad2 (dt_month d) @ pad2 (dt_day d) @ ''T'' @
                pad2 (dt_hour d) @ pad2 (dt_minute d) @ pad2 (dt_second d) @ ''Z''))"

text \<open>Reading such a stamp back, to state what it holds.\<close>

definition parse_stamp :: "string \<Rightarrow> (nat \<times> nat \<times> nat \<times> nat \<times> nat \<times> nat) option" where
  "parse_stamp s =
     (if length s = 16 \<and> s ! 8 = CHR ''T'' \<and> s ! 15 = CHR ''Z'' then
        (case (parse_nat (take 4 s), parse_nat (take 2 (drop 4 s)), parse_nat (take 2 (drop 6 s)),
               parse_nat (take 2 (drop 9 s)), parse_nat (take 2 (drop 11 s)), parse_nat (take 2 (drop 13 s))) of
           (Some y, Some mo, Some d, Some h, Some mi, Some se) \<Rightarrow> Some (y, mo, d, h, mi, se)
         | _ \<Rightarrow> None)
      else None)"

section \<open>Lemmas\<close>

lemma days_in_month_bounds [agenda_simps]: "28 \<le> days_in_month y m" "days_in_month y m \<le> 31"
  by (simp_all add: days_in_month_def)

lemma days_in_month_12 [simp]: "days_in_month y 12 = 31"
  by (simp add: days_in_month_def)





lemma year_prev_day: "fst (prev_day x) \<le> fst x"
  by (cases x) (simp add: prev_day_def)

lemma year_next_day: "fst x \<le> fst (next_day x)"
  by (cases x) (simp add: next_day_def)



lemma year_prev_funpow: "fst ((prev_day ^^ Suc n) x) \<le> fst ((prev_day ^^ n) x)"
  by (simp add: year_prev_day)










lemma seconds_of_day_bounds: "valid_datetime d \<Longrightarrow> 0 \<le> seconds_of_day d \<and> seconds_of_day d < 86400"
  by (simp add: valid_datetime_def seconds_of_day_def)


lemma year_prev_day_ge: "fst x - 1 \<le> fst (prev_day x)"
  by (cases x) (simp add: prev_day_def)

lemma year_next_day_le: "fst (next_day x) \<le> Suc (fst x)"
  by (cases x) (simp add: next_day_def)

text \<open>
  An offset of less than a day moves the date by at most one day, so a datetime whose
  year is neither 1 nor 9999 never overflows.
\<close>

lemma dt_shift_in_range:
  assumes "valid_datetime d" "2 \<le> dt_year d" "dt_year d \<le> 9998" "\<bar>off\<bar> < 86400"
  shows "\<exists>d'. dt_shift off d = Inr d' \<and> dt_year d - 1 \<le> dt_year d' \<and> dt_year d' \<le> Suc (dt_year d)"
proof -
  let ?t = "seconds_of_day d + off"
  let ?x = "(dt_year d, dt_month d, dt_day d)"
  have S: "0 \<le> seconds_of_day d" "seconds_of_day d < 86400" using seconds_of_day_bounds [OF assms(1)] by auto
  have lo: "-1 \<le> ?t div 86400"
    using zdiv_mono1 [of "-86400" ?t 86400] S assms(4) by simp
  have hi: "?t div 86400 \<le> 1"
    using zdiv_mono1 [of ?t "2 * 86400 - 1" 86400] S assms(4) by simp
  have yr: "dt_year d - 1 \<le> fst (move_days (?t div 86400) ?x) \<and> fst (move_days (?t div 86400) ?x) \<le> Suc (dt_year d)"
  proof -
    consider "?t div 86400 = -1" | "?t div 86400 = 0" | "?t div 86400 = 1" using lo hi by linarith
    then show ?thesis
    proof cases
      case 1
      then show ?thesis using year_prev_day_ge [of ?x] year_prev_day [of ?x] by (simp add: move_days_def)
    next
      case 2
      then show ?thesis by (simp add: move_days_def)
    next
      case 3
      then show ?thesis using year_next_day_le [of ?x] year_next_day [of ?x] by (simp add: move_days_def)
    qed
  qed
  obtain y m dd where mv: "move_days (?t div 86400) ?x = (y, m, dd)" by (cases "move_days (?t div 86400) ?x") auto
  with yr have "dt_year d - 1 \<le> y" "y \<le> Suc (dt_year d)" by simp_all
  with assms(2,3) have "1 \<le> y \<and> y \<le> 9999" by linarith
  with mv yr show ?thesis by (simp add: dt_shift_def Let_def)
qed






lemma strftime_stamp_fields:
  assumes "valid_datetime d" "1900 \<le> dt_year d"
  shows "strftime_stamp d = Inr (str_nat (dt_year d) @ pad2 (dt_month d) @ pad2 (dt_day d) @ ''T'' @
                pad2 (dt_hour d) @ pad2 (dt_minute d) @ pad2 (dt_second d) @ ''Z'')"
    and "length (str_nat (dt_year d)) = 4" "length (pad2 (dt_month d)) = 2" "length (pad2 (dt_day d)) = 2"
    and "length (pad2 (dt_hour d)) = 2" "length (pad2 (dt_minute d)) = 2" "length (pad2 (dt_second d)) = 2"
  using assms days_in_month_bounds(2) [of "dt_year d" "dt_month d"]
  by (simp_all add: strftime_stamp_def valid_datetime_def str_nat_length_4 pad2_length_2)

text \<open>
  C39. For a valid datetime from 1900 on, the Google Calendar date stamp has the fixed
  width of 16 characters, \<open>T\<close> and \<open>Z\<close> in their places, and reads back as the
  datetime's year, month, day, hour, minute and second.
\<close>

theorem strftime_stamp_roundtrip:
  assumes "valid_datetime d" "1900 \<le> dt_year d"
  shows "\<exists>s. strftime_stamp d = Inr s \<and> length s = 16 \<and>
             parse_stamp s = Some (dt_year d, dt_month d, dt_day d, dt_hour d, dt_minute d, dt_second d)"
  using strftime_stamp_fields [OF assms]
  by (simp add: parse_stamp_def nth_append parse_pad2 parse_str_nat)


theorem strftime_stamp_roundtrip_witness:
  "strftime_stamp (DT 2024 6 1 16 0 0 0) = Inr ''20240601T160000Z'' \<and>
   parse_stamp ''20240601T160000Z'' = Some (2024, 6, 1, 16, 0, 0)"
proof -
  have v: "valid_datetime (DT 2024 6 1 16 0 0 0) \<and> 1900 \<le> dt_year (DT 2024 6 1 16 0 0 0)"
    by (simp add: valid_datetime_def days_in_month_def)
  have s: "strftime_stamp (DT 2024 6 1 16 0 0 0) = Inr ''20240601T160000Z''" by code_simp
  from strftime_stamp_roundtrip [of "DT 2024 6 1 16 0 0 0"] v s show ?thesis by simp
qed

end
