(* ===== verification/Locations.thy ===== *)
theory Locations
  imports Prelude
begin

text \<open>
  The \<open>EventLocation\<close> model of \<open>src/mezzanine_agenda/models.py\<close> (lines 105-149) and
  its validation \<open>EventLocation.clean\<close>, which geocodes the location through the
  external geocoding service. The service is a parameter of type \<open>geocoder\<close>: a
  function from the configured service domain and the query string to the service's
  answer, one of its two failure kinds or a formatted address with a coordinate pair.
  Coordinates are the model field's \<open>DecimalField(max_digits=10, decimal_places=7)\<close>:
  an integer count of \<open>10\<^sup>-\<^sup>7\<close> degrees, \<open>None\<close> for a NULL field.
\<close>

section \<open>Data\<close>

record event_location =
  loc_id :: nat
  loc_title :: string
  loc_slug :: string
  address :: string
  mappable_location :: string
  lat :: "int option"
  lon :: "int option"

text \<open>
  The answer of \<open>GoogleV3.geocode\<close>: a formatted address and \<open>(lat, lon)\<close>, or one
  of the two exceptions \<open>clean\<close> catches, \<open>GQueryError\<close> and \<open>ValueError\<close>, with
  the exception's message.
\<close>

datatype geo_response =
    Geocoded string int int
  | GQueryError string
  | GValueError string

type_synonym geocoder = "string \<Rightarrow> string \<Rightarrow> geo_response"

text \<open>The \<open>ValidationError\<close>s \<open>clean\<close> raises, by their cause.\<close>

datatype location_error =
    LonRequired
  | LatRequired
  | GeocodeFailed string
  | FieldInvalid

definition geocode_failure_message :: "string \<Rightarrow> string" where
  "geocode_failure_message err =
     ''The mappable location you specified could not be found on Google Maps: '' @
     [CHR 0x22] @ err @ [CHR 0x22] @
     '' Try changing the mappable location, removing any business names, or leaving '' @
     ''mappable location blank and using coordinates from getlatlon.com.''"

fun location_error_message :: "location_error \<Rightarrow> string" where
  "location_error_message LonRequired = ''Longitude required if specifying latitude.''"
| "location_error_message LatRequired = ''Latitude required if specifying longitude.''"
| "location_error_message (GeocodeFailed err) = geocode_failure_message err"
| "location_error_message FieldInvalid = ''Invalid field value.''"

section \<open>EventLocation.clean\<close>

text \<open>
  Python truth of a nullable \<open>Decimal\<close>: \<open>None\<close> and \<open>Decimal(0)\<close> are false. The
  checks of \<open>clean\<close> test truth, not presence, so a coordinate of exactly 0 degrees
  counts as missing.
\<close>

definition dec_truthy :: "int option \<Rightarrow> bool" where
  "dec_truthy d = (case d of None \<Rightarrow> False | Some x \<Rightarrow> x \<noteq> 0)"

definition both_coords :: "event_location \<Rightarrow> bool" where
  "both_coords l \<longleftrightarrow> dec_truthy (lat l) \<and> dec_truthy (lon l)"

text \<open>Lines 126-130: a latitude without a longitude and the converse are rejected.\<close>

definition location_coords_check :: "event_location \<Rightarrow> location_error + unit" where
  "location_coords_check l =
     (if dec_truthy (lat l) \<and> \<not> dec_truthy (lon l) then Inl LonRequired
      else if dec_truthy (lon l) \<and> \<not> dec_truthy (lat l) then Inl LatRequired
      else Inr ())"

text \<open>Lines 132-133: without both coordinates a blank mappable location is derived from the address.\<close>

definition location_default_mappable :: "event_location \<Rightarrow> event_location" where
  "location_default_mappable l =
     (if \<not> both_coords l \<and> mappable_location l = []
      then l\<lparr>mappable_location := py_replace_char CHR ''\<newline>'' '', '' (address l)\<rparr>
      else l)"

text \<open>
  Lines 135-145: a non-blank mappable location without both coordinates is geocoded; both
  exceptions become the same \<open>ValidationError\<close>; on success the service's address and
  coordinates overwrite the three fields.
\<close>

definition location_geocode :: "geocoder \<Rightarrow> string \<Rightarrow> event_location \<Rightarrow> location_error + event_location" where
  "location_geocode g domain l =
     (if mappable_location l \<noteq> [] \<and> \<not> both_coords l then
        (case g domain (mappable_location l) of
           GQueryError err \<Rightarrow> Inl (GeocodeFailed err)
         | GValueError err \<Rightarrow> Inl (GeocodeFailed err)
         | Geocoded ml la lo \<Rightarrow>
             Inr (l\<lparr>mappable_location := ml, lat := Some la, lon := Some lo\<rparr>))
      else Inr l)"

definition location_clean :: "geocoder \<Rightarrow> string \<Rightarrow> event_location \<Rightarrow> location_error + event_location" where
  "location_clean g domain l =
     sbind (location_coords_check l) (\<lambda>_. location_geocode g domain (location_default_mappable l))"

text \<open>
  The field declarations of lines 110-113, as Django's \<open>clean_fields\<close> checks them: the
  address is required (\<open>TextField()\<close> without \<open>blank=True\<close>), the mappable
  location has at most 128 characters, a coordinate has at most 10 digits of which 7 are
  decimals.
\<close>

definition decimal_fits :: "int option \<Rightarrow> bool" where
  "decimal_fits d = (case d of None \<Rightarrow> True | Some x \<Rightarrow> \<bar>x\<bar> < 10 ^ 10)"

definition location_fields_valid :: "event_location \<Rightarrow> bool" where
  "location_fields_valid l \<longleftrightarrow>
     address l \<noteq> [] \<and> length (mappable_location l) \<le> 128 \<and>
     decimal_fits (lat l) \<and> decimal_fits (lon l)"

text \<open>
  Django's \<open>Model.full_clean\<close>: the field checks on the submitted values, then
  \<open>clean\<close>; the record is saved only when both pass.
\<close>

definition location_full_clean :: "geocoder \<Rightarrow> string \<Rightarrow> event_location \<Rightarrow> location_error + event_location" where
  "location_full_clean g domain l =
     (case location_clean g domain l of
        Inl e \<Rightarrow> Inl e
      | Inr l' \<Rightarrow> if location_fields_valid l then Inr l' else Inl FieldInvalid)"

lemmas location_clean_defs [agenda_defs] =
  location_clean_def location_coords_check_def location_default_mappable_def
  location_geocode_def both_coords_def

section \<open>Properties of clean\<close>

lemma dec_truthy_Some: "dec_truthy d \<Longrightarrow> \<exists>x. d = Some x \<and> x \<noteq> 0"
  by (cases d) (auto simp: dec_truthy_def)

lemma location_clean_frame:
  "location_clean g domain l = Inr l' \<Longrightarrow>
     loc_id l' = loc_id l \<and> loc_title l' = loc_title l \<and> loc_slug l' = loc_slug l \<and>
     address l' = address l"
  by (auto simp: location_clean_defs split: if_splits geo_response.splits)

text \<open>
  Every successful \<open>clean\<close> ends in one of three ways: the service's answer, both
  coordinates given, or nothing to geocode at all (blank address and blank mappable
  location, and neither coordinate true).
\<close>

lemma location_clean_Inr_cases:
  assumes "location_clean g domain l = Inr l'"
  shows "(\<exists>ml la lo. g domain (mappable_location (location_default_mappable l)) = Geocoded ml la lo \<and>
            l' = (location_default_mappable l)\<lparr>mappable_location := ml, lat := Some la, lon := Some lo\<rparr>)
         \<or> (both_coords l \<and> l' = l)
         \<or> (address l = [] \<and> mappable_location l = [] \<and> \<not> dec_truthy (lat l) \<and>
            \<not> dec_truthy (lon l) \<and> l' = l)"
  using assms
  by (auto simp: location_clean_defs py_replace_char_empty_iff
           split: if_splits geo_response.splits)

lemma location_clean_coords_some:
  assumes "location_clean g domain l = Inr l'" and "address l \<noteq> []"
  shows "\<exists>la lo. lat l' = Some la \<and> lon l' = Some lo"
proof -
  from assms(1) have "(\<exists>ml la lo. g domain (mappable_location (location_default_mappable l)) = Geocoded ml la lo \<and>
            l' = (location_default_mappable l)\<lparr>mappable_location := ml, lat := Some la, lon := Some lo\<rparr>)
         \<or> (both_coords l \<and> l' = l)"
    using assms(2) by (blast dest: location_clean_Inr_cases)
  then show ?thesis
    by (auto simp: both_coords_def dest!: dec_truthy_Some)
qed

section \<open>Claims about clean\<close>

text \<open>
  C1. A location that passes Django's full validation (the field checks of lines
  110-113 and \<open>clean\<close>) is saved with both coordinates set: a latitude is never
  saved without a longitude, nor the converse.
\<close>

theorem location_full_clean_coords_present:
  assumes "location_full_clean g domain l = Inr l'"
  shows "lat l' \<noteq> None \<and> lon l' \<noteq> None"
proof -
  from assms have clean: "location_clean g domain l = Inr l'" and valid: "location_fields_valid l"
    by (auto simp: location_full_clean_def split: sum.splits if_splits)
  from valid have "address l \<noteq> []" by (simp add: location_fields_valid_def)
  with clean show ?thesis by (auto dest: location_clean_coords_some)
qed

theorem location_full_clean_coords_present_witness:
  "location_full_clean (\<lambda>d q. Geocoded ''1 Susan Street, Hindmarsh SA 5007, Australia'' (-349079240) 1385676240)
     ''maps.google.com''
     \<lparr>loc_id = 1, loc_title = ''Venue'', loc_slug = ''venue'',
      address = ''1 Susan St\<newline>Hindmarsh\<newline>South Australia'', mappable_location = [], lat = None, lon = None\<rparr>
   = Inr \<lparr>loc_id = 1, loc_title = ''Venue'', loc_slug = ''venue'',
      address = ''1 Susan St\<newline>Hindmarsh\<newline>South Australia'',
      mappable_location = ''1 Susan Street, Hindmarsh SA 5007, Australia'', lat = Some (-349079240), lon = Some 1385676240\<rparr>
   \<and> Some (-349079240) \<noteq> (None :: int option) \<and> Some 1385676240 \<noteq> (None :: int option)"
proof -
  let ?g = "\<lambda>d q. Geocoded ''1 Susan Street, Hindmarsh SA 5007, Australia'' (-349079240) 1385676240"
  let ?l = "\<lparr>loc_id = 1, loc_title = ''Venue'', loc_slug = ''venue'',
      address = ''1 Susan St\<newline>Hindmarsh\<newline>South Australia'', mappable_location = [], lat = None, lon = None\<rparr>"
  let ?r = "\<lparr>loc_id = 1, loc_title = ''Venue'', loc_slug = ''venue'',
      address = ''1 Susan St\<newline>Hindmarsh\<newline>South Australia'',
      mappable_location = ''1 Susan Street, Hindmarsh SA 5007, Australia'', lat = Some (-349079240), lon = Some 1385676240\<rparr>"
  have h: "location_full_clean ?g ''maps.google.com'' ?l = Inr ?r"
    by (simp add: location_full_clean_def location_clean_defs location_fields_valid_def
                  decimal_fits_def dec_truthy_def)
  from location_full_clean_coords_present [OF h] h show ?thesis by simp
qed

text \<open>
  C2. With neither coordinate set, \<open>clean\<close> sends the mappable location (derived from
  the address when blank, line breaks replaced by ", ") to the geocoding service with the
  configured domain, and its result is the service's answer: the formatted address and
  the coordinates overwrite the three fields, and either failure of the service is the
  \<open>ValidationError\<close> carrying the service's message, with nothing written.
\<close>

theorem location_clean_geocodes:
  assumes "\<not> dec_truthy (lat l)" and "\<not> dec_truthy (lon l)"
    and "mappable_location (location_default_mappable l) \<noteq> []"
  shows "location_clean g domain l =
           (case g domain (mappable_location (location_default_mappable l)) of
              Geocoded ml la lo \<Rightarrow> Inr (l\<lparr>mappable_location := ml, lat := Some la, lon := Some lo\<rparr>)
            | GQueryError err \<Rightarrow> Inl (GeocodeFailed err)
            | GValueError err \<Rightarrow> Inl (GeocodeFailed err))"
  using assms
  by (auto simp: location_clean_defs split: geo_response.splits)

theorem location_clean_geocodes_witness:
  "\<not> dec_truthy None \<and> \<not> dec_truthy None \<and>
   mappable_location (location_default_mappable
     \<lparr>loc_id = 2, loc_title = ''Hall'', loc_slug = ''hall'', address = ''A\<newline>B'',
      mappable_location = [], lat = None, lon = None\<rparr>) = ''A, B'' \<and>
   location_clean (\<lambda>d q. if d = ''maps.google.com'' \<and> q = ''A, B'' then Geocoded ''A St, B'' 5 7 else GQueryError ''ZERO_RESULTS'')
     ''maps.google.com''
     \<lparr>loc_id = 2, loc_title = ''Hall'', loc_slug = ''hall'', address = ''A\<newline>B'',
      mappable_location = [], lat = None, lon = None\<rparr> =
   Inr \<lparr>loc_id = 2, loc_title = ''Hall'', loc_slug = ''hall'', address = ''A\<newline>B'',
      mappable_location = ''A St, B'', lat = Some 5, lon = Some 7\<rparr>"
proof -
  let ?l = "\<lparr>loc_id = 2, loc_title = ''Hall'', loc_slug = ''hall'', address = ''A\<newline>B'',
      mappable_location = [], lat = None, lon = None\<rparr>"
  let ?g = "\<lambda>d q. if d = ''maps.google.com'' \<and> q = ''A, B'' then Geocoded ''A St, B'' 5 7 else GQueryError ''ZERO_RESULTS''"
  have q: "mappable_location (location_default_mappable ?l) = ''A, B''"
    by (simp add: location_default_mappable_def both_coords_def dec_truthy_def)
  have n: "\<not> dec_truthy (lat ?l)" "\<not> dec_truthy (lon ?l)"
    by (simp_all add: dec_truthy_def)
  have "location_clean ?g ''maps.google.com'' ?l =
          (case ?g ''maps.google.com'' ''A, B'' of
              Geocoded ml la lo \<Rightarrow> Inr (?l\<lparr>mappable_location := ml, lat := Some la, lon := Some lo\<rparr>)
            | GQueryError err \<Rightarrow> Inl (GeocodeFailed err)
            | GValueError err \<Rightarrow> Inl (GeocodeFailed err))"
    using location_clean_geocodes [OF n] q by simp
  then show ?thesis using q by (simp add: dec_truthy_def)
qed

text \<open>
  C3. Exactly one true coordinate is rejected before any geocoding: a latitude without
  a longitude raises "Longitude required if specifying latitude.", a longitude without a
  latitude raises "Latitude required if specifying longitude.".
\<close>

theorem location_clean_half_coords:
  assumes "dec_truthy (lat l) \<noteq> dec_truthy (lon l)"
  shows "location_clean g domain l = Inl (if dec_truthy (lat l) then LonRequired else LatRequired)"
  using assms by (auto simp: location_clean_defs)

theorem location_clean_half_coords_witness:
  "dec_truthy (Some 5) \<noteq> dec_truthy None \<and>
   location_clean (\<lambda>d q. GQueryError ''unused'') ''maps.google.com''
     \<lparr>loc_id = 3, loc_title = ''X'', loc_slug = ''x'', address = ''Y'',
      mappable_location = [], lat = Some 5, lon = None\<rparr> = Inl LonRequired"
proof -
  let ?l = "\<lparr>loc_id = 3, loc_title = ''X'', loc_slug = ''x'', address = ''Y'',
      mappable_location = [], lat = Some 5, lon = None\<rparr>"
  have h: "dec_truthy (lat ?l) \<noteq> dec_truthy (lon ?l)" by (simp add: dec_truthy_def)
  from location_clean_half_coords [OF h, of "\<lambda>d q. GQueryError ''unused''" "''maps.google.com''"] h
  show ?thesis
    by (simp add: dec_truthy_def)
qed






end
