(* ===== verification/Routing.thy ===== *)
theory Routing
  imports Prelude
begin

text \<open>
  The URL configuration of \<open>src/mezzanine_agenda/urls.py\<close>: its 24 patterns in their
  order, with the trailing slash that \<open>APPEND_SLASH\<close> adds to most of them, a matcher
  for the regular expressions they use, Django's \<open>resolve\<close> (the first pattern that
  matches the whole path wins) and \<open>reverse\<close> (the named pattern's template filled
  with the keyword arguments, checked against the pattern).

  The patterns use four regular-expression constructs only: literal text, the
  unescaped \<open>.\<close> (any character but a line break; it occurs in \<open>calendar.ics\<close>
  and \<open>event.ics\<close>, so \<open>calendarXics\<close> matches too), named groups \<open>.*\<close>
  and named groups \<open>\d{m,n}\<close>. The matcher explores the choices in the order
  Python's backtracking matcher does, longest group first, so the groups it returns are
  the ones \<open>re.match\<close> returns. Paths are taken without the include prefix of the
  project's URL configuration, which \<open>reverse\<close> puts in front as \<open>base\<close>.
\<close>

section \<open>Patterns and the matcher\<close>

datatype gkind = AnyText | DigitsN nat nat

datatype seg = Lit string | AnyChar | Grp string gkind

definition gkind_ok :: "gkind \<Rightarrow> string \<Rightarrow> bool" where
  "gkind_ok k s =
     (case k of
        AnyText \<Rightarrow> CHR ''\<newline>'' \<notin> set s
      | DigitsN m n \<Rightarrow> m \<le> length s \<and> length s \<le> n \<and> list_all is_digit s)"

fun first_some :: "('a \<Rightarrow> 'b option) \<Rightarrow> 'a list \<Rightarrow> 'b option" where
  "first_some f [] = None"
| "first_some f (x # xs) = (case f x of None \<Rightarrow> first_some f xs | r \<Rightarrow> r)"

fun match_segs :: "seg list \<Rightarrow> string \<Rightarrow> (string \<times> string) list option" where
  "match_segs [] s = (if s = [] then Some [] else None)"
| "match_segs (Lit l # ps) s =
     (if take (length l) s = l then match_segs ps (drop (length l) s) else None)"
| "match_segs (AnyChar # ps) s =
     (case s of [] \<Rightarrow> None
      | c # s' \<Rightarrow> if c = CHR ''\<newline>'' then None else match_segs ps s')"
| "match_segs (Grp n k # ps) s =
     first_some
       (\<lambda>i. if gkind_ok k (take i s)
            then map_option (\<lambda>gs. (n, take i s) # gs) (match_segs ps (drop i s))
            else None)
       (rev [0..<Suc (length s)])"

section \<open>The URL patterns\<close>

text \<open>A pattern: its name, the view it calls, its regular expression.\<close>

type_synonym route = "string \<times> string \<times> seg list"

definition route_name :: "route \<Rightarrow> string" where
  "route_name r = fst r"

definition route_view :: "route \<Rightarrow> string" where
  "route_view r = fst (snd r)"

definition route_segs :: "route \<Rightarrow> seg list" where
  "route_segs r = snd (snd r)"

definition calendar_ics :: "seg list" where
  "calendar_ics = [Lit ''calendar'', AnyChar, Lit ''ics'']"

definition event_ics :: "seg list" where
  "event_ics = [Lit ''event'', AnyChar, Lit ''ics'']"

definition year4 :: seg where "year4 = Grp ''year'' (DigitsN 4 4)"
definition month12 :: seg where "month12 = Grp ''month'' (DigitsN 1 2)"
definition day12 :: seg where "day12 = Grp ''day'' (DigitsN 1 2)"

text \<open>\<open>urlpatterns\<close>, lines 8-59; \<open>slash\<close> is \<open>settings.APPEND_SLASH\<close>.\<close>

definition urlpatterns :: "bool \<Rightarrow> route list" where
  "urlpatterns slash =
     (let S = (if slash then [Lit ''/''] else []) in
     [(''event_feed'', ''event_feed'', [Lit ''feeds/'', Grp ''format'' AnyText] @ S),
      (''event_feed_tag'', ''event_feed'',
         [Lit ''tag/'', Grp ''tag'' AnyText, Lit ''/feeds/'', Grp ''format'' AnyText] @ S),
      (''event_list_tag'', ''event_list'', [Lit ''tag/'', Grp ''tag'' AnyText] @ S),
      (''icalendar_tag'', ''icalendar'', [Lit ''tag/'', Grp ''tag'' AnyText, Lit ''/''] @ calendar_ics),
      (''event_feed_location'', ''event_feed'',
         [Lit ''location/'', Grp ''location'' AnyText, Lit ''/feeds/'', Grp ''format'' AnyText] @ S),
      (''event_list_location'', ''event_list'', [Lit ''location/'', Grp ''location'' AnyText] @ S),
      (''icalendar_location'', ''icalendar'',
         [Lit ''location/'', Grp ''location'' AnyText, Lit ''/''] @ calendar_ics),
      (''event_feed_author'', ''event_feed'',
         [Lit ''author/'', Grp ''username'' AnyText, Lit ''/feeds/'', Grp ''format'' AnyText] @ S),
      (''event_list_author'', ''event_list'', [Lit ''author/'', Grp ''username'' AnyText] @ S),
      (''icalendar_author'', ''icalendar'',
         [Lit ''author/'', Grp ''username'' AnyText, Lit ''/''] @ calendar_ics),
      (''event_list_month'', ''event_list'', [Lit ''archive/'', year4, Lit ''/'', month12] @ S),
      (''icalendar_month'', ''icalendar'',
         [Lit ''archive/'', year4, Lit ''/'', month12, Lit ''/''] @ calendar_ics),
      (''event_list_year'', ''event_list'', [Lit ''archive/'', year4] @ S),
      (''icalendar_year'', ''icalendar'', [Lit ''archive/'', year4, Lit ''/''] @ calendar_ics),
      (''event_detail_day'', ''event_detail'',
         [year4, Lit ''/'', month12, Lit ''/'', day12, Lit ''/'', Grp ''slug'' AnyText] @ S),
      (''event_detail_month'', ''event_detail'',
         [year4, Lit ''/'', month12, Lit ''/'', Grp ''slug'' AnyText] @ S),
      (''event_detail_year'', ''event_detail'', [year4, Lit ''/'', Grp ''slug'' AnyText] @ S),
      (''icalendar_event_day'', ''icalendar_event'',
         [year4, Lit ''/'', month12, Lit ''/'', day12, Lit ''/'', Grp ''slug'' AnyText, Lit ''/''] @ event_ics),
      (''icalendar_event_month'', ''icalendar_event'',
         [year4, Lit ''/'', month12, Lit ''/'', Grp ''slug'' AnyText, Lit ''/''] @ event_ics),
      (''icalendar_event_year'', ''icalendar_event'',
         [year4, Lit ''/'', Grp ''slug'' AnyText, Lit ''/''] @ event_ics),
      (''icalendar_event'', ''icalendar_event'', [Grp ''slug'' AnyText, Lit ''/''] @ event_ics),
      (''icalendar'', ''icalendar'', calendar_ics),
      (''event_detail'', ''event_detail'', [Grp ''slug'' AnyText] @ S),
      (''event_list'', ''event_list'', [])])"

section \<open>resolve and reverse\<close>

text \<open>
  \<open>resolve(path)\<close>: the first pattern matching the whole path, with its name, view and
  captured keyword arguments; \<open>None\<close> is Django's \<open>Resolver404\<close>.
\<close>

fun resolve_in :: "route list \<Rightarrow> string \<Rightarrow> (string \<times> string \<times> (string \<times> string) list) option" where
  "resolve_in [] path = None"
| "resolve_in (r # rs) path =
     (case match_segs (route_segs r) path of
        Some gs \<Rightarrow> Some (route_name r, route_view r, gs)
      | None \<Rightarrow> resolve_in rs path)"

definition resolve :: "bool \<Rightarrow> string \<Rightarrow> (string \<times> string \<times> (string \<times> string) list) option" where
  "resolve slash path = resolve_in (urlpatterns slash) path"

text \<open>
  \<open>reverse(name, kwargs=...)\<close>: Django's candidate string replaces each group by its
  argument and the unescaped \<open>.\<close> by a literal dot; it is returned only when the
  arguments name exactly the pattern's groups and the candidate matches the pattern.
\<close>

fun seg_groups :: "seg list \<Rightarrow> string list" where
  "seg_groups [] = []"
| "seg_groups (Grp n k # ps) = n # seg_groups ps"
| "seg_groups (_ # ps) = seg_groups ps"

fun render_segs :: "seg list \<Rightarrow> (string \<times> string) list \<Rightarrow> string" where
  "render_segs [] kw = []"
| "render_segs (Lit l # ps) kw = l @ render_segs ps kw"
| "render_segs (AnyChar # ps) kw = ''.'' @ render_segs ps kw"
| "render_segs (Grp n k # ps) kw = (case map_of kw n of Some v \<Rightarrow> v | None \<Rightarrow> []) @ render_segs ps kw"

definition reverse_route :: "route \<Rightarrow> string \<Rightarrow> (string \<times> string) list \<Rightarrow> py_exc + string" where
  "reverse_route r base kw =
     (let cand = render_segs (route_segs r) kw in
      if set (map fst kw) = set (seg_groups (route_segs r)) \<and> match_segs (route_segs r) cand \<noteq> None
      then Inr (base @ cand) else Inl NoReverseMatch)"

definition reverse :: "bool \<Rightarrow> string \<Rightarrow> string \<Rightarrow> (string \<times> string) list \<Rightarrow> py_exc + string" where
  "reverse slash base name kw =
     (case filter (\<lambda>r. route_name r = name) (urlpatterns slash) of
        [] \<Rightarrow> Inl NoReverseMatch
      | r # _ \<Rightarrow> reverse_route r base kw)"

text \<open>
  \<open>reverse(name, args=...)\<close>: the positional arguments fill the pattern's groups in
  order, and their number must be the number of groups.
\<close>

definition reverse_args :: "bool \<Rightarrow> string \<Rightarrow> string \<Rightarrow> string list \<Rightarrow> py_exc + string" where
  "reverse_args slash base name args =
     (case filter (\<lambda>r. route_name r = name) (urlpatterns slash) of
        [] \<Rightarrow> Inl NoReverseMatch
      | r # _ \<Rightarrow>
          (let gs = seg_groups (route_segs r) in
           if length args = length gs then reverse_route r base (zip gs args) else Inl NoReverseMatch))"

lemmas route_defs [agenda_defs] =
  route_name_def route_view_def route_segs_def calendar_ics_def event_ics_def
  year4_def month12_def day12_def gkind_ok_def


section \<open>Matching lemmas\<close>

lemma first_some_append:
  "first_some f (xs @ ys) = (case first_some f xs of None \<Rightarrow> first_some f ys | r \<Rightarrow> r)"
  by (induction xs) (auto split: option.splits)

lemma first_some_None: "(\<And>x. x \<in> set xs \<Longrightarrow> f x = None) \<Longrightarrow> first_some f xs = None"
  by (induction xs) auto

lemma rev_upt_split: "k \<le> L \<Longrightarrow> rev [0..<Suc L] = rev [Suc k..<Suc L] @ k # rev [0..<k]"
proof -
  assume "k \<le> L"
  then have "[0..<Suc L] = [0..<k] @ [k..<Suc L]"
    by (metis le_SucI upt_add_eq_append zero_le add_0 le_add_diff_inverse)
  moreover have "[k..<Suc L] = k # [Suc k..<Suc L]"
    using \<open>k \<le> L\<close> by (simp add: upt_conv_Cons)
  ultimately show ?thesis by simp
qed

lemma match_segs_Lit_prefix [simp]: "match_segs (Lit l # ps) (l @ s) = match_segs ps s"
  by simp

lemma match_segs_Grp_longest:
  assumes s: "s = p @ rest" and ok: "gkind_ok k p" and m: "match_segs ps rest = Some gs"
    and longer: "\<And>i. length p < i \<Longrightarrow> i \<le> length s \<Longrightarrow>
                   \<not> gkind_ok k (take i s) \<or> match_segs ps (drop i s) = None"
  shows "match_segs (Grp n k # ps) s = Some ((n, p) # gs)"
proof -
  let ?F = "\<lambda>i. if gkind_ok k (take i s)
                then map_option (\<lambda>gs. (n, take i s) # gs) (match_segs ps (drop i s)) else None"
  have le: "length p \<le> length s" using s by simp
  have none: "first_some ?F (rev [Suc (length p)..<Suc (length s)]) = None"
  proof (rule first_some_None)
    fix i assume "i \<in> set (rev [Suc (length p)..<Suc (length s)])"
    then have "length p < i" "i \<le> length s" by auto
    then show "?F i = None" using longer by auto
  qed
  have hit: "?F (length p) = Some ((n, p) # gs)"
    using s ok m by simp
  have "match_segs (Grp n k # ps) s = first_some ?F (rev [0..<Suc (length s)])"
    by simp
  also have "\<dots> = first_some ?F (rev [Suc (length p)..<Suc (length s)] @ length p # rev [0..<length p])"
    using le by (simp only: rev_upt_split)
  also have "\<dots> = Some ((n, p) # gs)"
    using none hit by (simp add: first_some_append)
  finally show ?thesis .
qed

lemma match_segs_digits:
  assumes "list_all is_digit p" "a \<le> length p" "length p \<le> b" "\<not> is_digit c"
    and "match_segs ps (c # rest) = Some gs"
  shows "match_segs (Grp n (DigitsN a b) # ps) (p @ c # rest) = Some ((n, p) # gs)"
proof (rule match_segs_Grp_longest [OF refl])
  show "gkind_ok (DigitsN a b) p" using assms by (simp add: gkind_ok_def)
  show "match_segs ps (c # rest) = Some gs" by fact
  fix i assume i: "length p < i" "i \<le> length (p @ c # rest)"
  then have "c \<in> set (take i (p @ c # rest))"
    by (cases "i - length p") (auto simp: take_append)
  then have "\<not> list_all is_digit (take i (p @ c # rest))"
    using assms(4) by (auto simp: list_all_iff)
  then show "\<not> gkind_ok (DigitsN a b) (take i (p @ c # rest)) \<or> match_segs ps (drop i (p @ c # rest)) = None"
    by (simp add: gkind_ok_def)
qed

lemma match_segs_Lit_short: "length s < length l \<Longrightarrow> match_segs (Lit l # ps) s = None"
  by auto

lemma match_segs_text_end:
  assumes "CHR ''\<newline>'' \<notin> set x" and "l \<noteq> []"
  shows "match_segs [Grp n AnyText, Lit l] (x @ l) = Some [(n, x)]"
proof (rule match_segs_Grp_longest [OF refl])
  show "gkind_ok AnyText x" using assms by (simp add: gkind_ok_def)
  show "match_segs [Lit l] l = Some []" by simp
  fix i assume "length x < i" "i \<le> length (x @ l)"
  then have "length (drop i (x @ l)) < length l" by simp
  then have "match_segs [Lit l] (drop i (x @ l)) = None" by (rule match_segs_Lit_short)
  then show "\<not> gkind_ok AnyText (take i (x @ l)) \<or> match_segs [Lit l] (drop i (x @ l)) = None"
    by (rule disjI2)
qed

lemma first_some_only:
  assumes "j \<in> set xs" "\<And>i. i \<in> set xs \<Longrightarrow> i \<noteq> j \<Longrightarrow> f i = None"
  shows "first_some f xs = f j"
  using assms
proof (induction xs)
  case (Cons a xs)
  show ?case
  proof (cases "a = j")
    case True
    show ?thesis
    proof (cases "f j")
      case None
      have "first_some f xs = None"
        by (rule first_some_None) (metis Cons.prems(2) None list.set_intros(2))
      with True None show ?thesis by simp
    qed (simp add: True)
  next
    case False
    with Cons.prems have "f a = None" "j \<in> set xs" by auto
    with Cons show ?thesis by simp
  qed
qed simp

text \<open>
  A group followed by a literal that starts with a slash, on a text with one slash: the
  group can only end at that slash.
\<close>

lemma match_segs_Grp_slash:
  assumes x: "CHR ''/'' \<notin> set x" and r: "CHR ''/'' \<notin> set r"
  shows "match_segs (Grp n k # Lit (CHR ''/'' # l) # ps) (x @ CHR ''/'' # r) =
           (if gkind_ok k x
            then map_option (\<lambda>gs. (n, x) # gs) (match_segs (Lit (CHR ''/'' # l) # ps) (CHR ''/'' # r))
            else None)"
proof -
  let ?s = "x @ CHR ''/'' # r"
  let ?F = "\<lambda>i. if gkind_ok k (take i ?s)
                then map_option (\<lambda>gs. (n, take i ?s) # gs) (match_segs (Lit (CHR ''/'' # l) # ps) (drop i ?s))
                else None"
  have other: "?F i = None" if "i \<in> set (rev [0..<Suc (length ?s)])" "i \<noteq> length x" for i
  proof -
    have "drop i ?s = [] \<or> hd (drop i ?s) \<noteq> CHR ''/''"
    proof (cases "i < length x")
      case True
      then have "hd (drop i ?s) = x ! i" by (simp add: hd_drop_conv_nth nth_append)
      with True x show ?thesis by (auto dest: nth_mem)
    next
      case False
      with that have "length x < i" by simp
      then have "drop i ?s = drop (i - Suc (length x)) r"
        by (simp add: drop_append Suc_diff_Suc [symmetric])
      moreover have "drop j r = [] \<or> hd (drop j r) \<noteq> CHR ''/''" for j
        using r set_drop_subset [of j r] by (cases "drop j r") auto
      ultimately show ?thesis by metis
    qed
    then have "match_segs (Lit (CHR ''/'' # l) # ps) (drop i ?s) = None"
      by (cases "drop i ?s") auto
    then show ?thesis by simp
  qed
  have "match_segs (Grp n k # Lit (CHR ''/'' # l) # ps) ?s = first_some ?F (rev [0..<Suc (length ?s)])"
    by (simp only: match_segs.simps)
  also have "\<dots> = ?F (length x)"
    by (rule first_some_only [OF _ other]) simp
  finally show ?thesis by simp
qed

lemma match_segs_Lit_mismatch:
  "l \<noteq> [] \<Longrightarrow> s \<noteq> [] \<Longrightarrow> hd s \<noteq> hd l \<Longrightarrow> match_segs (Lit l # ps) s = None"
  by (cases l; cases s) auto

lemma slash_not_digit [simp]: "\<not> is_digit CHR ''/''"
  by (simp add: is_digit_def)

lemma match_day_route:
  assumes Y: "list_all is_digit Y" "length Y = 4"
    and M: "list_all is_digit M" "1 \<le> length M" "length M \<le> 2"
    and D: "list_all is_digit D" "1 \<le> length D" "length D \<le> 2"
    and sl: "CHR ''\<newline>'' \<notin> set slug"
  shows "match_segs [Grp ''year'' (DigitsN 4 4), Lit ''/'', Grp ''month'' (DigitsN 1 2), Lit ''/'',
                     Grp ''day'' (DigitsN 1 2), Lit ''/'', Grp ''slug'' AnyText, Lit ''/'']
           (Y @ ''/'' @ M @ ''/'' @ D @ ''/'' @ slug @ ''/'') =
         Some [(''year'', Y), (''month'', M), (''day'', D), (''slug'', slug)]"
proof -
  have s: "match_segs [Grp ''slug'' AnyText, Lit ''/''] (slug @ ''/'') = Some [(''slug'', slug)]"
    using sl by (rule match_segs_text_end) simp
  have d: "match_segs [Grp ''day'' (DigitsN 1 2), Lit ''/'', Grp ''slug'' AnyText, Lit ''/'']
             (D @ CHR ''/'' # slug @ ''/'') = Some [(''day'', D), (''slug'', slug)]"
    using D s by (intro match_segs_digits) simp_all
  have m: "match_segs [Grp ''month'' (DigitsN 1 2), Lit ''/'', Grp ''day'' (DigitsN 1 2), Lit ''/'',
                       Grp ''slug'' AnyText, Lit ''/''] (M @ CHR ''/'' # D @ CHR ''/'' # slug @ ''/'') =
             Some [(''month'', M), (''day'', D), (''slug'', slug)]"
    using M d by (intro match_segs_digits) simp_all
  have y: "match_segs [Grp ''year'' (DigitsN 4 4), Lit ''/'', Grp ''month'' (DigitsN 1 2), Lit ''/'',
                     Grp ''day'' (DigitsN 1 2), Lit ''/'', Grp ''slug'' AnyText, Lit ''/'']
             (Y @ CHR ''/'' # M @ CHR ''/'' # D @ CHR ''/'' # slug @ ''/'') =
           Some [(''year'', Y), (''month'', M), (''day'', D), (''slug'', slug)]"
    using Y m by (intro match_segs_digits) simp_all
  then show ?thesis by simp
qed

lemma resolve_day_path:
  assumes Y: "list_all is_digit Y" "length Y = 4"
    and M: "list_all is_digit M" "1 \<le> length M" "length M \<le> 2"
    and D: "list_all is_digit D" "1 \<le> length D" "length D \<le> 2"
    and sl: "CHR ''\<newline>'' \<notin> set slug"
  shows "resolve True (Y @ ''/'' @ M @ ''/'' @ D @ ''/'' @ slug @ ''/'') =
           Some (''event_detail_day'', ''event_detail'',
                 [(''year'', Y), (''month'', M), (''day'', D), (''slug'', slug)])"
proof -
  obtain c cs where Yc: "Y = c # cs" using Y(2) by (cases Y) auto
  have dig: "is_digit c" using Y(1) Yc by simp
  then have ne: "c \<noteq> CHR ''f''" "c \<noteq> CHR ''t''" "c \<noteq> CHR ''l''" "c \<noteq> CHR ''a''"
    by (auto simp: is_digit_def)
  have day: "match_segs [Grp ''year'' (DigitsN 4 4), Lit ''/'', Grp ''month'' (DigitsN 1 2), Lit ''/'',
                     Grp ''day'' (DigitsN 1 2), Lit ''/'', Grp ''slug'' AnyText, Lit ''/'']
           (Y @ ''/'' @ M @ ''/'' @ D @ ''/'' @ slug @ ''/'') =
         Some [(''year'', Y), (''month'', M), (''day'', D), (''slug'', slug)]"
    using assms by (rule match_day_route)
  show ?thesis
    using day ne
    by (simp add: resolve_def urlpatterns_def Let_def route_defs Yc match_segs_Lit_mismatch
             del: match_segs.simps(2))
qed

lemma reverse_day_path:
  assumes Y: "list_all is_digit Y" "length Y = 4"
    and M: "list_all is_digit M" "1 \<le> length M" "length M \<le> 2"
    and D: "list_all is_digit D" "1 \<le> length D" "length D \<le> 2"
    and sl: "CHR ''\<newline>'' \<notin> set slug"
  shows "reverse True base ''event_detail_day'' [(''slug'', slug), (''year'', Y), (''month'', M), (''day'', D)] =
           Inr (base @ Y @ ''/'' @ M @ ''/'' @ D @ ''/'' @ slug @ ''/'')"
proof -
  have day: "match_segs [Grp ''year'' (DigitsN 4 4), Lit ''/'', Grp ''month'' (DigitsN 1 2), Lit ''/'',
                     Grp ''day'' (DigitsN 1 2), Lit ''/'', Grp ''slug'' AnyText, Lit ''/'']
           (Y @ ''/'' @ M @ ''/'' @ D @ ''/'' @ slug @ ''/'') =
         Some [(''year'', Y), (''month'', M), (''day'', D), (''slug'', slug)]"
    using assms by (rule match_day_route)
  show ?thesis
    using day
    by (simp add: reverse_def reverse_route_def urlpatterns_def Let_def route_defs insert_commute
             del: match_segs.simps)
qed

text \<open>The calendar patterns the calendar links reverse to and resolve from.\<close>

lemma match_icalendar_tag:
  assumes "CHR ''/'' \<notin> set x" "CHR ''\<newline>'' \<notin> set x"
  shows "match_segs ([Lit ''tag/'', Grp ''tag'' AnyText, Lit ''/''] @ calendar_ics) (''tag/'' @ x @ ''/calendar.ics'') =
           Some [(''tag'', x)]"
  using assms by (simp add: calendar_ics_def match_segs_Grp_slash gkind_ok_def del: match_segs.simps(4))

lemma resolve_tag_calendar:
  assumes "CHR ''/'' \<notin> set x" "CHR ''\<newline>'' \<notin> set x"
  shows "resolve True (''tag/'' @ x @ ''/calendar.ics'') = Some (''icalendar_tag'', ''icalendar'', [(''tag'', x)])"
  using assms match_icalendar_tag [OF assms]
  by (simp add: resolve_def urlpatterns_def route_defs Let_def match_segs_Grp_slash del: match_segs.simps(4))

lemma reverse_tag_calendar:
  assumes "CHR ''/'' \<notin> set x" "CHR ''\<newline>'' \<notin> set x"
  shows "reverse_args True base ''icalendar_tag'' [x] = Inr (base @ ''tag/'' @ x @ ''/calendar.ics'')"
  using match_icalendar_tag [OF assms]
  by (simp add: reverse_args_def reverse_route_def urlpatterns_def route_defs calendar_ics_def Let_def
           del: match_segs.simps)

lemma resolve_calendar: "resolve True ''calendar.ics'' = Some (''icalendar'', ''icalendar'', [])"
  by (simp add: resolve_def urlpatterns_def route_defs Let_def)

lemma reverse_calendar: "reverse_args True base ''icalendar'' [] = Inr (base @ ''calendar.ics'')"
  by (simp add: reverse_args_def reverse_route_def urlpatterns_def route_defs Let_def)

lemma match_location_list:
  assumes "CHR ''/'' \<notin> set x" "CHR ''\<newline>'' \<notin> set x"
  shows "match_segs [Lit ''location/'', Grp ''location'' AnyText, Lit ''/''] (''location/'' @ x @ ''/'') =
           Some [(''location'', x)]"
  using assms match_segs_Grp_slash [of x "[]" "''location''" AnyText "[]" "[]"]
  by (simp add: gkind_ok_def del: match_segs.simps(4))

lemma resolve_location_list:
  assumes "CHR ''/'' \<notin> set x" "CHR ''\<newline>'' \<notin> set x"
  shows "resolve True (''location/'' @ x @ ''/'') = Some (''event_list_location'', ''event_list'', [(''location'', x)])"
  using assms match_location_list [OF assms]
  by (simp add: resolve_def urlpatterns_def route_defs Let_def match_segs_Grp_slash del: match_segs.simps(4))

lemma reverse_location_list:
  assumes "CHR ''/'' \<notin> set x" "CHR ''\<newline>'' \<notin> set x"
  shows "reverse True base ''event_list_location'' [(''location'', x)] = Inr (base @ ''location/'' @ x @ ''/'')"
  using match_location_list [OF assms]
  by (simp add: reverse_def reverse_route_def urlpatterns_def route_defs Let_def del: match_segs.simps)


end
