(* ===== verification/Settings.thy ===== *)
theory Settings
  imports Prelude
begin

text \<open>
  The settings the app reads, as one record passed to the operations that read them
  (the code reads them from Mezzanine's global \<open>settings\<close>). Their defaults are those
  \<open>src/mezzanine_agenda/defaults.py\<close> registers; the site-wide settings the app also
  reads (\<open>SITE_TITLE\<close>, \<open>SITE_TAGLINE\<close>, \<open>APPEND_SLASH\<close>) belong to the project and
  are parameters of the defaults.
\<close>

text \<open>An entry of \<open>ADMIN_MENU_ORDER\<close>: a model name, or a (title, URL name) pair.\<close>

datatype menu_item = MenuModel string | MenuLink string string

record agenda_settings =
  admin_menu_order :: "(string \<times> menu_item list) list"
  event_use_featured_image :: bool
  event_urls_date_format :: string
  event_per_page :: nat
  event_rss_limit :: "nat option"
  event_slug :: string
  event_google_maps_domain :: string
  event_time_zone :: string
  event_hidpi_static_maps :: bool
  site_title :: string
  site_tagline :: string
  append_slash :: bool

definition agenda_defaults :: "string \<Rightarrow> string \<Rightarrow> bool \<Rightarrow> agenda_settings" where
  "agenda_defaults title tagline slash =
     \<lparr>admin_menu_order =
        [(''Content'', [MenuModel ''pages.Page'', MenuModel ''blog.BlogPost'',
                        MenuModel ''mezzanine_agenda.Event'', MenuModel ''generic.ThreadedComment'',
                        MenuLink ''Media Library'' ''fb_browse'']),
         (''Site'', [MenuModel ''sites.Site'', MenuModel ''redirects.Redirect'', MenuModel ''conf.Setting'']),
         (''Users'', [MenuModel ''auth.User'', MenuModel ''auth.Group''])],
      event_use_featured_image = False,
      event_urls_date_format = [],
      event_per_page = 5,
      event_rss_limit = Some 20,
      event_slug = ''events'',
      event_google_maps_domain = ''maps.google.com'',
      event_time_zone = [],
      event_hidpi_static_maps = True,
      site_title = title,
      site_tagline = tagline,
      append_slash = slash\<rparr>"

end
