(* ===== verification/Events.thy ===== *)
theory Events
  imports Locations DateTime Routing Settings
begin

text \<open>
  The \<open>Event\<close> model of \<open>src/mezzanine_agenda/models.py\<close> (lines 23-102): its
  fields, the ordering validation \<open>Event.clean\<close>, the URL \<open>get_absolute_url\<close>
  builds from \<open>EVENT_URLS_DATE_FORMAT\<close> and the publish date, and the iCalendar
  component \<open>get_icalendar_event\<close> makes of an event. The publication rule that
  Mezzanine's \<open>Displayable\<close> manager applies (\<open>published(for_user=...)\<close>) is not
  code of this repository; it is modelled from the specification (section 3).
\<close>

section \<open>Data\<close>

datatype content_status = Draft | Published

text \<open>
  The fields the app reads. A foreign key is the referenced row's id; the keywords are
  the ids of the \<open>Keyword\<close>s assigned to the event. The comment, rating, Facebook and
  image fields take part in no operation modelled here.
\<close>

record event =
  ev_id :: nat
  ev_title :: string
  ev_slug :: string
  ev_start :: datetime
  ev_end :: "datetime option"
  ev_location :: "nat option"
  ev_keywords :: "nat list"
  ev_status :: content_status
  publish_date :: "datetime option"
  expiry_date :: "datetime option"
  ev_user :: nat
  ev_content :: string

datatype event_error = StartAfterEnd

fun event_error_message :: "event_error \<Rightarrow> string" where
  "event_error_message StartAfterEnd = ''Start must be sooner than end.''"

section \<open>Event.clean\<close>

text \<open>Lines 47-54: \<open>if self.end and self.start > self.end: raise ValidationError\<close>.\<close>

definition event_clean :: "event \<Rightarrow> event_error + event" where
  "event_clean e =
     (case ev_end e of
        None \<Rightarrow> Inr e
      | Some en \<Rightarrow> if en < ev_start e then Inl StartAfterEnd else Inr e)"

section \<open>Visibility\<close>

text \<open>
  Who is asking: an anonymous visitor, a logged-in user, or a staff user (by user id).
  An event is published at \<open>now\<close> when its status is published, its publish date is
  unset or not after \<open>now\<close>, and its expiry date is unset or not before \<open>now\<close>;
  staff see every event, a user also sees the events they own.
\<close>

datatype viewer = Anonymous | Member nat | Staff nat

definition published_at :: "datetime \<Rightarrow> event \<Rightarrow> bool" where
  "published_at now e \<longleftrightarrow>
     ev_status e = Published \<and>
     (case publish_date e of None \<Rightarrow> True | Some p \<Rightarrow> p \<le> now) \<and>
     (case expiry_date e of None \<Rightarrow> True | Some x \<Rightarrow> now \<le> x)"

definition visible_to :: "viewer \<Rightarrow> datetime \<Rightarrow> event \<Rightarrow> bool" where
  "visible_to v now e =
     (case v of
        Anonymous \<Rightarrow> published_at now e
      | Member u \<Rightarrow> published_at now e \<or> ev_user e = u
      | Staff u \<Rightarrow> True)"

section \<open>Event.get_absolute_url\<close>

text \<open>\<open>getattr(self.publish_date, date_part)\<close> for the three parts the loop reads.\<close>

definition date_part :: "datetime \<Rightarrow> string \<Rightarrow> nat" where
  "date_part d p = (if p = ''year'' then dt_year d else if p = ''month'' then dt_month d else dt_day d)"

text \<open>
  Lines 72-79: the loop over \<open>("year", "month", "day")\<close>, each part zero-padded to two
  digits, stopping after the part named by the setting.
\<close>

fun url_date_kwargs :: "string \<Rightarrow> datetime \<Rightarrow> string list \<Rightarrow> (string \<times> string) list" where
  "url_date_kwargs fmt d [] = []"
| "url_date_kwargs fmt d (p # ps) =
     (p, pad2 (date_part d p)) # (if p = fmt then [] else url_date_kwargs fmt d ps)"

text \<open>
  Lines 68-79: the pattern name and keyword arguments. A date format among the three
  parts reads the publish date; a missing one raises \<open>AttributeError\<close>.
\<close>

definition event_url_route :: "agenda_settings \<Rightarrow> event \<Rightarrow> py_exc + string \<times> (string \<times> string) list" where
  "event_url_route s e =
     (let fmt = event_urls_date_format s in
      if fmt \<in> set [''year'', ''month'', ''day''] then
        (case publish_date e of
           None \<Rightarrow> Inl AttributeError
         | Some d \<Rightarrow> Inr (''event_detail_'' @ fmt,
                          (''slug'', ev_slug e) # url_date_kwargs fmt d [''year'', ''month'', ''day'']))
      else Inr (''event_detail'', [(''slug'', ev_slug e)]))"

text \<open>Line 80: \<open>reverse(url_name, kwargs=kwargs)\<close>, below the include prefix \<open>base\<close>.\<close>

definition event_get_absolute_url :: "agenda_settings \<Rightarrow> string \<Rightarrow> event \<Rightarrow> py_exc + string" where
  "event_get_absolute_url s base e =
     sbind (event_url_route s e) (\<lambda>(name, kw). reverse (append_slash s) base name kw)"

section \<open>Event.get_icalendar_event\<close>

text \<open>A property value of an iCalendar component: text or a date-time.\<close>

datatype ical_value = IText string | IDate datetime

type_synonym vevent = "(string \<times> ical_value) list"

text \<open>Lines 98-101: \<open>"event-ID@DOMAIN"\<close>.\<close>

definition event_uid :: "string \<Rightarrow> event \<Rightarrow> string" where
  "event_uid domain e = ''event-'' @ str_nat (ev_id e) @ ''@'' @ domain"

text \<open>
  \<open>self.location\<close>: following the foreign key to the \<open>EventLocation\<close> table; a
  dangling key raises \<open>DoesNotExist\<close>.
\<close>

definition event_location_of :: "event_location list \<Rightarrow> event \<Rightarrow> py_exc + event_location option" where
  "event_location_of locs e =
     (case ev_location e of
        None \<Rightarrow> Inr None
      | Some lid \<Rightarrow> sbind (qs_get (\<lambda>l. loc_id l = lid) locs) (\<lambda>l. Inr (Some l)))"

text \<open>
  Lines 82-102, the properties in the order the code adds them: summary, url, location
  (when the event has one), dtstamp and dtstart (both the start), dtend (when the event
  has an end), uid. \<open>domain\<close> is the current \<open>Site\<close>'s domain.
\<close>

definition get_icalendar_event ::
  "agenda_settings \<Rightarrow> string \<Rightarrow> string \<Rightarrow> event_location list \<Rightarrow> event \<Rightarrow> py_exc + vevent" where
  "get_icalendar_event s domain base locs e =
     sbind (event_get_absolute_url s base e) (\<lambda>url.
     sbind (event_location_of locs e) (\<lambda>loc.
       Inr ([(''summary'', IText (ev_title e)),
             (''url'', IText (''http://'' @ domain @ url))] @
            (case loc of None \<Rightarrow> [] | Some l \<Rightarrow> [(''location'', IText (address l))]) @
            [(''dtstamp'', IDate (ev_start e)), (''dtstart'', IDate (ev_start e))] @
            (case ev_end e of None \<Rightarrow> [] | Some en \<Rightarrow> [(''dtend'', IDate en)]) @
            [(''uid'', IText (event_uid domain e))])))"


section \<open>Lemmas\<close>

lemma event_uid_inj: "event_uid domain e1 = event_uid domain e2 \<longleftrightarrow> ev_id e1 = ev_id e2"
proof
  assume "event_uid domain e1 = event_uid domain e2"
  then have "str_nat (ev_id e1) @ ''@'' @ domain = str_nat (ev_id e2) @ ''@'' @ domain"
    by (simp add: event_uid_def)
  moreover have "CHR ''@'' \<notin> set (str_nat n)" for n
    using str_nat_digits [of n] by (auto simp: list_all_iff is_digit_def)
  ultimately have "str_nat (ev_id e1) = str_nat (ev_id e2)"
    by (metis append_eq_append_conv2 append_self_conv2 Cons_eq_append_conv)
  then show "ev_id e1 = ev_id e2" by (simp add: str_nat_inj)
qed (simp add: event_uid_def)

lemma visible_to_Anonymous [simp]: "visible_to Anonymous now = published_at now"
  by (simp add: fun_eq_iff visible_to_def)

lemma get_icalendar_event_uid:
  "get_icalendar_event s domain base locs e = Inr v \<Longrightarrow> map_of v ''uid'' = Some (IText (event_uid domain e))"
  by (auto simp: get_icalendar_event_def agenda_simps split: option.splits sum.splits)

text \<open>The zero-padded parts of a valid date from year 1000 on fit the URL's \<open>\d{4}\<close> and \<open>\d{1,2}\<close> groups.\<close>

lemma url_date_parts_fit:
  assumes "valid_datetime d" and "1000 \<le> dt_year d"
  shows "list_all is_digit (pad2 (dt_year d)) \<and> length (pad2 (dt_year d)) = 4 \<and>
         list_all is_digit (pad2 (dt_month d)) \<and> length (pad2 (dt_month d)) = 2 \<and>
         list_all is_digit (pad2 (dt_day d)) \<and> length (pad2 (dt_day d)) = 2"
proof -
  have v: "dt_year d \<le> 9999" "dt_month d \<le> 12" "dt_day d \<le> 31"
    using assms(1) by (auto simp: valid_datetime_def days_in_month_def split: if_splits)
  have "length (pad2 (dt_year d)) = 4"
    using assms(2) v(1) by (simp add: pad2_large str_nat_length_4)
  moreover have "length (pad2 (dt_month d)) = 2" "length (pad2 (dt_day d)) = 2"
    using v(2,3) by (simp_all add: pad2_length_2)
  ultimately show ?thesis by (simp add: pad2_digits)
qed

lemma event_url_day:
  assumes "append_slash s" "event_urls_date_format s = ''day''" "publish_date e = Some d"
    and "valid_datetime d" "1000 \<le> dt_year d" "CHR ''\<newline>'' \<notin> set (ev_slug e)"
  shows "event_get_absolute_url s base e =
           Inr (base @ pad2 (dt_year d) @ ''/'' @ pad2 (dt_month d) @ ''/'' @ pad2 (dt_day d) @ ''/'' @ ev_slug e @ ''/'')"
proof -
  have parts: "list_all is_digit (pad2 (dt_year d)) \<and> length (pad2 (dt_year d)) = 4 \<and>
         list_all is_digit (pad2 (dt_month d)) \<and> length (pad2 (dt_month d)) = 2 \<and>
         list_all is_digit (pad2 (dt_day d)) \<and> length (pad2 (dt_day d)) = 2"
    using assms(4,5) by (rule url_date_parts_fit)
  have route: "event_url_route s e =
      Inr (''event_detail_day'', [(''slug'', ev_slug e), (''year'', pad2 (dt_year d)),
                                  (''month'', pad2 (dt_month d)), (''day'', pad2 (dt_day d))])"
    using assms(2,3) by (simp add: event_url_route_def date_part_def Let_def)
  have "reverse True base ''event_detail_day''
          [(''slug'', ev_slug e), (''year'', pad2 (dt_year d)), (''month'', pad2 (dt_month d)), (''day'', pad2 (dt_day d))] =
        Inr (base @ pad2 (dt_year d) @ ''/'' @ pad2 (dt_month d) @ ''/'' @ pad2 (dt_day d) @ ''/'' @ ev_slug e @ ''/'')"
    using parts assms(6) by (intro reverse_day_path) simp_all
  then show ?thesis
    using assms(1) route by (simp add: event_get_absolute_url_def)
qed

section \<open>Claims about events\<close>



text \<open>
  C8. An event whose end is before its start is rejected by \<open>Event.clean\<close> with
  "Start must be sooner than end.".
\<close>

theorem event_clean_end_before_start:
  assumes "ev_end e = Some en" and "en < ev_start e"
  shows "event_clean e = Inl StartAfterEnd"
  using assms by (simp add: event_clean_def)

theorem event_clean_end_before_start_witness:
  "event_clean \<lparr>ev_id = 2, ev_title = ''Late'', ev_slug = ''late'', ev_start = DT 2024 6 1 18 0 0 0,
      ev_end = Some (DT 2024 6 1 9 0 0 0), ev_location = None, ev_keywords = [], ev_status = Published,
      publish_date = None, expiry_date = None, ev_user = 1, ev_content = []\<rparr> = Inl StartAfterEnd"
proof -
  let ?e = "\<lparr>ev_id = 2, ev_title = ''Late'', ev_slug = ''late'', ev_start = DT 2024 6 1 18 0 0 0,
      ev_end = Some (DT 2024 6 1 9 0 0 0), ev_location = None, ev_keywords = [], ev_status = Published,
      publish_date = None, expiry_date = None, ev_user = 1, ev_content = []\<rparr>"
  have a: "ev_end ?e = Some (DT 2024 6 1 9 0 0 0)" by simp
  have b: "DT 2024 6 1 9 0 0 0 < ev_start ?e"
    by (simp add: less_datetime_def dt_key_def)
  from event_clean_end_before_start [OF a b] show ?thesis .
qed

text \<open>
  C9. The iCalendar component of an event has, in this order, the summary (the title),
  the absolute URL, the location's address when the event has a location, the start as
  dtstamp and dtstart, the end as dtend when the event has one, and the identifier
  \<open>event-ID@DOMAIN\<close> (the event id and the site domain).
\<close>

theorem get_icalendar_event_fields:
  assumes "get_icalendar_event s domain base locs e = Inr v"
  shows "map fst v = [''summary'', ''url''] @ (if ev_location e = None then [] else [''location'']) @
                     [''dtstamp'', ''dtstart''] @ (if ev_end e = None then [] else [''dtend'']) @ [''uid'']
         \<and> map_of v ''summary'' = Some (IText (ev_title e))
         \<and> map_of v ''dtstart'' = Some (IDate (ev_start e))
         \<and> map_of v ''dtstamp'' = Some (IDate (ev_start e))
         \<and> map_of v ''dtend'' = map_option IDate (ev_end e)
         \<and> map_of v ''uid'' = Some (IText (event_uid domain e))
         \<and> (case ev_location e of None \<Rightarrow> True
            | Some lid \<Rightarrow> (\<exists>l. filter (\<lambda>l. loc_id l = lid) locs = [l] \<and>
                              map_of v ''location'' = Some (IText (address l))))"
  using assms
  by (auto simp: get_icalendar_event_def event_location_of_def agenda_simps
           split: option.splits sum.splits)

theorem get_icalendar_event_fields_witness:
  "get_icalendar_event (agenda_defaults ''Site'' ''Events'' True) ''example.com'' ''/events/''
     [\<lparr>loc_id = 7, loc_title = ''Hall'', loc_slug = ''hall'', address = ''1 Susan St'',
       mappable_location = [], lat = Some 1, lon = Some 2\<rparr>]
     \<lparr>ev_id = 1, ev_title = ''Launch'', ev_slug = ''launch'', ev_start = DT 2024 6 1 18 0 0 0,
      ev_end = Some (DT 2024 6 1 22 0 0 0), ev_location = Some 7, ev_keywords = [], ev_status = Published,
      publish_date = None, expiry_date = None, ev_user = 1, ev_content = []\<rparr> =
   Inr [(''summary'', IText ''Launch''), (''url'', IText ''http://example.com/events/launch/''),
        (''location'', IText ''1 Susan St''),
        (''dtstamp'', IDate (DT 2024 6 1 18 0 0 0)), (''dtstart'', IDate (DT 2024 6 1 18 0 0 0)),
        (''dtend'', IDate (DT 2024 6 1 22 0 0 0)), (''uid'', IText ''event-1@example.com'')] \<and>
   map_of [(''summary'', IText ''Launch''), (''url'', IText ''http://example.com/events/launch/''),
        (''location'', IText ''1 Susan St''),
        (''dtstamp'', IDate (DT 2024 6 1 18 0 0 0)), (''dtstart'', IDate (DT 2024 6 1 18 0 0 0)),
        (''dtend'', IDate (DT 2024 6 1 22 0 0 0)), (''uid'', IText ''event-1@example.com'')] ''uid'' =
     Some (IText ''event-1@example.com'')"
proof -
  let ?s = "agenda_defaults ''Site'' ''Events'' True"
  let ?l = "[\<lparr>loc_id = 7, loc_title = ''Hall'', loc_slug = ''hall'', address = ''1 Susan St'',
       mappable_location = [], lat = Some 1, lon = Some 2\<rparr>]"
  let ?e = "\<lparr>ev_id = 1, ev_title = ''Launch'', ev_slug = ''launch'', ev_start = DT 2024 6 1 18 0 0 0,
      ev_end = Some (DT 2024 6 1 22 0 0 0), ev_location = Some 7, ev_keywords = [], ev_status = Published,
      publish_date = None, expiry_date = None, ev_user = 1, ev_content = []\<rparr>"
  let ?v = "[(''summary'', IText ''Launch''), (''url'', IText ''http://example.com/events/launch/''),
        (''location'', IText ''1 Susan St''),
        (''dtstamp'', IDate (DT 2024 6 1 18 0 0 0)), (''dtstart'', IDate (DT 2024 6 1 18 0 0 0)),
        (''dtend'', IDate (DT 2024 6 1 22 0 0 0)), (''uid'', IText ''event-1@example.com'')]"
  have h: "get_icalendar_event ?s ''example.com'' ''/events/'' ?l ?e = Inr ?v"
    by code_simp
  from get_icalendar_event_fields [OF h] h show ?thesis by simp
qed

text \<open>
  C10. With \<open>APPEND_SLASH\<close> and \<open>EVENT_URLS_DATE_FORMAT = "day"\<close>, the URL
  \<open>get_absolute_url\<close> builds for an event published on a valid date from year 1000 on
  (and whose slug has no line break) resolves, by the first-match rule of
  \<open>urls.py\<close>, to the \<open>event_detail_day\<close> pattern with the event's slug and the
  zero-padded year, month and day of its publish date, each of which \<open>int()\<close> reads
  back as the date's part.
\<close>

theorem event_url_resolves:
  assumes "append_slash s" "event_urls_date_format s = ''day''" "publish_date e = Some d"
    and "valid_datetime d" "1000 \<le> dt_year d" "CHR ''\<newline>'' \<notin> set (ev_slug e)"
  shows "event_get_absolute_url s base e =
           Inr (base @ pad2 (dt_year d) @ ''/'' @ pad2 (dt_month d) @ ''/'' @ pad2 (dt_day d) @ ''/'' @ ev_slug e @ ''/'') \<and>
         resolve True (pad2 (dt_year d) @ ''/'' @ pad2 (dt_month d) @ ''/'' @ pad2 (dt_day d) @ ''/'' @ ev_slug e @ ''/'') =
             Some (''event_detail_day'', ''event_detail'',
                   [(''year'', pad2 (dt_year d)), (''month'', pad2 (dt_month d)),
                    (''day'', pad2 (dt_day d)), (''slug'', ev_slug e)]) \<and>
           parse_nat (pad2 (dt_year d)) = Some (dt_year d) \<and>
           parse_nat (pad2 (dt_month d)) = Some (dt_month d) \<and>
           parse_nat (pad2 (dt_day d)) = Some (dt_day d)"
proof -
  have parts: "list_all is_digit (pad2 (dt_year d)) \<and> length (pad2 (dt_year d)) = 4 \<and>
         list_all is_digit (pad2 (dt_month d)) \<and> length (pad2 (dt_month d)) = 2 \<and>
         list_all is_digit (pad2 (dt_day d)) \<and> length (pad2 (dt_day d)) = 2"
    using assms(4,5) by (rule url_date_parts_fit)
  have "resolve True (pad2 (dt_year d) @ ''/'' @ pad2 (dt_month d) @ ''/'' @ pad2 (dt_day d) @ ''/'' @ ev_slug e @ ''/'') =
             Some (''event_detail_day'', ''event_detail'',
                   [(''year'', pad2 (dt_year d)), (''month'', pad2 (dt_month d)),
                    (''day'', pad2 (dt_day d)), (''slug'', ev_slug e)])"
    using parts assms(6) by (intro resolve_day_path) simp_all
  then show ?thesis
    using event_url_day [OF assms, of base] by (simp add: parse_pad2)
qed

theorem event_url_resolves_witness:
  "append_slash ((agenda_defaults ''Site'' ''Events'' True)\<lparr>event_urls_date_format := ''day''\<rparr>) \<and>
   event_get_absolute_url ((agenda_defaults ''Site'' ''Events'' True)\<lparr>event_urls_date_format := ''day''\<rparr>) ''/events/''
     \<lparr>ev_id = 1, ev_title = ''Launch'', ev_slug = ''launch'', ev_start = DT 2024 6 1 18 0 0 0,
      ev_end = None, ev_location = None, ev_keywords = [], ev_status = Published,
      publish_date = Some (DT 2024 5 9 12 0 0 0), expiry_date = None, ev_user = 1, ev_content = []\<rparr>
   = Inr ''/events/2024/05/09/launch/'' \<and>
   resolve True ''2024/05/09/launch/'' =
     Some (''event_detail_day'', ''event_detail'',
           [(''year'', ''2024''), (''month'', ''05''), (''day'', ''09''), (''slug'', ''launch'')])"
proof -
  let ?s = "(agenda_defaults ''Site'' ''Events'' True)\<lparr>event_urls_date_format := ''day''\<rparr>"
  let ?e = "\<lparr>ev_id = 1, ev_title = ''Launch'', ev_slug = ''launch'', ev_start = DT 2024 6 1 18 0 0 0,
      ev_end = None, ev_location = None, ev_keywords = [], ev_status = Published,
      publish_date = Some (DT 2024 5 9 12 0 0 0), expiry_date = None, ev_user = 1, ev_content = []\<rparr>"
  have h: "append_slash ?s" "event_urls_date_format ?s = ''day''"
      "publish_date ?e = Some (DT 2024 5 9 12 0 0 0)" "valid_datetime (DT 2024 5 9 12 0 0 0)"
      "1000 \<le> dt_year (DT 2024 5 9 12 0 0 0)" "CHR ''\<newline>'' \<notin> set (ev_slug ?e)"
    by (simp_all add: agenda_defaults_def valid_datetime_def days_in_month_def)
  have p: "pad2 2024 = ''2024''" "pad2 5 = ''05''" "pad2 9 = ''09''"
    by code_simp+
  from event_url_resolves [OF h, of "''/events/''"] h(1) p show ?thesis by simp
qed

end
