(* ===== verification/Queries.thy ===== *)
theory Queries
  imports Events
begin

text \<open>
  The event queries of \<open>src/mezzanine_agenda/views.py\<close> (\<open>event_list\<close>,
  \<open>event_detail\<close>, \<open>icalendar_event\<close>, \<open>icalendar\<close>) and of the template tags
  \<open>recent_events\<close> and \<open>upcoming_events\<close> of
  \<open>src/mezzanine_agenda/templatetags/event_tags.py\<close>. The database is a record of
  tables, each the list of its rows in primary-key order. A query set is its rows
  (filtered in that order) with its ordering, applied when the set is evaluated, as
  Django does: \<open>Meta.ordering = ("-start",)\<close> by default, \<open>order_by("start")\<close>
  after the upcoming-window filter. Rows with equal starts stay in primary-key order
  (Prelude, \<open>order_asc\<close>/\<open>order_desc\<close>); the code asks for no tie-break.
  Pagination is Mezzanine's \<open>paginate\<close>, not code of this repository; it is modelled
  from the specification (section 4.2): pages are numbered from 1 and a page out of
  range is empty.
\<close>

section \<open>Tables\<close>

record keyword =
  kw_id :: nat
  kw_title :: string
  kw_slug :: string

record user =
  u_id :: nat
  username :: string
  first_name :: string
  last_name :: string

record db =
  db_events :: "event list"
  db_locations :: "event_location list"
  db_keywords :: "keyword list"
  db_users :: "user list"

section \<open>Query sets\<close>

datatype qs_order = StartDesc | StartAsc

record query_set =
  qs_rows :: "event list"
  qs_order :: qs_order

text \<open>Evaluating a query set: its rows in its ordering.\<close>

definition qs_eval :: "query_set \<Rightarrow> event list" where
  "qs_eval q =
     (case qs_order q of
        StartDesc \<Rightarrow> order_desc ev_start (qs_rows q)
      | StartAsc \<Rightarrow> order_asc ev_start (qs_rows q))"

definition qs_filter :: "(event \<Rightarrow> bool) \<Rightarrow> query_set \<Rightarrow> query_set" where
  "qs_filter P q = q\<lparr>qs_rows := filter P (qs_rows q)\<rparr>"

text \<open>\<open>Event.objects.published(for_user=...)\<close>, in the model's default ordering.\<close>

definition published_qs :: "db \<Rightarrow> viewer \<Rightarrow> datetime \<Rightarrow> query_set" where
  "published_qs d v now = \<lparr>qs_rows = filter (visible_to v now) (db_events d), qs_order = StartDesc\<rparr>"

text \<open>
  The lookups \<open>start__gt\<close>, \<open>end__gt\<close>, \<open>start__lt\<close>, \<open>end__lt\<close>: a NULL end
  satisfies no comparison.
\<close>

definition upcoming_at :: "datetime \<Rightarrow> event \<Rightarrow> bool" where
  "upcoming_at now e \<longleftrightarrow> now < ev_start e \<or> (case ev_end e of None \<Rightarrow> False | Some en \<Rightarrow> now < en)"

definition past_at :: "datetime \<Rightarrow> event \<Rightarrow> bool" where
  "past_at now e \<longleftrightarrow> ev_start e < now \<or> (case ev_end e of None \<Rightarrow> False | Some en \<Rightarrow> en < now)"

definition has_keyword :: "keyword \<Rightarrow> event \<Rightarrow> bool" where
  "has_keyword k e \<longleftrightarrow> kw_id k \<in> set (ev_keywords e)"

definition at_location :: "event_location \<Rightarrow> event \<Rightarrow> bool" where
  "at_location l e \<longleftrightarrow> ev_location e = Some (loc_id l)"

definition by_user :: "user \<Rightarrow> event \<Rightarrow> bool" where
  "by_user u e \<longleftrightarrow> ev_user e = u_id u"

section \<open>The list filters of event_list and icalendar\<close>

text \<open>
  The state the two views build: the query set, and the objects the lookups found (in
  the views they replace the URL arguments of the same names).
\<close>

record list_state =
  ls_qs :: query_set
  ls_tag :: "keyword option"
  ls_month :: "string option"
  ls_location :: "event_location option"
  ls_author :: "user option"

definition init_state :: "db \<Rightarrow> viewer \<Rightarrow> datetime \<Rightarrow> list_state" where
  "init_state d v now =
     \<lparr>ls_qs = published_qs d v now, ls_tag = None, ls_month = None, ls_location = None, ls_author = None\<rparr>"

text \<open>Lines 39-41: \<open>get_object_or_404(Keyword, slug=tag)\<close>, then the keyword filter.\<close>

definition step_tag :: "db \<Rightarrow> string option \<Rightarrow> list_state \<Rightarrow> py_exc + list_state" where
  "step_tag d tag st =
     (case tag of
        None \<Rightarrow> Inr st
      | Some t \<Rightarrow> sbind (get_object_or_404 (\<lambda>k. kw_slug k = t) (db_keywords d)) (\<lambda>k.
                   Inr (st\<lparr>ls_qs := qs_filter (has_keyword k) (ls_qs st), ls_tag := Some k\<rparr>)))"

text \<open>
  Lines 42-49: the year filter, then the month filter and \<open>month_name[int(month)]\<close>,
  whose \<open>IndexError\<close> becomes \<open>Http404\<close>. Django converts the year lookup's string
  argument with \<open>int\<close> as well.
\<close>

definition month_lookup :: "string \<Rightarrow> py_exc + string" where
  "month_lookup m =
     (case parse_nat m of
        None \<Rightarrow> Inl ValueError
      | Some n \<Rightarrow> if n < length month_name then Inr (month_name ! n) else Inl Http404)"

definition step_year_month :: "string option \<Rightarrow> string option \<Rightarrow> list_state \<Rightarrow> py_exc + list_state" where
  "step_year_month year month st =
     (case year of
        None \<Rightarrow> Inr st
      | Some y \<Rightarrow>
          (case parse_nat y of
             None \<Rightarrow> Inl ValueError
           | Some yn \<Rightarrow>
               let st1 = st\<lparr>ls_qs := qs_filter (\<lambda>e. dt_year (ev_start e) = yn) (ls_qs st)\<rparr> in
               (case month of
                  None \<Rightarrow> Inr st1
                | Some m \<Rightarrow>
                    (case parse_nat m of
                       None \<Rightarrow> Inl ValueError
                     | Some mn \<Rightarrow>
                         sbind (month_lookup m) (\<lambda>name.
                           Inr (st1\<lparr>ls_qs := qs_filter (\<lambda>e. dt_month (ev_start e) = mn) (ls_qs st1),
                                    ls_month := Some name\<rparr>))))))"

text \<open>Lines 50-52: \<open>get_object_or_404(EventLocation, slug=location)\<close>, then the location filter.\<close>

definition step_location :: "db \<Rightarrow> string option \<Rightarrow> list_state \<Rightarrow> py_exc + list_state" where
  "step_location d location st =
     (case location of
        None \<Rightarrow> Inr st
      | Some s \<Rightarrow> sbind (get_object_or_404 (\<lambda>l. loc_slug l = s) (db_locations d)) (\<lambda>l.
                   Inr (st\<lparr>ls_qs := qs_filter (at_location l) (ls_qs st), ls_location := Some l\<rparr>)))"

text \<open>Lines 55-58: \<open>get_object_or_404(User, username=username)\<close>, then the author filter.\<close>

definition step_author :: "db \<Rightarrow> string option \<Rightarrow> list_state \<Rightarrow> py_exc + list_state" where
  "step_author d uname st =
     (case uname of
        None \<Rightarrow> Inr st
      | Some n \<Rightarrow> sbind (get_object_or_404 (\<lambda>u. username u = n) (db_users d)) (\<lambda>u.
                   Inr (st\<lparr>ls_qs := qs_filter (by_user u) (ls_qs st), ls_author := Some u\<rparr>)))"

text \<open>
  Python truth of the four names on line 60: the keyword and location are model
  instances (true) or \<open>None\<close>; the year and username are the URL's strings, true when
  non-empty.
\<close>

definition str_opt_truthy :: "string option \<Rightarrow> bool" where
  "str_opt_truthy s = (case s of None \<Rightarrow> False | Some x \<Rightarrow> x \<noteq> [])"

definition no_list_filter :: "list_state \<Rightarrow> string option \<Rightarrow> string option \<Rightarrow> bool" where
  "no_list_filter st year uname \<longleftrightarrow>
     ls_tag st = None \<and> \<not> str_opt_truthy year \<and> ls_location st = None \<and> \<not> str_opt_truthy uname"

text \<open>Lines 60-62: without any filter, the upcoming or ongoing events, ordered by start.\<close>

definition step_window :: "datetime \<Rightarrow> string option \<Rightarrow> string option \<Rightarrow> list_state \<Rightarrow> list_state" where
  "step_window now year uname st =
     (if no_list_filter st year uname
      then st\<lparr>ls_qs := (qs_filter (upcoming_at now) (ls_qs st))\<lparr>qs_order := StartAsc\<rparr>\<rparr>
      else st)"

text \<open>Lines 38-62 of \<open>event_list\<close> (and lines 132-153 of \<open>icalendar\<close>, the same code).\<close>

definition list_query ::
  "db \<Rightarrow> viewer \<Rightarrow> datetime \<Rightarrow> string option \<Rightarrow> string option \<Rightarrow> string option \<Rightarrow>
   string option \<Rightarrow> string option \<Rightarrow> py_exc + list_state" where
  "list_query d v now tag year month uname location =
     sbind (step_tag d tag (init_state d v now)) (\<lambda>st1.
     sbind (step_year_month year month st1) (\<lambda>st2.
     sbind (step_location d location st2) (\<lambda>st3.
     sbind (step_author d uname st3) (\<lambda>st4.
     Inr (step_window now year uname st4)))))"

section \<open>Pagination\<close>

definition paginate :: "'a list \<Rightarrow> nat \<Rightarrow> nat \<Rightarrow> 'a list" where
  "paginate xs page per_page =
     (if page = 0 then [] else take per_page (drop ((page - 1) * per_page) xs))"

definition num_pages :: "nat \<Rightarrow> nat \<Rightarrow> nat" where
  "num_pages n per_page = (if per_page = 0 then 0 else (n + per_page - 1) div per_page)"

section \<open>The views\<close>

text \<open>What \<open>event_list\<close> hands to the template: the page and the context objects.\<close>

record list_page =
  lp_events :: "event list"
  lp_year :: "string option"
  lp_month :: "string option"
  lp_tag :: "keyword option"
  lp_location :: "event_location option"
  lp_author :: "user option"
  lp_templates :: "string list"

text \<open>Lines 28-72: \<open>event_list\<close>, with the page number of the request.\<close>

definition event_list ::
  "agenda_settings \<Rightarrow> db \<Rightarrow> viewer \<Rightarrow> datetime \<Rightarrow> string option \<Rightarrow> string option \<Rightarrow>
   string option \<Rightarrow> string option \<Rightarrow> string option \<Rightarrow> nat \<Rightarrow> py_exc + list_page" where
  "event_list s d v now tag year month uname location page =
     sbind (list_query d v now tag year month uname location) (\<lambda>st.
       Inr \<lparr>lp_events = paginate (qs_eval (ls_qs st)) page (event_per_page s),
            lp_year = year, lp_month = (case ls_month st of Some name \<Rightarrow> Some name | None \<Rightarrow> month),
            lp_tag = ls_tag st, lp_location = ls_location st, lp_author = ls_author st,
            lp_templates =
              (case ls_location st of None \<Rightarrow> [] | Some l \<Rightarrow> [''agenda/event_list_'' @ loc_slug l @ ''.html'']) @
              (case uname of None \<Rightarrow> [] | Some n \<Rightarrow> [''agenda/event_list_'' @ n @ ''.html'']) @
              [''agenda/event_list.html'']\<rparr>)"

text \<open>Lines 75-86: \<open>event_detail\<close>, the published event with the slug.\<close>

definition event_detail :: "db \<Rightarrow> viewer \<Rightarrow> datetime \<Rightarrow> string \<Rightarrow> py_exc + event" where
  "event_detail d v now slug =
     get_object_or_404 (\<lambda>e. ev_slug e = slug) (qs_eval (published_qs d v now))"

text \<open>An iCalendar document: \<open>prodid\<close>, \<open>version\<close> and the components in order.\<close>

record vcalendar =
  cal_prodid :: string
  cal_version :: string
  cal_components :: "vevent list"

text \<open>Lines 99-107: \<open>_make_icalendar\<close>, for the package version \<open>ver\<close>.\<close>

definition make_icalendar :: "string \<Rightarrow> vcalendar" where
  "make_icalendar ver =
     \<lparr>cal_prodid = ''-//mezzanine-agenda//NONSGML V'' @ ver @ ''//EN'', cal_version = ''2.0'',
      cal_components = []\<rparr>"

definition add_component :: "vevent \<Rightarrow> vcalendar \<Rightarrow> vcalendar" where
  "add_component c cal = cal\<lparr>cal_components := cal_components cal @ [c]\<rparr>"

text \<open>The loop of lines 159-161: one component per event, in order; an error stops it.\<close>

fun add_events ::
  "agenda_settings \<Rightarrow> string \<Rightarrow> string \<Rightarrow> event_location list \<Rightarrow> event list \<Rightarrow> vcalendar \<Rightarrow> py_exc + vcalendar" where
  "add_events s domain base locs [] cal = Inr cal"
| "add_events s domain base locs (e # es) cal =
     sbind (get_icalendar_event s domain base locs e) (\<lambda>c.
       add_events s domain base locs es (add_component c cal))"

text \<open>Lines 110-122: \<open>icalendar_event\<close>, the calendar of one published event.\<close>

definition icalendar_event ::
  "agenda_settings \<Rightarrow> string \<Rightarrow> string \<Rightarrow> string \<Rightarrow> db \<Rightarrow> viewer \<Rightarrow> datetime \<Rightarrow> string \<Rightarrow> py_exc + vcalendar" where
  "icalendar_event s ver domain base d v now slug =
     sbind (event_detail d v now slug) (\<lambda>e.
     sbind (get_icalendar_event s domain base (db_locations d) e) (\<lambda>c.
       Inr (add_component c (make_icalendar ver))))"

text \<open>Lines 125-163: \<open>icalendar\<close>, the calendar of every event the list filters keep.\<close>

definition icalendar ::
  "agenda_settings \<Rightarrow> string \<Rightarrow> string \<Rightarrow> string \<Rightarrow> db \<Rightarrow> viewer \<Rightarrow> datetime \<Rightarrow> string option \<Rightarrow>
   string option \<Rightarrow> string option \<Rightarrow> string option \<Rightarrow> string option \<Rightarrow> py_exc + vcalendar" where
  "icalendar s ver domain base d v now tag year month uname location =
     sbind (list_query d v now tag year month uname location) (\<lambda>st.
       add_events s domain base (db_locations d) (qs_eval (ls_qs st)) (make_icalendar ver))"

section \<open>The recent and upcoming template tags\<close>

text \<open>
  \<open>Keyword.objects.get(Q(title=s) | Q(slug=s))\<close> and its kin: a missing row makes the
  tag return \<open>[]\<close> (the soft miss); several matching rows raise.
\<close>

definition soft_lookup :: "('a \<Rightarrow> bool) \<Rightarrow> 'a list \<Rightarrow> py_exc + 'a option" where
  "soft_lookup P xs =
     (case qs_get P xs of
        Inr x \<Rightarrow> Inr (Some x)
      | Inl DoesNotExist \<Rightarrow> Inr None
      | Inl err \<Rightarrow> Inl err)"

text \<open>
  The filters shared by both tags (lines 82-100 and 121-139): each given name is looked
  up, and a missing one ends the tag with the empty list (\<open>Inr None\<close> here).
\<close>

definition tag_filters ::
  "db \<Rightarrow> string option \<Rightarrow> string option \<Rightarrow> string option \<Rightarrow> query_set \<Rightarrow> py_exc + query_set option" where
  "tag_filters d tag uname location q =
     sbind (case tag of None \<Rightarrow> Inr (Some q)
            | Some t \<Rightarrow> sbind (soft_lookup (\<lambda>k. kw_title k = t \<or> kw_slug k = t) (db_keywords d))
                          (\<lambda>r. Inr (map_option (\<lambda>k. qs_filter (has_keyword k) q) r))) (\<lambda>r1.
     case r1 of None \<Rightarrow> Inr None | Some q1 \<Rightarrow>
     sbind (case location of None \<Rightarrow> Inr (Some q1)
            | Some s \<Rightarrow> sbind (soft_lookup (\<lambda>l. loc_title l = s \<or> loc_slug l = s) (db_locations d))
                          (\<lambda>r. Inr (map_option (\<lambda>l. qs_filter (at_location l) q1) r))) (\<lambda>r2.
     case r2 of None \<Rightarrow> Inr None | Some q2 \<Rightarrow>
     (case uname of None \<Rightarrow> Inr (Some q2)
      | Some n \<Rightarrow> sbind (soft_lookup (\<lambda>u. username u = n) (db_users d))
                    (\<lambda>r. Inr (map_option (\<lambda>u. qs_filter (by_user u) q2) r)))))"

text \<open>Lines 65-101: \<open>recent_events\<close>, the published events started or ended before now.\<close>

definition recent_events ::
  "db \<Rightarrow> datetime \<Rightarrow> nat \<Rightarrow> string option \<Rightarrow> string option \<Rightarrow> string option \<Rightarrow> py_exc + event list" where
  "recent_events d now limit tag uname location =
     sbind (tag_filters d tag uname location (qs_filter (past_at now) (published_qs d Anonymous now)))
       (\<lambda>r. Inr (case r of None \<Rightarrow> [] | Some q \<Rightarrow> take limit (qs_eval q)))"

text \<open>Lines 104-140: \<open>upcoming_events\<close>, the published events starting or ending after now.\<close>

definition upcoming_events ::
  "db \<Rightarrow> datetime \<Rightarrow> nat \<Rightarrow> string option \<Rightarrow> string option \<Rightarrow> string option \<Rightarrow> py_exc + event list" where
  "upcoming_events d now limit tag uname location =
     sbind (tag_filters d tag uname location (qs_filter (upcoming_at now) (published_qs d Anonymous now)))
       (\<lambda>r. Inr (case r of None \<Rightarrow> [] | Some q \<Rightarrow> take limit (qs_eval q)))"

section \<open>The query specification\<close>

text \<open>
  The contract of the specification (section 4.2): the lookups of the request's names
  come first (a missing keyword, location or user is \<open>Http404\<close>, a malformed year or
  month \<open>ValueError\<close>, a month past 12 \<open>Http404\<close>), and the answer is one
  conjunctive filter over the visible events, ordered by ascending start when only the
  upcoming window applies and by descending start otherwise.
\<close>

record criteria =
  c_tag :: "keyword option"
  c_location :: "event_location option"
  c_author :: "user option"
  c_year :: "nat option"
  c_month :: "nat option"
  c_upcoming :: bool

definition opt_pred :: "('a \<Rightarrow> event \<Rightarrow> bool) \<Rightarrow> 'a option \<Rightarrow> event \<Rightarrow> bool" where
  "opt_pred P a e = (case a of None \<Rightarrow> True | Some x \<Rightarrow> P x e)"

definition crit_match :: "criteria \<Rightarrow> datetime \<Rightarrow> event \<Rightarrow> bool" where
  "crit_match c now e \<longleftrightarrow>
     opt_pred has_keyword (c_tag c) e \<and>
     opt_pred (\<lambda>y e. dt_year (ev_start e) = y) (c_year c) e \<and>
     opt_pred (\<lambda>m e. dt_month (ev_start e) = m) (c_month c) e \<and>
     opt_pred at_location (c_location c) e \<and>
     opt_pred by_user (c_author c) e \<and>
     (if c_upcoming c then upcoming_at now e else True)"

definition spec_query :: "db \<Rightarrow> viewer \<Rightarrow> datetime \<Rightarrow> criteria \<Rightarrow> event list" where
  "spec_query d v now c =
     (let rows = filter (\<lambda>e. visible_to v now e \<and> crit_match c now e) (db_events d) in
      if c_upcoming c then order_asc ev_start rows else order_desc ev_start rows)"

definition lookup_404 :: "'a list \<Rightarrow> string option \<Rightarrow> (string \<Rightarrow> 'a \<Rightarrow> bool) \<Rightarrow> py_exc + 'a option" where
  "lookup_404 xs arg key =
     (case arg of None \<Rightarrow> Inr None
      | Some a \<Rightarrow> sbind (get_object_or_404 (key a) xs) (\<lambda>x. Inr (Some x)))"

definition date_criteria :: "string option \<Rightarrow> string option \<Rightarrow> py_exc + nat option \<times> nat option \<times> string option" where
  "date_criteria year month =
     (case year of
        None \<Rightarrow> Inr (None, None, None)
      | Some y \<Rightarrow>
          (case parse_nat y of
             None \<Rightarrow> Inl ValueError
           | Some yn \<Rightarrow>
               (case month of
                  None \<Rightarrow> Inr (Some yn, None, None)
                | Some m \<Rightarrow>
                    (case parse_nat m of
                       None \<Rightarrow> Inl ValueError
                     | Some mn \<Rightarrow> sbind (month_lookup m) (\<lambda>name. Inr (Some yn, Some mn, Some name))))))"

definition request_criteria ::
  "db \<Rightarrow> string option \<Rightarrow> string option \<Rightarrow> string option \<Rightarrow> string option \<Rightarrow> string option \<Rightarrow> py_exc + criteria" where
  "request_criteria d tag year month uname location =
     sbind (lookup_404 (db_keywords d) tag (\<lambda>t k. kw_slug k = t)) (\<lambda>k.
     sbind (date_criteria year month) (\<lambda>(yo, mo, nm).
     sbind (lookup_404 (db_locations d) location (\<lambda>s l. loc_slug l = s)) (\<lambda>l.
     sbind (lookup_404 (db_users d) uname (\<lambda>n u. username u = n)) (\<lambda>u.
       Inr \<lparr>c_tag = k, c_location = l, c_author = u, c_year = yo, c_month = mo,
            c_upcoming = (k = None \<and> \<not> str_opt_truthy year \<and> l = None \<and> \<not> str_opt_truthy uname)\<rparr>))))"

text \<open>The list state the four filter steps build from the lookups' results.\<close>

definition filtered_state ::
  "db \<Rightarrow> viewer \<Rightarrow> datetime \<Rightarrow> keyword option \<Rightarrow> nat option \<times> nat option \<times> string option \<Rightarrow>
   event_location option \<Rightarrow> user option \<Rightarrow> list_state" where
  "filtered_state d v now k ym l u =
     \<lparr>ls_qs = \<lparr>qs_rows = filter (\<lambda>e. visible_to v now e \<and> opt_pred has_keyword k e \<and>
                                   opt_pred (\<lambda>y e. dt_year (ev_start e) = y) (fst ym) e \<and>
                                   opt_pred (\<lambda>m e. dt_month (ev_start e) = m) (fst (snd ym)) e \<and>
                                   opt_pred at_location l e \<and> opt_pred by_user u e) (db_events d),
               qs_order = StartDesc\<rparr>,
      ls_tag = k, ls_month = snd (snd ym), ls_location = l, ls_author = u\<rparr>"

section \<open>Example data\<close>

text \<open>A two-event database the witnesses below evaluate the views on.\<close>

abbreviation demo_launch :: event where
  "demo_launch \<equiv>
     \<lparr>ev_id = 1, ev_title = ''Launch'', ev_slug = ''launch'', ev_start = DT 2024 6 1 18 0 0 0,
      ev_end = Some (DT 2024 6 1 22 0 0 0), ev_location = None, ev_keywords = [1], ev_status = Published,
      publish_date = Some (DT 2024 4 1 0 0 0 0), expiry_date = None, ev_user = 1, ev_content = []\<rparr>"

abbreviation demo_draft :: event where
  "demo_draft \<equiv>
     \<lparr>ev_id = 2, ev_title = ''Party'', ev_slug = ''party'', ev_start = DT 2024 7 1 20 0 0 0,
      ev_end = None, ev_location = None, ev_keywords = [], ev_status = Draft,
      publish_date = None, expiry_date = None, ev_user = 1, ev_content = []\<rparr>"

abbreviation demo_db :: db where
  "demo_db \<equiv>
     \<lparr>db_events = [demo_launch, demo_draft], db_locations = [],
      db_keywords = [\<lparr>kw_id = 1, kw_title = ''Music'', kw_slug = ''music''\<rparr>],
      db_users = [\<lparr>u_id = 1, username = ''ann'', first_name = ''Ann'', last_name = ''Lee''\<rparr>]\<rparr>"

abbreviation demo_now :: datetime where
  "demo_now \<equiv> DT 2024 5 1 0 0 0 0"

abbreviation demo_settings :: agenda_settings where
  "demo_settings \<equiv> agenda_defaults ''Site'' ''Events'' True"

section \<open>Lemmas\<close>

lemma qs_filter_simps [simp]:
  "qs_rows (qs_filter P q) = filter P (qs_rows q)" "qs_order (qs_filter P q) = qs_order q"
  by (simp_all add: qs_filter_def)

lemma opt_pred_None [simp]: "opt_pred P None = (\<lambda>e. True)"
  by (simp add: opt_pred_def fun_eq_iff)

lemma if_None_same [simp]: "(if x = None then None else x) = x"
  by simp

lemma qs_filter_True [simp]: "qs_filter (\<lambda>e. True) q = q"
  by (simp add: qs_filter_def)

lemma opt_pred_Some [simp]: "opt_pred P (Some a) = P a"
  by (simp add: opt_pred_def fun_eq_iff)

lemma step_tag_lookup:
  "step_tag d tag st =
     sbind (lookup_404 (db_keywords d) tag (\<lambda>t k. kw_slug k = t)) (\<lambda>k.
       Inr (st\<lparr>ls_qs := qs_filter (opt_pred has_keyword k) (ls_qs st), ls_tag := (if k = None then ls_tag st else k)\<rparr>))"
  by (cases tag) (simp_all add: step_tag_def lookup_404_def qs_filter_def sbind_assoc)

lemma step_location_lookup:
  "step_location d location st =
     sbind (lookup_404 (db_locations d) location (\<lambda>s l. loc_slug l = s)) (\<lambda>l.
       Inr (st\<lparr>ls_qs := qs_filter (opt_pred at_location l) (ls_qs st), ls_location := (if l = None then ls_location st else l)\<rparr>))"
  by (cases location) (simp_all add: step_location_def lookup_404_def qs_filter_def sbind_assoc)

lemma step_author_lookup:
  "step_author d uname st =
     sbind (lookup_404 (db_users d) uname (\<lambda>n u. username u = n)) (\<lambda>u.
       Inr (st\<lparr>ls_qs := qs_filter (opt_pred by_user u) (ls_qs st), ls_author := (if u = None then ls_author st else u)\<rparr>))"
  by (cases uname) (simp_all add: step_author_def lookup_404_def qs_filter_def sbind_assoc)

lemma step_year_month_lookup:
  "step_year_month year month st =
     sbind (date_criteria year month) (\<lambda>(yo, mo, nm).
       Inr (st\<lparr>ls_qs := qs_filter (opt_pred (\<lambda>m e. dt_month (ev_start e) = m) mo)
                          (qs_filter (opt_pred (\<lambda>y e. dt_year (ev_start e) = y) yo) (ls_qs st)),
               ls_month := (if nm = None then ls_month st else nm)\<rparr>))"
  by (simp add: step_year_month_def date_criteria_def qs_filter_def Let_def sbind_assoc split: option.splits)

lemma list_query_normal:
  "list_query d v now tag year month uname location =
     sbind (lookup_404 (db_keywords d) tag (\<lambda>t k. kw_slug k = t)) (\<lambda>k.
     sbind (date_criteria year month) (\<lambda>ym.
     sbind (lookup_404 (db_locations d) location (\<lambda>s l. loc_slug l = s)) (\<lambda>l.
     sbind (lookup_404 (db_users d) uname (\<lambda>n u. username u = n)) (\<lambda>u.
       Inr (step_window now year uname (filtered_state d v now k ym l u))))))"
  unfolding list_query_def step_tag_lookup step_year_month_lookup step_location_lookup
    step_author_lookup sbind_assoc sbind_Inr
  by (simp add: filtered_state_def init_state_def published_qs_def qs_filter_def split_def conj_ac
           cong: if_cong split: option.splits)

lemma filtered_state_window:
  assumes "no_list_filter (filtered_state d v now k ym l u) year uname = w"
  shows "qs_eval (ls_qs (step_window now year uname (filtered_state d v now k ym l u))) =
   spec_query d v now
     \<lparr>c_tag = k, c_location = l, c_author = u, c_year = fst ym, c_month = fst (snd ym), c_upcoming = w\<rparr>"
proof (cases w)
  case True
  with assms show ?thesis
    by (simp add: step_window_def filtered_state_def spec_query_def crit_match_def
                  qs_eval_def qs_filter_def Let_def conj_ac)
next
  case False
  with assms show ?thesis
    by (simp add: step_window_def filtered_state_def spec_query_def crit_match_def qs_eval_def)
qed

lemma no_list_filter_filtered_state:
  "no_list_filter (filtered_state d v now k ym l u) year uname =
     (k = None \<and> \<not> str_opt_truthy year \<and> l = None \<and> \<not> str_opt_truthy uname)"
  by (simp add: no_list_filter_def filtered_state_def)

lemma list_query_spec:
  "map_sum id (\<lambda>st. qs_eval (ls_qs st)) (list_query d v now tag year month uname location) =
   map_sum id (spec_query d v now) (request_criteria d tag year month uname location)"
  unfolding list_query_normal request_criteria_def map_sum_sbind
  by (simp add: filtered_state_window [OF no_list_filter_filtered_state] split_def map_sum_sbind)


lemma list_query_Inr_spec:
  assumes "list_query d v now tag year month uname location = Inr st"
  obtains c where "request_criteria d tag year month uname location = Inr c"
    "qs_eval (ls_qs st) = spec_query d v now c"
  using list_query_spec [of d v now tag year month uname location] assms
  by (cases "request_criteria d tag year month uname location") auto

lemma list_query_Inl_iff:
  "list_query d v now tag year month uname location = Inl x \<longleftrightarrow>
   request_criteria d tag year month uname location = Inl x"
  using list_query_spec [of d v now tag year month uname location]
  by (cases "list_query d v now tag year month uname location";
      cases "request_criteria d tag year month uname location") auto

lemma set_spec_query:
  "set (spec_query d v now c) = {e \<in> set (db_events d). visible_to v now e \<and> crit_match c now e}"
  by (auto simp: spec_query_def Let_def)

lemma mset_spec_query:
  "mset (spec_query d v now c) = mset (filter (\<lambda>e. visible_to v now e \<and> crit_match c now e) (db_events d))"
  by (simp add: spec_query_def Let_def)

lemma distinct_spec_query:
  assumes "distinct (map f (db_events d))"
  shows "distinct (map f (spec_query d v now c))"
proof -
  have "mset (map f (spec_query d v now c)) =
        mset (map f (filter (\<lambda>e. visible_to v now e \<and> crit_match c now e) (db_events d)))"
    by (simp only: mset_map mset_spec_query)
  from mset_eq_imp_distinct_iff [OF this] distinct_map_filter [OF assms] show ?thesis
    by simp
qed

lemma set_paginate: "set (paginate xs page k) \<subseteq> set xs"
  by (auto simp: paginate_def dest: in_set_takeD in_set_dropD)

lemma set_qs_eval_published: "set (qs_eval (published_qs d v now)) = {e \<in> set (db_events d). visible_to v now e}"
  by (auto simp: qs_eval_def published_qs_def)

lemma set_qs_eval: "set (qs_eval q) = set (qs_rows q)"
  by (simp add: qs_eval_def split: qs_order.splits)

lemma sbind_opt_Some:
  "sbind m (\<lambda>r. case r of None \<Rightarrow> Inr None | Some x \<Rightarrow> f x) = Inr (Some y) \<Longrightarrow>
   \<exists>x. m = Inr (Some x) \<and> f x = Inr (Some y)"
  by (cases m) (auto split: option.splits)

lemma soft_stage_rows:
  "(case a of None \<Rightarrow> Inr (Some q)
    | Some t \<Rightarrow> sbind (soft_lookup (P t) xs) (\<lambda>r. Inr (map_option (\<lambda>k. qs_filter (F k) q) r))) = Inr (Some q') \<Longrightarrow>
   set (qs_rows q') \<subseteq> set (qs_rows q)"
  by (cases a; cases "soft_lookup (P (the a)) xs") (auto simp: qs_filter_def)

lemma tag_filters_rows:
  "tag_filters d tag uname location q = Inr (Some q') \<Longrightarrow> set (qs_rows q') \<subseteq> set (qs_rows q)"
  unfolding tag_filters_def
  apply (drule sbind_opt_Some, elim exE conjE)
  apply (drule sbind_opt_Some, elim exE conjE)
  apply (drule soft_stage_rows)+
  by blast
lemma tag_result_rows:
  "sbind (tag_filters d tag uname location q) (\<lambda>r. Inr (case r of None \<Rightarrow> [] | Some q \<Rightarrow> take limit (qs_eval q))) = Inr es \<Longrightarrow>
   set es \<subseteq> set (qs_rows q)"
  by (cases "tag_filters d tag uname location q")
     (auto split: option.splits dest!: tag_filters_rows in_set_takeD simp: set_qs_eval)

lemma add_events_Inr:
  "add_events s domain base locs es cal = Inr cal' \<Longrightarrow>
   cal_prodid cal' = cal_prodid cal \<and> cal_version cal' = cal_version cal \<and>
   (\<exists>cs. cal_components cal' = cal_components cal @ cs \<and>
         list_all2 (\<lambda>e c. get_icalendar_event s domain base locs e = Inr c) es cs)"
proof (induction es arbitrary: cal)
  case Nil
  then show ?case by simp
next
  case (Cons e es)
  then obtain c where c: "get_icalendar_event s domain base locs e = Inr c"
    and rest: "add_events s domain base locs es (add_component c cal) = Inr cal'"
    by (auto simp: sbind_eq_Inr)
  from Cons.IH [OF rest] c show ?case
    by (auto simp: add_component_def)
qed

lemma uids_of_components:
  "list_all2 (\<lambda>e c. get_icalendar_event s domain base locs e = Inr c) es cs \<Longrightarrow>
   map (\<lambda>c. map_of c ''uid'') cs = map (\<lambda>e. Some (IText (event_uid domain e))) es"
  by (induction rule: list_all2_induct) (simp_all add: get_icalendar_event_uid)

lemma distinct_uids:
  "distinct (map ev_id es) \<Longrightarrow> distinct (map (\<lambda>e. Some (IText (event_uid domain e))) es)"
  by (induction es) (auto simp: event_uid_inj)

lemma request_criteria_none:
  "request_criteria d None None None None None =
   Inr \<lparr>c_tag = None, c_location = None, c_author = None, c_year = None, c_month = None, c_upcoming = True\<rparr>"
  by (simp add: request_criteria_def lookup_404_def date_criteria_def str_opt_truthy_def)

lemma list_query_unknown_tag:
  "\<forall>k \<in> set (db_keywords d). kw_slug k \<noteq> t \<Longrightarrow>
   list_query d v now (Some t) year month uname location = Inl Http404"
  by (simp add: list_query_def step_tag_def get_object_or_404_none)

lemma step_window_fields [simp]:
  "ls_tag (step_window now year uname st) = ls_tag st"
  "ls_month (step_window now year uname st) = ls_month st"
  "ls_location (step_window now year uname st) = ls_location st"
  "ls_author (step_window now year uname st) = ls_author st"
  by (simp_all add: step_window_def)

lemma list_query_tag_only:
  "list_query d v now (Some t) None None None None =
   sbind (get_object_or_404 (\<lambda>k. kw_slug k = t) (db_keywords d)) (\<lambda>k.
     Inr (step_window now None None ((init_state d v now)\<lparr>ls_qs := qs_filter (has_keyword k) (ls_qs (init_state d v now)),
                                                        ls_tag := Some k\<rparr>)))"
  by (simp add: list_query_def step_tag_def step_year_month_def step_location_def step_author_def sbind_assoc)

lemma list_query_no_args:
  "list_query d v now None None None None None = Inr (step_window now None None (init_state d v now))"
  by (simp add: list_query_def step_tag_def step_year_month_def step_location_def step_author_def)

lemma concat_pages_take:
  "concat (map (\<lambda>n. take k (drop (n * k) xs)) [0..<m]) = take (m * k) xs"
proof (induction m)
  case (Suc m)
  have "take (Suc m * k) xs = take (m * k + k) xs" by (simp add: add.commute)
  also have "\<dots> = take (m * k) xs @ take k (drop (m * k) xs)" by (rule take_add)
  finally show ?case using Suc by simp
qed simp

lemma concat_paginate:
  assumes "0 < k"
  shows "concat (map (\<lambda>n. paginate xs n k) [1..<Suc (num_pages (length xs) k)]) = xs"
proof -
  let ?N = "num_pages (length xs) k"
  have "map (\<lambda>n. paginate xs n k) [1..<Suc ?N] = map (\<lambda>n. take k (drop (n * k) xs)) [0..<?N]"
    by (simp add: paginate_def map_Suc_upt [symmetric] comp_def del: upt_Suc)
  moreover have "length xs \<le> ?N * k"
  proof -
    let ?a = "length xs + k - 1"
    have "?a div k * k + ?a mod k = ?a" by (rule div_mult_mod_eq)
    moreover have "?a mod k < k" using assms by simp
    moreover have "?N * k = ?a div k * k" using assms by (simp add: num_pages_def)
    ultimately show ?thesis using assms by linarith
  qed
  ultimately show ?thesis by (simp add: concat_pages_take)
qed

text \<open>
  C11. The filter chain of \<open>event_list\<close> and \<open>icalendar\<close> (views.py lines 38-62 and
  132-153) implements the query contract: it fails exactly when resolving the request's
  names fails, with the same exception, and otherwise evaluates to the events visible to
  the viewer that meet every given criterion, by ascending start when only the upcoming
  window applies and by descending start otherwise.
\<close>

theorem list_query_refines:
  "map_sum id (\<lambda>st. qs_eval (ls_qs st)) (list_query d v now tag year month uname location) =
   map_sum id (spec_query d v now) (request_criteria d tag year month uname location)"
  by (rule list_query_spec)

text \<open>
  C12. An anonymous visitor sees only published events: every event of an
  \<open>event_list\<close> page, the event \<open>event_detail\<close> shows, and every event the
  \<open>upcoming_events\<close> and \<open>recent_events\<close> tags return is published at the time of
  the request (status published, publish date passed, expiry date not passed).
\<close>

theorem anonymous_sees_only_published:
  "(event_list s d Anonymous now tag year month uname location page = Inr p \<longrightarrow>
      (\<forall>e \<in> set (lp_events p). published_at now e)) \<and>
   (event_detail d Anonymous now slug = Inr e \<longrightarrow> published_at now e) \<and>
   (upcoming_events d now limit tag uname location = Inr es \<longrightarrow> (\<forall>e \<in> set es. published_at now e)) \<and>
   (recent_events d now limit tag uname location = Inr rs \<longrightarrow> (\<forall>e \<in> set rs. published_at now e))"
proof (intro conjI impI ballI)
  fix e assume "event_list s d Anonymous now tag year month uname location page = Inr p" "e \<in> set (lp_events p)"
  then obtain st where st: "list_query d Anonymous now tag year month uname location = Inr st"
    and "e \<in> set (paginate (qs_eval (ls_qs st)) page (event_per_page s))"
    by (auto simp: event_list_def sbind_eq_Inr)
  then have e: "e \<in> set (qs_eval (ls_qs st))" using set_paginate by fast
  from st obtain c where "qs_eval (ls_qs st) = spec_query d Anonymous now c"
    by (rule list_query_Inr_spec)
  with e show "published_at now e" by (simp add: set_spec_query visible_to_def)
next
  assume "event_detail d Anonymous now slug = Inr e"
  then have "e \<in> set (qs_eval (published_qs d Anonymous now))"
    by (auto simp: event_detail_def get_object_or_404_Inr dest: filter_singleton_mem)
  then show "published_at now e" by (simp add: set_qs_eval_published visible_to_def)
next
  fix e assume "upcoming_events d now limit tag uname location = Inr es" "e \<in> set es"
  then show "published_at now e"
    unfolding upcoming_events_def
    by (auto simp: published_qs_def visible_to_def dest!: tag_result_rows)
next
  fix e assume "recent_events d now limit tag uname location = Inr rs" "e \<in> set rs"
  then show "published_at now e"
    unfolding recent_events_def
    by (auto simp: published_qs_def visible_to_def dest!: tag_result_rows)
qed

theorem anonymous_sees_only_published_witness:
  "map_sum id lp_events (event_list demo_settings demo_db Anonymous demo_now None None None None None 1) = Inr [demo_launch] \<and>
   event_detail demo_db Anonymous demo_now ''launch'' = Inr demo_launch \<and>
   upcoming_events demo_db demo_now 5 None None None = Inr [demo_launch] \<and>
   recent_events demo_db demo_now 5 None None None = Inr [] \<and>
   published_at demo_now demo_launch"
proof -
  have l: "map_sum id lp_events (event_list demo_settings demo_db Anonymous demo_now None None None None None 1) = Inr [demo_launch]"
    by code_simp
  then obtain p where p: "event_list demo_settings demo_db Anonymous demo_now None None None None None 1 = Inr p"
    and pe: "lp_events p = [demo_launch]"
    by (cases "event_list demo_settings demo_db Anonymous demo_now None None None None None 1") auto
  have dt: "event_detail demo_db Anonymous demo_now ''launch'' = Inr demo_launch" by code_simp
  have up: "upcoming_events demo_db demo_now 5 None None None = Inr [demo_launch]" by code_simp
  have re: "recent_events demo_db demo_now 5 None None None = Inr []" by code_simp
  from anonymous_sees_only_published [where s = demo_settings and d = demo_db and now = demo_now
         and tag = None and year = None and month = None and uname = None and location = None
         and page = 1 and p = p and e = demo_launch and slug = "''launch''" and limit = 5
         and es = "[demo_launch]" and rs = "[]"] p pe dt up re
  show ?thesis using l by simp
qed

text \<open>
  C13. Without a tag, year, location or author, the list (and the calendar) holds
  exactly the visible events that are upcoming or ongoing, ordered by ascending start.
\<close>

theorem event_list_default_upcoming:
  "map_sum id (\<lambda>st. qs_eval (ls_qs st)) (list_query d v now None None None None None) =
   Inr (order_asc ev_start (filter (\<lambda>e. visible_to v now e \<and> upcoming_at now e) (db_events d)))"
  by (simp add: list_query_spec request_criteria_none spec_query_def crit_match_def)

text \<open>
  C14. A keyword slug that names no keyword makes \<open>event_list\<close> and \<open>icalendar\<close>
  raise \<open>Http404\<close>, whatever the other arguments: the views use
  \<open>get_object_or_404\<close>, not the empty result of the specification's soft miss.
\<close>

theorem unknown_tag_not_found:
  assumes "\<forall>k \<in> set (db_keywords d). kw_slug k \<noteq> t"
  shows "event_list s d v now (Some t) year month uname location page = Inl Http404 \<and>
         icalendar s ver domain base d v now (Some t) year month uname location = Inl Http404"
  using list_query_unknown_tag [OF assms] by (simp add: event_list_def icalendar_def)

theorem unknown_tag_not_found_witness:
  "event_list demo_settings demo_db Anonymous demo_now (Some ''jazz'') None None None None 1 = Inl Http404 \<and>
   icalendar demo_settings ''0.1'' ''example.com'' ''/events/'' demo_db Anonymous demo_now (Some ''jazz'') None None None None = Inl Http404"
proof -
  have "\<forall>k \<in> set (db_keywords demo_db). kw_slug k \<noteq> ''jazz''" by simp
  from unknown_tag_not_found [OF this] show ?thesis .
qed

text \<open>
  C15. A month number past 12 (with a valid year and no tag) makes \<open>event_list\<close> and
  \<open>icalendar\<close> raise \<open>Http404\<close>: \<open>month_name[int(month)]\<close> raises
  \<open>IndexError\<close>, which the views turn into \<open>Http404\<close>.
\<close>

theorem month_out_of_range_not_found:
  assumes "parse_nat y = Some yn" "parse_nat m = Some mn" "12 < mn"
  shows "event_list s d v now None (Some y) (Some m) uname location page = Inl Http404 \<and>
         icalendar s ver domain base d v now None (Some y) (Some m) uname location = Inl Http404"
proof -
  have "list_query d v now None (Some y) (Some m) uname location = Inl Http404"
    using assms by (simp add: list_query_def step_tag_def step_year_month_def month_lookup_def
                              length_month_name Let_def)
  then show ?thesis by (simp add: event_list_def icalendar_def)
qed

theorem month_out_of_range_not_found_witness:
  "event_list demo_settings demo_db Anonymous demo_now None (Some ''2024'') (Some ''13'') None None 1 = Inl Http404 \<and>
   icalendar demo_settings ''0.1'' ''example.com'' ''/events/'' demo_db Anonymous demo_now None (Some ''2024'') (Some ''13'') None None = Inl Http404"
proof -
  have y: "parse_nat ''2024'' = Some 2024" by code_simp
  have m: "parse_nat ''13'' = Some 13" by code_simp
  from month_out_of_range_not_found [OF y m] show ?thesis by simp
qed

text \<open>
  C16. The calendar \<open>icalendar\<close> exports has the package's product id, version 2.0,
  and one component per event of the list query, in the query's order, each carrying that
  event's identifier \<open>event-ID@DOMAIN\<close>; when event ids are distinct, so are the
  components' identifiers.
\<close>

theorem icalendar_components:
  assumes "icalendar s ver domain base d v now tag year month uname location = Inr cal"
    and "distinct (map ev_id (db_events d))"
  shows "\<exists>st. list_query d v now tag year month uname location = Inr st \<and>
           cal_prodid cal = ''-//mezzanine-agenda//NONSGML V'' @ ver @ ''//EN'' \<and> cal_version cal = ''2.0'' \<and>
           map (\<lambda>c. map_of c ''uid'') (cal_components cal) =
             map (\<lambda>e. Some (IText (event_uid domain e))) (qs_eval (ls_qs st)) \<and>
           distinct (map (\<lambda>c. map_of c ''uid'') (cal_components cal))"
proof -
  from assms(1) obtain st where st: "list_query d v now tag year month uname location = Inr st"
    and cal: "add_events s domain base (db_locations d) (qs_eval (ls_qs st)) (make_icalendar ver) = Inr cal"
    by (auto simp: icalendar_def sbind_eq_Inr)
  from st obtain c where q: "qs_eval (ls_qs st) = spec_query d v now c"
    by (rule list_query_Inr_spec)
  have dist: "distinct (map ev_id (qs_eval (ls_qs st)))"
    unfolding q by (rule distinct_spec_query [OF assms(2)])
  from add_events_Inr [OF cal] obtain cs where
    "cal_prodid cal = ''-//mezzanine-agenda//NONSGML V'' @ ver @ ''//EN''" "cal_version cal = ''2.0''"
    "cal_components cal = cs"
    "list_all2 (\<lambda>e c. get_icalendar_event s domain base (db_locations d) e = Inr c) (qs_eval (ls_qs st)) cs"
    by (auto simp: make_icalendar_def)
  with st dist show ?thesis
    by (auto simp: uids_of_components distinct_uids)
qed

theorem icalendar_components_witness:
  "icalendar demo_settings ''0.1'' ''example.com'' ''/events/'' demo_db (Staff 1) demo_now None None None None None =
     Inr \<lparr>cal_prodid = ''-//mezzanine-agenda//NONSGML V0.1//EN'', cal_version = ''2.0'',
          cal_components =
            [[(''summary'', IText ''Launch''), (''url'', IText ''http://example.com/events/launch/''),
              (''dtstamp'', IDate (DT 2024 6 1 18 0 0 0)), (''dtstart'', IDate (DT 2024 6 1 18 0 0 0)),
              (''dtend'', IDate (DT 2024 6 1 22 0 0 0)), (''uid'', IText ''event-1@example.com'')],
             [(''summary'', IText ''Party''), (''url'', IText ''http://example.com/events/party/''),
              (''dtstamp'', IDate (DT 2024 7 1 20 0 0 0)), (''dtstart'', IDate (DT 2024 7 1 20 0 0 0)),
              (''uid'', IText ''event-2@example.com'')]]\<rparr> \<and>
   distinct [Some (IText ''event-1@example.com''), Some (IText ''event-2@example.com'')]"
proof -
  let ?cal = "\<lparr>cal_prodid = ''-//mezzanine-agenda//NONSGML V0.1//EN'', cal_version = ''2.0'',
          cal_components =
            [[(''summary'', IText ''Launch''), (''url'', IText ''http://example.com/events/launch/''),
              (''dtstamp'', IDate (DT 2024 6 1 18 0 0 0)), (''dtstart'', IDate (DT 2024 6 1 18 0 0 0)),
              (''dtend'', IDate (DT 2024 6 1 22 0 0 0)), (''uid'', IText ''event-1@example.com'')],
             [(''summary'', IText ''Party''), (''url'', IText ''http://example.com/events/party/''),
              (''dtstamp'', IDate (DT 2024 7 1 20 0 0 0)), (''dtstart'', IDate (DT 2024 7 1 20 0 0 0)),
              (''uid'', IText ''event-2@example.com'')]]\<rparr>"
  have h: "icalendar demo_settings ''0.1'' ''example.com'' ''/events/'' demo_db (Staff 1) demo_now None None None None None = Inr ?cal"
    by code_simp
  have ids: "distinct (map ev_id (db_events demo_db))" by simp
  from icalendar_components [OF h ids] h show ?thesis by auto
qed

text \<open>
  C17. The \<open>upcoming_events\<close> and \<open>recent_events\<close> tags treat a keyword that matches
  no keyword's title or slug as a soft miss: they return the empty list.
\<close>

theorem tags_unknown_keyword_empty:
  assumes "\<forall>k \<in> set (db_keywords d). kw_title k \<noteq> t \<and> kw_slug k \<noteq> t"
  shows "upcoming_events d now limit (Some t) uname location = Inr [] \<and>
         recent_events d now limit (Some t) uname location = Inr []"
  using assms
  by (simp add: upcoming_events_def recent_events_def tag_filters_def soft_lookup_def qs_get_none)

theorem tags_unknown_keyword_empty_witness:
  "upcoming_events demo_db demo_now 5 (Some ''jazz'') None None = Inr [] \<and>
   recent_events demo_db demo_now 5 (Some ''jazz'') None None = Inr []"
proof -
  have "\<forall>k \<in> set (db_keywords demo_db). kw_title k \<noteq> ''jazz'' \<and> kw_slug k \<noteq> ''jazz''" by simp
  from tags_unknown_keyword_empty [OF this] show ?thesis .
qed

text \<open>
  C18. Without filters, \<open>upcoming_events\<close> returns the first \<open>limit\<close> published
  upcoming-or-ongoing events in descending start order (so the limit keeps the furthest
  events and drops the soonest), and \<open>recent_events\<close> the first \<open>limit\<close> published
  started-or-ended events, most recent first.
\<close>

theorem upcoming_events_furthest_first:
  "upcoming_events d now limit None None None =
     Inr (take limit (order_desc ev_start (filter (\<lambda>e. published_at now e \<and> upcoming_at now e) (db_events d)))) \<and>
   recent_events d now limit None None None =
     Inr (take limit (order_desc ev_start (filter (\<lambda>e. published_at now e \<and> past_at now e) (db_events d))))"
  by (simp add: upcoming_events_def recent_events_def tag_filters_def qs_eval_def published_qs_def
                visible_to_def conj_commute)

end
