(* ===== verification/Feeds.thy ===== *)
theory Feeds
  imports Queries
begin

text \<open>
  The RSS and Atom feeds of \<open>src/mezzanine_agenda/feeds.py\<close> and the view
  \<open>event_feed\<close> of \<open>src/mezzanine_agenda/views.py\<close> (lines 89-96) that dispatches on
  the format. \<open>EventsRSS.__init__\<close> becomes \<open>feed_init\<close>, which builds the feed
  object from the URL's keyword arguments and the published pages; its attributes
  \<open>_title\<close> and \<open>_description\<close> are set only on some branches, so they are
  \<open>string option\<close> fields and reading an unset one is \<open>AttributeError\<close>. The methods
  \<open>items\<close>, \<open>locations\<close>, \<open>item_author_name\<close> and \<open>item_author_link\<close> are one
  definition each. How Django's \<open>Feed\<close> calls them (link, title, subtitle for Atom,
  description, then the items and per item its link, author name, author link and
  publish date) is \<open>render_feed\<close>, modelled from Django's \<open>Feed.get_feed\<close>; the XML
  serialisation is not modelled.
\<close>

section \<open>Pages\<close>

text \<open>The fields of Mezzanine's \<open>Page\<close> the feed reads.\<close>

record page =
  pg_slug :: string
  pg_title :: string
  pg_description :: string
  pg_login_required :: bool

text \<open>Django's \<open>strip_tags\<close>, for well-formed markup: the text outside \<open><...>\<close>.\<close>

fun strip_tags_aux :: "bool \<Rightarrow> string \<Rightarrow> string" where
  "strip_tags_aux inside [] = []"
| "strip_tags_aux inside (c # cs) =
     (if inside then strip_tags_aux (c \<noteq> CHR ''>'') cs
      else if c = CHR ''<'' then strip_tags_aux True cs
      else c # strip_tags_aux False cs)"

definition strip_tags :: "string \<Rightarrow> string" where
  "strip_tags s = strip_tags_aux False s"

section \<open>EventsRSS\<close>

record events_feed =
  fd_tag :: "string option"
  fd_location :: "string option"
  fd_username :: "string option"
  fd_public :: bool
  fd_title :: "string option"
  fd_description :: "string option"

text \<open>
  Lines 25-50: \<open>__init__\<close>. \<open>pages\<close> are the published pages; a missing events page
  falls back to the site title and tagline, a login-protected one makes the feed private
  and leaves \<open>_title\<close> and \<open>_description\<close> unset. Several pages with the slug raise
  \<open>MultipleObjectsReturned\<close>, which the code does not catch.
\<close>

definition feed_init ::
  "agenda_settings \<Rightarrow> page list \<Rightarrow> string option \<Rightarrow> string option \<Rightarrow> string option \<Rightarrow> py_exc + events_feed" where
  "feed_init s pages tag location uname =
     (let f0 = \<lparr>fd_tag = tag, fd_location = location, fd_username = uname, fd_public = True,
                fd_title = None, fd_description = None\<rparr> in
      case qs_get (\<lambda>p. pg_slug p = event_slug s) pages of
        Inl DoesNotExist \<Rightarrow> Inr (f0\<lparr>fd_title := Some (site_title s), fd_description := Some (site_tagline s)\<rparr>)
      | Inl err \<Rightarrow> Inl err
      | Inr p \<Rightarrow>
          if pg_login_required p then Inr (f0\<lparr>fd_public := False\<rparr>)
          else Inr (f0\<lparr>fd_title := Some (pg_title p @ '' | '' @ site_title s),
                       fd_description := Some (strip_tags (pg_description p))\<rparr>))"

text \<open>Lines 52-56: \<open>title\<close> and \<open>description\<close> read the attributes \<open>__init__\<close> set.\<close>

definition feed_title :: "events_feed \<Rightarrow> py_exc + string" where
  "feed_title f = (case fd_title f of None \<Rightarrow> Inl AttributeError | Some t \<Rightarrow> Inr t)"

definition feed_description :: "events_feed \<Rightarrow> py_exc + string" where
  "feed_description f = (case fd_description f of None \<Rightarrow> Inl AttributeError | Some t \<Rightarrow> Inr t)"

text \<open>Lines 58-59: \<open>link\<close>.\<close>

definition feed_link :: "agenda_settings \<Rightarrow> string \<Rightarrow> py_exc + string" where
  "feed_link s base = reverse (append_slash s) base ''event_list'' []"

text \<open>
  Lines 65-73: one filter of \<open>items\<close>. The argument is tested by Python truth (a
  non-empty string), then looked up with \<open>get_object_or_404\<close>.
\<close>

definition truthy_lookup ::
  "string option \<Rightarrow> (string \<Rightarrow> 'a \<Rightarrow> bool) \<Rightarrow> 'a list \<Rightarrow> ('a \<Rightarrow> event \<Rightarrow> bool) \<Rightarrow> query_set \<Rightarrow> py_exc + query_set" where
  "truthy_lookup arg key xs P q =
     (case arg of
        None \<Rightarrow> Inr q
      | Some a \<Rightarrow> if a = [] then Inr q else sbind (get_object_or_404 (key a) xs) (\<lambda>x. Inr (qs_filter (P x) q)))"

text \<open>
  Lines 61-77: \<open>items\<close>, the published events (for no user, so only those published at
  the time) with the feed's filters, cut to \<open>EVENT_RSS_LIMIT\<close> unless it is \<open>None\<close>.
\<close>

definition feed_items :: "agenda_settings \<Rightarrow> db \<Rightarrow> datetime \<Rightarrow> events_feed \<Rightarrow> py_exc + event list" where
  "feed_items s d now f =
     (if \<not> fd_public f then Inr []
      else
        sbind (truthy_lookup (fd_tag f) (\<lambda>t k. kw_slug k = t) (db_keywords d) has_keyword
                 (published_qs d Anonymous now)) (\<lambda>q1.
        sbind (truthy_lookup (fd_location f) (\<lambda>n l. loc_slug l = n) (db_locations d) at_location q1) (\<lambda>q2.
        sbind (truthy_lookup (fd_username f) (\<lambda>n u. username u = n) (db_users d) by_user q2) (\<lambda>q3.
          Inr (case event_rss_limit s of None \<Rightarrow> qs_eval q3 | Some n \<Rightarrow> take n (qs_eval q3))))))"

text \<open>
  Lines 82-85: \<open>locations\<close>. The name \<open>EventLocations\<close> is defined nowhere, so a
  public feed raises \<open>NameError\<close> here.
\<close>

definition feed_locations :: "events_feed \<Rightarrow> py_exc + event_location list" where
  "feed_locations f = (if \<not> fd_public f then Inr [] else Inl NameError)"

text \<open>Python's \<open>str.strip()\<close> on the ASCII whitespace characters.\<close>

definition py_is_space :: "char \<Rightarrow> bool" where
  "py_is_space c \<longleftrightarrow> c = CHR '' '' \<or> c = CHR ''\<newline>'' \<or> c = char_of (9::nat) \<or> c = char_of (11::nat) \<or>
                     c = char_of (12::nat) \<or> c = char_of (13::nat)"

definition py_strip :: "string \<Rightarrow> string" where
  "py_strip s = rev (dropWhile py_is_space (rev (dropWhile py_is_space s)))"

text \<open>Django's \<open>User.get_full_name\<close>: \<open>("%s %s" % (first_name, last_name)).strip()\<close>.\<close>

definition get_full_name :: "user \<Rightarrow> string" where
  "get_full_name u = py_strip (first_name u @ '' '' @ last_name u)"

text \<open>Line 88: \<open>item_author_name\<close>, the full name, or the username when it is empty.\<close>

definition item_author_name :: "user \<Rightarrow> string" where
  "item_author_name u = (let n = get_full_name u in if n \<noteq> [] then n else username u)"

text \<open>Lines 90-92: \<open>item_author_link\<close>.\<close>

definition item_author_link :: "agenda_settings \<Rightarrow> string \<Rightarrow> user \<Rightarrow> py_exc + string" where
  "item_author_link s base u = reverse (append_slash s) base ''event_list_author'' [(''username'', username u)]"

section \<open>Rendering a feed\<close>

text \<open>What the feed generator receives for one item.\<close>

record feed_item =
  fi_title :: string
  fi_link :: string
  fi_author_name :: string
  fi_author_link :: string
  fi_pubdate :: "datetime option"

text \<open>
  One item as \<open>Feed.get_feed\<close> builds it: the event's title, its absolute URL, then
  the author (\<open>item.user\<close>, following the foreign key) by lines 88 and 90-92, and the
  publish date by line 95.
\<close>

definition feed_item :: "agenda_settings \<Rightarrow> string \<Rightarrow> db \<Rightarrow> event \<Rightarrow> py_exc + feed_item" where
  "feed_item s base d e =
     sbind (event_get_absolute_url s base e) (\<lambda>link.
     sbind (qs_get (\<lambda>u. u_id u = ev_user e) (db_users d)) (\<lambda>u.
     sbind (item_author_link s base u) (\<lambda>al.
       Inr \<lparr>fi_title = ev_title e, fi_link = link, fi_author_name = item_author_name u,
            fi_author_link = al, fi_pubdate = publish_date e\<rparr>)))"

text \<open>The items in order; the first failing item's exception ends the rendering.\<close>

fun smap :: "('a \<Rightarrow> 'e + 'b) \<Rightarrow> 'a list \<Rightarrow> 'e + 'b list" where
  "smap f [] = Inr []"
| "smap f (x # xs) = sbind (f x) (\<lambda>y. sbind (smap f xs) (\<lambda>ys. Inr (y # ys)))"

datatype feed_format = RSS | Atom

record feed_doc =
  doc_title :: string
  doc_link :: string
  doc_subtitle :: "string option"
  doc_description :: string
  doc_items :: "feed_item list"

text \<open>
  \<open>Feed.get_feed\<close>: link, title, subtitle (Atom only: \<open>EventsAtom.subtitle\<close>, lines
  108-109, returns the description), description, then the items.
\<close>

definition render_feed ::
  "feed_format \<Rightarrow> agenda_settings \<Rightarrow> string \<Rightarrow> db \<Rightarrow> datetime \<Rightarrow> events_feed \<Rightarrow> py_exc + feed_doc" where
  "render_feed fmt s base d now f =
     sbind (feed_link s base) (\<lambda>link.
     sbind (feed_title f) (\<lambda>t.
     sbind (case fmt of RSS \<Rightarrow> Inr None | Atom \<Rightarrow> map_sum id Some (feed_description f)) (\<lambda>sub.
     sbind (feed_description f) (\<lambda>dsc.
     sbind (feed_items s d now f) (\<lambda>es.
     sbind (smap (feed_item s base d) es) (\<lambda>its.
       Inr \<lparr>doc_title = t, doc_link = link, doc_subtitle = sub, doc_description = dsc, doc_items = its\<rparr>))))))"

text \<open>Line 94: the format names of the dispatch table.\<close>

definition feed_format_of :: "string \<Rightarrow> feed_format option" where
  "feed_format_of fmt = (if fmt = ''rss'' then Some RSS else if fmt = ''atom'' then Some Atom else None)"

text \<open>
  Lines 89-96: \<open>event_feed\<close>. A format missing from the table raises \<open>KeyError\<close>; so
  does a \<open>KeyError\<close> raised while the feed is built or rendered, inside the same
  \<open>try\<close>; both become \<open>Http404\<close>.
\<close>

definition event_feed ::
  "agenda_settings \<Rightarrow> string \<Rightarrow> page list \<Rightarrow> db \<Rightarrow> datetime \<Rightarrow> string \<Rightarrow>
   string option \<Rightarrow> string option \<Rightarrow> string option \<Rightarrow> py_exc + feed_doc" where
  "event_feed s base pages d now fmt tag location uname =
     (case feed_format_of fmt of
        None \<Rightarrow> Inl Http404
      | Some ft \<Rightarrow>
          (case sbind (feed_init s pages tag location uname) (render_feed ft s base d now) of
             Inl KeyError \<Rightarrow> Inl Http404
           | r \<Rightarrow> r))"

section \<open>Example data\<close>

abbreviation demo_page :: page where
  "demo_page \<equiv> \<lparr>pg_slug = ''events'', pg_title = ''Events'', pg_description = ''<p>All events</p>'',
                 pg_login_required = False\<rparr>"

abbreviation demo_feed :: events_feed where
  "demo_feed \<equiv> \<lparr>fd_tag = None, fd_location = None, fd_username = None, fd_public = True,
                 fd_title = Some ''Events | Site'', fd_description = Some ''All events''\<rparr>"

abbreviation demo_db25 :: db where
  "demo_db25 \<equiv> demo_db\<lparr>db_events := map (\<lambda>i. demo_launch\<lparr>ev_id := i\<rparr>) [1..<26]\<rparr>"

section \<open>Lemmas\<close>

lemma truthy_lookup_empty [simp]:
  "truthy_lookup None key xs P q = Inr q" "truthy_lookup (Some []) key xs P q = Inr q"
  by (simp_all add: truthy_lookup_def)

lemma dropWhile_hd_not:
  "xs \<noteq> [] \<Longrightarrow> \<not> P (hd xs) \<Longrightarrow> dropWhile P xs = xs"
  by (cases xs) simp_all

lemma py_strip_all_space:
  assumes "\<forall>c\<in>set s. py_is_space c"
  shows "py_strip s = []"
proof -
  from assms have "dropWhile py_is_space s = []" by (induction s) auto
  then show ?thesis by (simp add: py_strip_def del: dropWhile_eq_Nil_conv)
qed

lemma py_strip_no_space_ends:
  assumes "s \<noteq> []" "\<not> py_is_space (hd s)" "\<not> py_is_space (last s)"
  shows "py_strip s = s"
proof -
  have "rev s \<noteq> []" "\<not> py_is_space (hd (rev s))" using assms by (simp_all add: hd_rev)
  then show ?thesis using assms by (simp add: py_strip_def dropWhile_hd_not)
qed

lemma render_feed_title_fails:
  "fd_title f = None \<Longrightarrow> feed_link s base = Inr l \<Longrightarrow> render_feed fmt s base d now f = Inl AttributeError"
  by (simp add: render_feed_def feed_title_def)

lemma feed_link_base: "feed_link s base = Inr base"
  by (cases "append_slash s")
     (simp_all add: feed_link_def reverse_def urlpatterns_def reverse_route_def route_defs Let_def)


text \<open>
  C19. With the feed public, no tag, location or author, and \<open>EVENT_RSS_LIMIT = n\<close>,
  the feed's items are the first \<open>n\<close> events published at the time, by descending
  start: there are exactly \<open>min n m\<close> of them for \<open>m\<close> published events.
\<close>

theorem feed_items_limit:
  assumes "fd_public f" "fd_tag f = None" "fd_location f = None" "fd_username f = None"
    and "event_rss_limit s = Some n"
  shows "feed_items s d now f = Inr (take n (order_desc ev_start (filter (published_at now) (db_events d)))) \<and>
         length (take n (order_desc ev_start (filter (published_at now) (db_events d)))) =
           min n (length (filter (published_at now) (db_events d))) \<and>
         sorted_wrt (\<ge>) (map ev_start (take n (order_desc ev_start (filter (published_at now) (db_events d)))))"
  using assms sorted_order_desc [of ev_start "filter (published_at now) (db_events d)"]
  by (simp add: feed_items_def published_qs_def qs_eval_def take_map [symmetric] sorted_wrt_take)

theorem feed_items_limit_witness:
  "map_sum id length (feed_items demo_settings demo_db25 demo_now demo_feed) = Inr 20"
proof -
  have lim: "event_rss_limit demo_settings = Some 20" by (simp add: agenda_defaults_def)
  have n: "length (filter (published_at demo_now) (db_events demo_db25)) = 25"
    by (simp add: published_at_def less_eq_datetime_def dt_key_def)
  from feed_items_limit [OF _ _ _ _ lim, of demo_feed demo_db25 demo_now] n show ?thesis by simp
qed

text \<open>
  C20. When the published events page requires login, the feed (RSS or Atom) fails with
  \<open>AttributeError\<close>: \<open>__init__\<close> sets \<open>_title\<close> only for a public feed, and
  \<open>title()\<close> reads it before \<open>items()\<close> could return its empty list.
\<close>

theorem feed_login_required_attribute_error:
  assumes "filter (\<lambda>p. pg_slug p = event_slug s) pages = [p]" "pg_login_required p"
    and "fmt = ''rss'' \<or> fmt = ''atom''"
  shows "event_feed s base pages d now fmt tag location uname = Inl AttributeError"
proof -
  have "feed_init s pages tag location uname =
        Inr \<lparr>fd_tag = tag, fd_location = location, fd_username = uname, fd_public = False,
             fd_title = None, fd_description = None\<rparr>"
    using assms(1,2) by (simp add: feed_init_def qs_get_def)
  with assms(3) show ?thesis
    by (auto simp: event_feed_def feed_format_of_def render_feed_title_fails [OF _ feed_link_base])
qed

theorem feed_login_required_attribute_error_witness:
  "event_feed demo_settings ''/events/'' [demo_page\<lparr>pg_login_required := True\<rparr>] demo_db demo_now ''rss''
     None None None = Inl AttributeError"
proof -
  have "filter (\<lambda>p. pg_slug p = event_slug demo_settings) [demo_page\<lparr>pg_login_required := True\<rparr>] =
        [demo_page\<lparr>pg_login_required := True\<rparr>]"
    by (simp add: agenda_defaults_def)
  from feed_login_required_attribute_error [OF this] show ?thesis by simp
qed


text \<open>A feed format other than \<open>rss\<close> and \<open>atom\<close> is \<open>Http404\<close>.\<close>

lemma event_feed_unknown_format:
  "fmt \<noteq> ''rss'' \<Longrightarrow> fmt \<noteq> ''atom'' \<Longrightarrow> event_feed s base pages d now fmt tag location uname = Inl Http404"
  by (simp add: event_feed_def feed_format_of_def)

text \<open>
  C23. A public feed whose tag names no keyword fails with \<open>Http404\<close> (an empty tag
  string is false in Python and filters nothing).
\<close>

theorem feed_unknown_tag_not_found:
  assumes "fd_public f" "fd_tag f = Some t" "t \<noteq> []" "\<forall>k \<in> set (db_keywords d). kw_slug k \<noteq> t"
  shows "feed_items s d now f = Inl Http404"
  using assms by (simp add: feed_items_def truthy_lookup_def get_object_or_404_none)

theorem feed_unknown_tag_not_found_witness:
  "feed_items demo_settings demo_db demo_now (demo_feed\<lparr>fd_tag := Some ''jazz''\<rparr>) = Inl Http404"
  by (rule feed_unknown_tag_not_found [where t = "''jazz''"]) simp_all

text \<open>
  C24. A feed item's author name is the username when the user's first and last names
  are blank, and the first and last names joined by a space when they are non-empty and
  do not start or end with whitespace.
\<close>

theorem item_author_name_fallback:
  "((\<forall>c \<in> set (first_name u @ last_name u). py_is_space c) \<longrightarrow> item_author_name u = username u) \<and>
   (first_name u \<noteq> [] \<and> \<not> py_is_space (hd (first_name u)) \<and> last_name u \<noteq> [] \<and> \<not> py_is_space (last (last_name u))
      \<longrightarrow> item_author_name u = first_name u @ '' '' @ last_name u)"
proof (intro conjI impI)
  assume "\<forall>c \<in> set (first_name u @ last_name u). py_is_space c"
  then have "get_full_name u = []"
    by (simp add: get_full_name_def py_strip_all_space py_is_space_def)
  then show "item_author_name u = username u" by (simp add: item_author_name_def)
next
  assume a: "first_name u \<noteq> [] \<and> \<not> py_is_space (hd (first_name u)) \<and> last_name u \<noteq> [] \<and>
             \<not> py_is_space (last (last_name u))"
  then have "get_full_name u = first_name u @ '' '' @ last_name u"
    unfolding get_full_name_def by (intro py_strip_no_space_ends) auto
  with a show "item_author_name u = first_name u @ '' '' @ last_name u"
    by (simp add: item_author_name_def)
qed

theorem item_author_name_fallback_witness:
  "item_author_name \<lparr>u_id = 2, username = ''bob'', first_name = [], last_name = []\<rparr> = ''bob'' \<and>
   item_author_name \<lparr>u_id = 1, username = ''ann'', first_name = ''Ann'', last_name = ''Lee''\<rparr> = ''Ann Lee''"
proof -
  have a: "\<not> py_is_space (CHR ''A'')" "\<not> py_is_space (CHR ''e'')" by code_simp+
  from item_author_name_fallback [of "\<lparr>u_id = 2, username = ''bob'', first_name = [], last_name = []\<rparr>"]
  have "item_author_name \<lparr>u_id = 2, username = ''bob'', first_name = [], last_name = []\<rparr> = ''bob''" by simp
  moreover from item_author_name_fallback [of "\<lparr>u_id = 1, username = ''ann'', first_name = ''Ann'', last_name = ''Lee''\<rparr>"] a
  have "item_author_name \<lparr>u_id = 1, username = ''ann'', first_name = ''Ann'', last_name = ''Lee''\<rparr> = ''Ann Lee''"
    by simp
  ultimately show ?thesis by simp
qed

end
