(* ===== verification/Archive.thy ===== *)
theory Archive
  imports Queries "HOL-Library.List_Lexorder" "HOL-Library.Char_ord"
begin

text \<open>
  The archive tags of \<open>src/mezzanine_agenda/templatetags/event_tags.py\<close>:
  \<open>event_months\<close> (lines 29-42), \<open>event_locations\<close> (45-52) and \<open>event_authors\<close>
  (55-62). \<open>event_months\<close> builds one dictionary object per event, appends the first
  of each month to a second list, and then writes each month's count into that object,
  which both lists share. The objects are therefore kept in an explicit store (a map from
  object addresses to dictionaries), the two lists hold addresses, and Python's \<open>==\<close>,
  \<open>in\<close> and \<open>list.count\<close> compare the dictionaries the addresses point to; the
  theorem \<open>event_months_spec\<close> shows that the mutation through the shared objects does
  not disturb the later counts.
\<close>

section \<open>event_months\<close>

text \<open>A dictionary \<open>{"date": ...}\<close>, with its \<open>"event_count"\<close> key once it is set.\<close>

record month_dict =
  md_date :: datetime
  md_count :: "nat option"

type_synonym dict_store = "nat \<Rightarrow> month_dict"

text \<open>Lines 37-39: \<open>if date_dict not in month_dicts: month_dicts.append(date_dict)\<close>.\<close>

fun dedup_months :: "dict_store \<Rightarrow> nat list \<Rightarrow> nat list \<Rightarrow> nat list" where
  "dedup_months h [] ms = ms"
| "dedup_months h (a # as) ms = dedup_months h as (if h a \<in> set (map h ms) then ms else ms @ [a])"

text \<open>
  Lines 40-41: for each month object in turn, \<open>date_dicts.count(date_dict)\<close> is
  evaluated in the current store and written into the object.
\<close>

fun count_months :: "nat list \<Rightarrow> nat list \<Rightarrow> dict_store \<Rightarrow> dict_store" where
  "count_months ds [] h = h"
| "count_months ds (a # ms) h =
     count_months ds ms (h(a := (h a)\<lparr>md_count := Some (count_list (map h ds) (h a))\<rparr>))"

text \<open>
  Lines 34-35: the start of each published event (in the default ordering \<open>-start\<close>),
  as the first instant of its month.
\<close>

definition month_dates :: "db \<Rightarrow> datetime \<Rightarrow> datetime list" where
  "month_dates d now = map (\<lambda>e. month_start (ev_start e)) (qs_eval (published_qs d Anonymous now))"

text \<open>Lines 29-42: the objects \<open>0..n-1\<close> are \<open>date_dicts\<close>, in order.\<close>

definition event_months :: "db \<Rightarrow> datetime \<Rightarrow> month_dict list" where
  "event_months d now =
     (let dates = month_dates d now;
          h0 = (\<lambda>i. \<lparr>md_date = dates ! i, md_count = None\<rparr>);
          ds = [0..<length dates];
          ms = dedup_months h0 ds [];
          h1 = count_months ds ms h0
      in map h1 ms)"

text \<open>The months in order of first occurrence, each with its number of events.\<close>

definition months_spec :: "datetime list \<Rightarrow> month_dict list" where
  "months_spec dates =
     map (\<lambda>m. \<lparr>md_date = m, md_count = Some (count_list dates m)\<rparr>) (rev (remdups (rev dates)))"

section \<open>event_locations and event_authors\<close>

text \<open>
  Lines 45-52: the locations of published events, in the model's ordering \<open>title\<close>,
  each once, annotated with the number of published events there (the \<open>Count\<close> runs
  over the join the filter made, so it counts the published events only).
\<close>

definition event_locations :: "db \<Rightarrow> datetime \<Rightarrow> (event_location \<times> nat) list" where
  "event_locations d now =
     (let evs = qs_eval (published_qs d Anonymous now) in
      map (\<lambda>l. (l, length (filter (at_location l) evs)))
        (filter (\<lambda>l. \<exists>e \<in> set evs. at_location l e) (sort_key loc_title (db_locations d))))"

text \<open>Lines 55-62: the same for the users who wrote published events (\<open>User\<close> has no ordering).\<close>

definition event_authors :: "db \<Rightarrow> datetime \<Rightarrow> (user \<times> nat) list" where
  "event_authors d now =
     (let evs = qs_eval (published_qs d Anonymous now) in
      map (\<lambda>u. (u, length (filter (by_user u) evs)))
        (filter (\<lambda>u. \<exists>e \<in> set evs. by_user u e) (db_users d)))"

section \<open>Example data\<close>

abbreviation demo_hall :: event_location where
  "demo_hall \<equiv> \<lparr>loc_id = 7, loc_title = ''Hall'', loc_slug = ''hall'', address = ''1 Susan St'',
                 mappable_location = ''1 Susan St'', lat = Some 1, lon = Some 2\<rparr>"

abbreviation demo_db_hall :: db where
  "demo_db_hall \<equiv> demo_db\<lparr>db_events := [demo_launch\<lparr>ev_location := Some 7\<rparr>, demo_draft\<lparr>ev_location := Some 7\<rparr>],
                           db_locations := [demo_hall]\<rparr>"

section \<open>Lemmas\<close>

lemma remdups_append_mem: "x \<in> set vs \<Longrightarrow> remdups (us @ x # vs) = remdups (us @ vs)"
  by (induction us) auto

lemma dedup_months_map:
  "distinct (map h ms) \<Longrightarrow> map h (dedup_months h as ms) = rev (remdups (rev (map h ms @ map h as)))"
proof (induction as arbitrary: ms)
  case Nil
  then show ?case by (simp add: distinct_remdups_id)
next
  case (Cons a as)
  show ?case
  proof (cases "h a \<in> set (map h ms)")
    case True
    with Cons show ?thesis by (simp add: remdups_append_mem)
  next
    case False
    with Cons.prems have "distinct (map h (ms @ [a]))" by simp
    from Cons.IH [OF this] False show ?thesis by simp
  qed
qed

lemma md_date_store_upd [simp]:
  "md_date ((h(x := (h x)\<lparr>md_count := c\<rparr>)) b) = md_date (h b)"
  by simp

lemma count_months_date [simp]: "md_date (count_months ds ms h b) = md_date (h b)"
  by (induction ms arbitrary: h) auto

lemma count_months_other: "b \<notin> set ms \<Longrightarrow> count_months ds ms h b = h b"
  by (induction ms arbitrary: h) auto

lemma month_dict_eq_None:
  "md_count (r::month_dict) = None \<Longrightarrow> md_count s = None \<Longrightarrow> r = s \<longleftrightarrow> md_date r = md_date s"
  by (cases r; cases s) simp

lemma count_list_pending:
  fixes h :: dict_store
  assumes "md_count (h x) = None" "\<forall>b\<in>set ds. md_date (h b) = md_date (h x) \<longrightarrow> md_count (h b) = None"
  shows "count_list (map h ds) (h x) = count_list (map (\<lambda>b. md_date (h b)) ds) (md_date (h x))"
  using assms
proof (induction ds)
  case (Cons b ds)
  have "(h b = h x) = (md_date (h b) = md_date (h x))"
    using Cons.prems month_dict_eq_None [of "h b" "h x"] by auto
  with Cons show ?case by simp
qed simp

lemma count_months_correct:
  assumes "distinct (map (\<lambda>a. md_date (h a)) ms)"
    and "\<forall>a\<in>set ms. md_count (h a) = None"
    and "\<forall>a\<in>set ms. \<forall>b\<in>set ds. md_date (h b) = md_date (h a) \<longrightarrow> md_count (h b) = None"
    and "a \<in> set ms"
  shows "count_months ds ms h a =
         \<lparr>md_date = md_date (h a), md_count = Some (count_list (map (\<lambda>b. md_date (h b)) ds) (md_date (h a)))\<rparr>"
  using assms
proof (induction ms arbitrary: h)
  case Nil
  then show ?case by simp
next
  case (Cons x ms)
  let ?h' = "h(x := (h x)\<lparr>md_count := Some (count_list (map h ds) (h x))\<rparr>)"
  have dates: "(\<lambda>b. md_date (?h' b)) = (\<lambda>b. md_date (h b))" by (simp add: fun_eq_iff)
  show ?case
  proof (cases "a = x")
    case True
    with Cons.prems(1) have "a \<notin> set ms" by (auto simp: image_iff)
    with True Cons.prems(2,3) show ?thesis
      by (simp add: count_months_other count_list_pending)
  next
    case False
    with Cons.prems(4) have a: "a \<in> set ms" by simp
    have "\<forall>a\<in>set ms. \<forall>b\<in>set ds. md_date (?h' b) = md_date (?h' a) \<longrightarrow> md_count (?h' b) = None"
      using Cons.prems(1,3) by (auto simp: image_iff)
    moreover have "distinct (map (\<lambda>a. md_date (?h' a)) ms)"
      using Cons.prems(1) unfolding dates by simp
    moreover have "\<forall>a\<in>set ms. md_count (?h' a) = None"
      using Cons.prems(1,2) by (auto simp: image_iff)
    ultimately have "count_months ds ms ?h' a =
        \<lparr>md_date = md_date (?h' a), md_count = Some (count_list (map (\<lambda>b. md_date (?h' b)) ds) (md_date (?h' a)))\<rparr>"
      using Cons.IH a by blast
    then show ?thesis by (simp only: dates count_months.simps) simp
  qed
qed

lemma remdups_map_inj: "inj f \<Longrightarrow> remdups (map f xs) = map f (remdups xs)"
  by (induction xs) (auto simp: inj_image_mem_iff)

lemma remdups_rev_map_inj:
  "inj f \<Longrightarrow> rev (remdups (rev (map f xs))) = map f (rev (remdups (rev xs)))"
  by (simp add: rev_map remdups_map_inj)


lemma map_store_nth: "map (\<lambda>i. f (xs ! i)) [0..<length xs] = map f xs"
proof -
  have "map (\<lambda>i. f (xs ! i)) [0..<length xs] = map f (map (\<lambda>i. xs ! i) [0..<length xs])"
    by simp
  also have "\<dots> = map f xs" by (simp only: map_nth)
  finally show ?thesis .
qed

lemma event_months_eq: "event_months d now = months_spec (month_dates d now)"
proof -
  define D where "D = month_dates d now"
  define h0 :: dict_store where "h0 = (\<lambda>i. \<lparr>md_date = D ! i, md_count = None\<rparr>)"
  define ds where "ds = [0..<length D]"
  define ms where "ms = dedup_months h0 ds []"
  have inj: "inj (\<lambda>m. \<lparr>md_date = m, md_count = None\<rparr> :: month_dict)" by (auto intro: injI)
  have none: "md_count (h0 i) = None" for i by (simp add: h0_def)
  have hds: "map h0 ds = map (\<lambda>m. \<lparr>md_date = m, md_count = None\<rparr>) D"
    unfolding h0_def ds_def by (rule map_store_nth)
  have "map h0 ms = map (\<lambda>m. \<lparr>md_date = m, md_count = None\<rparr>) (rev (remdups (rev D)))"
    using dedup_months_map [of h0 "[]" ds] by (simp add: ms_def hds remdups_rev_map_inj [OF inj])
  from arg_cong [OF this, of "map md_date"]
  have dms: "map (\<lambda>a. md_date (h0 a)) ms = rev (remdups (rev D))"
    by (simp add: comp_def)
  have dsD: "map (\<lambda>b. md_date (h0 b)) ds = D"
    using map_store_nth [of "\<lambda>x. x" D] by (simp add: h0_def ds_def)
  have cnt: "count_months ds ms h0 a =
             \<lparr>md_date = md_date (h0 a), md_count = Some (count_list D (md_date (h0 a)))\<rparr>" if "a \<in> set ms" for a
  proof -
    have "count_months ds ms h0 a =
          \<lparr>md_date = md_date (h0 a), md_count = Some (count_list (map (\<lambda>b. md_date (h0 b)) ds) (md_date (h0 a)))\<rparr>"
      by (rule count_months_correct) (simp_all add: dms none that)
    then show ?thesis by (simp only: dsD)
  qed
  have "event_months d now = map (count_months ds ms h0) ms"
    unfolding event_months_def Let_def D_def [symmetric] h0_def [symmetric] ds_def [symmetric] ms_def [symmetric] ..
  also have "\<dots> = map (\<lambda>m. \<lparr>md_date = m, md_count = Some (count_list D m)\<rparr>) (map (\<lambda>a. md_date (h0 a)) ms)"
    by (simp add: cnt cong: map_cong)
  also have "\<dots> = months_spec D" by (simp only: dms months_spec_def)
  finally show ?thesis by (simp only: D_def)
qed

lemma length_filter_order_desc: "length (filter P (order_desc f xs)) = length (filter P xs)"
  by (metis mset_filter mset_order_desc size_mset)

lemma month_start_mono: "a \<le> b \<Longrightarrow> month_start a \<le> month_start b"
  by (cases a; cases b) (auto simp: month_start_def less_eq_datetime_def dt_key_def)

lemma sorted_month_dates: "sorted_wrt (\<ge>) (month_dates d now)"
proof -
  have "sorted_wrt (\<ge>) (map ev_start (qs_eval (published_qs d Anonymous now)))"
    using sorted_order_desc by (simp add: qs_eval_def published_qs_def)
  then have "sorted_wrt (\<lambda>x y. ev_start y \<le> ev_start x) (qs_eval (published_qs d Anonymous now))"
    by (simp add: sorted_wrt_map)
  then have "sorted_wrt (\<lambda>x y. month_start (ev_start y) \<le> month_start (ev_start x))
               (qs_eval (published_qs d Anonymous now))"
    by (rule sorted_wrt_mono_rel [rotated]) (simp add: month_start_mono)
  then show ?thesis by (simp add: month_dates_def sorted_wrt_map)
qed

lemma strict_first_occurrences: "sorted_wrt (\<ge>) (xs :: 'a::linorder list) \<Longrightarrow> sorted_wrt (>) (rev (remdups (rev xs)))"
proof -
  assume "sorted_wrt (\<ge>) xs"
  then have "sorted (rev xs)" by (simp add: sorted_wrt_rev)
  then have "sorted_wrt (<) (remdups (rev xs))" by (simp add: strict_sorted_iff sorted_remdups)
  then show ?thesis by (simp add: sorted_wrt_rev)
qed

lemma length_month_dates: "length (month_dates d now) = length (filter (published_at now) (db_events d))"
  by (simp add: month_dates_def qs_eval_def published_qs_def)

lemma sum_first_occurrence_counts:
  "sum_list (map (count_list xs) (rev (remdups (rev xs)))) = length xs"
  by (simp add: sum_list_distinct_conv_sum_set sum_count_set)

text \<open>
  C25. \<open>event_months\<close>, with its dictionaries shared between \<open>date_dicts\<close> and
  \<open>month_dicts\<close> and mutated in place, computes the functional specification: the
  months of the published events in order of first occurrence, each with the number of
  published events that start in it.
\<close>

theorem event_months_spec: "event_months d now = months_spec (month_dates d now)"
  by (rule event_months_eq)

text \<open>
  C26. The archive months come out strictly descending (most recent first, each month
  once), and their counts add up to the number of published events.
\<close>

theorem event_months_ordered_counts:
  "sorted_wrt (>) (map md_date (event_months d now)) \<and>
   sum_list (map (\<lambda>m. the (md_count m)) (event_months d now)) = length (filter (published_at now) (db_events d))"
  using strict_first_occurrences [OF sorted_month_dates [of d now]]
  by (simp add: event_months_eq months_spec_def comp_def sum_first_occurrence_counts length_month_dates)

text \<open>
  C27. \<open>event_locations\<close> lists exactly the locations that have a published event,
  each with the number of its published events, sorted by title, without repetition when
  the location table has none.
\<close>

theorem event_locations_counts:
  assumes "distinct (db_locations d)"
  shows "set (event_locations d now) =
           {(l, length (filter (\<lambda>e. published_at now e \<and> at_location l e) (db_events d))) | l.
              l \<in> set (db_locations d) \<and> (\<exists>e\<in>set (db_events d). published_at now e \<and> at_location l e)} \<and>
         sorted (map (\<lambda>p. loc_title (fst p)) (event_locations d now)) \<and>
         distinct (event_locations d now)"
proof (intro conjI)
  let ?evs = "qs_eval (published_qs d Anonymous now)"
  have evs: "set ?evs = {e \<in> set (db_events d). published_at now e}"
    by (auto simp: qs_eval_def published_qs_def)
  have cnt: "length (filter (at_location l) ?evs) =
             length (filter (\<lambda>e. published_at now e \<and> at_location l e) (db_events d))" for l
    by (simp add: qs_eval_def published_qs_def length_filter_order_desc filter_filter conj_commute)
  have "set (event_locations d now) =
        (\<lambda>l. (l, length (filter (at_location l) ?evs))) ` {l \<in> set (db_locations d). \<exists>e\<in>set ?evs. at_location l e}"
    by (auto simp: event_locations_def Let_def)
  then show "set (event_locations d now) =
           {(l, length (filter (\<lambda>e. published_at now e \<and> at_location l e) (db_events d))) | l.
              l \<in> set (db_locations d) \<and> (\<exists>e\<in>set (db_events d). published_at now e \<and> at_location l e)}"
    unfolding cnt evs by blast
  show "sorted (map (\<lambda>p. loc_title (fst p)) (event_locations d now))"
    by (simp add: event_locations_def Let_def comp_def sorted_filter)
  show "distinct (event_locations d now)"
    using assms by (simp add: event_locations_def Let_def distinct_map inj_on_def)
qed

theorem event_locations_counts_witness:
  "event_locations demo_db_hall demo_now = [(demo_hall, 1)] \<and> distinct (event_locations demo_db_hall demo_now)"
proof -
  have dist: "distinct (db_locations demo_db_hall)" by simp
  have e: "event_locations demo_db_hall demo_now = [(demo_hall, 1)]" by code_simp
  from event_locations_counts [OF dist, of demo_now] e show ?thesis by simp
qed

end
