(* ===== verification/Links.thy ===== *)
theory Links
  imports Queries
begin

text \<open>
  The template tag \<open>icalendar_url\<close> of
  \<open>src/mezzanine_agenda/templatetags/event_tags.py\<close> (lines 207-226), which builds the
  link to the calendar export from the context a view hands to its template, and the
  contexts of \<open>event_list\<close> and \<open>event_detail\<close> (views.py lines 69-70 and 84). The
  tag reverses the calendar patterns with positional arguments (\<open>reverse_args\<close>);
  Python's \<open>str\<close> of the context objects is the keyword's title (Mezzanine's
  \<open>Slugged.__str__\<close>) and the user's username.
\<close>

text \<open>The context keys the tag reads; an absent key is \<open>None\<close>.\<close>

record ical_context =
  cx_event :: "event option"
  cx_tag :: "keyword option"
  cx_year :: "string option"
  cx_month :: "string option"
  cx_location :: "event_location option"
  cx_author :: "user option"

text \<open>The context of \<open>event_list\<close> (lines 69-70) for a page it returned.\<close>

definition list_context :: "list_page \<Rightarrow> ical_context" where
  "list_context p =
     \<lparr>cx_event = None, cx_tag = lp_tag p, cx_year = lp_year p, cx_month = lp_month p,
      cx_location = lp_location p, cx_author = lp_author p\<rparr>"

text \<open>The context of \<open>event_detail\<close> (line 84).\<close>

definition detail_context :: "event \<Rightarrow> ical_context" where
  "detail_context e =
     \<lparr>cx_event = Some e, cx_tag = None, cx_year = None, cx_month = None, cx_location = None,
      cx_author = None\<rparr>"

text \<open>
  \<open>strptime(month, '%B').tm_mon\<close> on the names \<open>month_name\<close> produces; any other
  string raises \<open>ValueError\<close>.
\<close>

definition month_number :: "string \<Rightarrow> py_exc + nat" where
  "month_number m =
     (case filter (\<lambda>i. month_name ! i = m) [1..<13] of [] \<Rightarrow> Inl ValueError | i # _ \<Rightarrow> Inr i)"

text \<open>The value of an optional string context entry, the empty string when it is absent.\<close>

definition opt_str :: "string option \<Rightarrow> string" where
  "opt_str x = (case x of None \<Rightarrow> [] | Some v \<Rightarrow> v)"

text \<open>
  Lines 207-226: \<open>icalendar_url\<close>. The context values are tested by Python truth: an
  object is true, a string when it is not empty.
\<close>

definition icalendar_url :: "agenda_settings \<Rightarrow> string \<Rightarrow> ical_context \<Rightarrow> py_exc + string" where
  "icalendar_url s base cx =
     (let sl = append_slash s; y = opt_str (cx_year cx); m = opt_str (cx_month cx) in
      case cx_event cx of
        Some e \<Rightarrow> sbind (event_get_absolute_url s base e) (\<lambda>u. Inr (u @ ''event.ics''))
      | None \<Rightarrow>
          (case cx_tag cx of
             Some k \<Rightarrow> reverse_args sl base ''icalendar_tag'' [kw_title k]
           | None \<Rightarrow>
               if y \<noteq> [] \<and> m \<noteq> []
               then sbind (month_number m) (\<lambda>n. reverse_args sl base ''icalendar_month'' [y, str_nat n])
               else if y \<noteq> [] then reverse_args sl base ''icalendar_year'' [y]
               else (case cx_location cx of
                       Some l \<Rightarrow> reverse_args sl base ''icalendar_location'' [loc_slug l]
                     | None \<Rightarrow>
                         (case cx_author cx of
                            Some u \<Rightarrow> reverse_args sl base ''icalendar_author'' [username u]
                          | None \<Rightarrow> reverse_args sl base ''icalendar'' []))))"

text \<open>
  \<open>EventLocation.get_absolute_url\<close> (models.py lines 147-149): the
  \<open>@models.permalink\<close> tuple is reversed with the location's slug.
\<close>

definition location_get_absolute_url :: "agenda_settings \<Rightarrow> string \<Rightarrow> event_location \<Rightarrow> py_exc + string" where
  "location_get_absolute_url s base l = reverse (append_slash s) base ''event_list_location'' [(''location'', loc_slug l)]"

section \<open>Lemmas\<close>

lemma event_list_tag_context:
  assumes "event_list s d v now (Some t) None None None None page = Inr p"
  shows "\<exists>k. filter (\<lambda>k. kw_slug k = t) (db_keywords d) = [k] \<and> lp_tag p = Some k \<and>
             list_context p = \<lparr>cx_event = None, cx_tag = Some k, cx_year = None, cx_month = None,
                               cx_location = None, cx_author = None\<rparr>"
  using assms
  by (auto simp: event_list_def list_query_tag_only sbind_eq_Inr init_state_def list_context_def
                 get_object_or_404_Inr)

lemma event_list_default_context:
  assumes "event_list s d v now None None None None None page = Inr p"
  shows "list_context p = \<lparr>cx_event = None, cx_tag = None, cx_year = None, cx_month = None,
                            cx_location = None, cx_author = None\<rparr>"
  using assms by (auto simp: event_list_def list_query_no_args init_state_def list_context_def)

text \<open>
  C35. With \<open>APPEND_SLASH\<close>, a location whose slug has no slash or line break gets
  the URL \<open>location/SLUG/\<close>, which resolves back to the \<open>event_list_location\<close>
  pattern with that slug.
\<close>

theorem location_url_roundtrip:
  assumes "append_slash s" "CHR ''/'' \<notin> set (loc_slug l)" "CHR ''\<newline>'' \<notin> set (loc_slug l)"
  shows "location_get_absolute_url s base l = Inr (base @ ''location/'' @ loc_slug l @ ''/'') \<and>
         resolve (append_slash s) (''location/'' @ loc_slug l @ ''/'') =
           Some (''event_list_location'', ''event_list'', [(''location'', loc_slug l)])"
  using assms(1) reverse_location_list [OF assms(2,3)] resolve_location_list [OF assms(2,3)]
  by (simp add: location_get_absolute_url_def)

theorem location_url_roundtrip_witness:
  "location_get_absolute_url demo_settings ''/events/''
     \<lparr>loc_id = 7, loc_title = ''Hall'', loc_slug = ''hall'', address = ''1 Susan St'',
      mappable_location = [], lat = Some 1, lon = Some 2\<rparr> = Inr ''/events/location/hall/'' \<and>
   resolve True ''location/hall/'' = Some (''event_list_location'', ''event_list'', [(''location'', ''hall'')])"
proof -
  have "append_slash demo_settings" by (simp add: agenda_defaults_def)
  from location_url_roundtrip [OF this, of "\<lparr>loc_id = 7, loc_title = ''Hall'', loc_slug = ''hall'',
      address = ''1 Susan St'', mappable_location = [], lat = Some 1, lon = Some 2\<rparr>" "''/events/''"] this
  show ?thesis by simp
qed

end
