(* ===== verification/Admin.thy ===== *)
theory Admin
  imports Settings
begin

text \<open>
  The admin configuration of \<open>src/mezzanine_agenda/admin.py\<close>: the field layout of the
  event form (lines 13-23), built by \<open>list.insert\<close> and \<open>list.extend\<close> on a copy of
  Mezzanine's \<open>DisplayableAdmin\<close> fields, the columns of the change list, and
  \<open>EventLocationAdmin.in_menu\<close> (lines 51-58). Python's \<open>list.insert(i, x)\<close> clamps
  the index: a negative index counts from the end, and an index past either end inserts
  at that end. The \<open>deepcopy\<close> of line 13 makes the layout a new list, so the base
  fields are a value here. \<open>save_form\<close> (lines 35-40) only orders two of Mezzanine's
  own methods and the registrations of lines 61-62 are Django wiring; neither is
  modelled.
\<close>

text \<open>A form field entry: a field name, or a pair of names shown on one line.\<close>

datatype field_spec = FName string | FPair string string

text \<open>Python's \<open>list.insert(i, x)\<close>.\<close>

definition py_insert :: "int \<Rightarrow> 'a \<Rightarrow> 'a list \<Rightarrow> 'a list" where
  "py_insert i x xs =
     (let n = int (length xs);
          j = (if i < 0 then max 0 (n + i) else min i n)
      in take (nat j) xs @ x # drop (nat j) xs)"

text \<open>
  Lines 13-22: the fields of the first fieldset, from the \<open>DisplayableAdmin\<close> fields
  \<open>base\<close>; \<open>featured\<close> is \<open>EVENT_USE_FEATURED_IMAGE\<close>.
\<close>

definition event_fields :: "field_spec list \<Rightarrow> bool \<Rightarrow> field_spec list" where
  "event_fields base featured =
     (let f1 = py_insert 1 (FPair ''start'' ''end'') base;
          f2 = py_insert 2 (FName ''location'') f1;
          f3 = py_insert 3 (FName ''facebook_event'') f2;
          f4 = f3 @ [FName ''content'', FName ''allow_comments'']
      in if featured then py_insert (-2) (FName ''featured_image'') f4 else f4)"

text \<open>Lines 18 and 21: the change-list columns.\<close>

definition event_list_display :: "bool \<Rightarrow> string list" where
  "event_list_display featured =
     (let cols = [''title'', ''user'', ''status'', ''admin_link''] in
      if featured then py_insert 0 ''admin_thumb'' cols else cols)"

text \<open>Line 23: the change-list filters, Mezzanine's and the location.\<close>

definition event_list_filter :: "string list \<Rightarrow> string list" where
  "event_list_filter base = base @ [''location'']"

text \<open>
  Mezzanine's \<open>DisplayableAdmin\<close> fields of its first fieldset: title, status, and
  the publish and expiry dates on one line.
\<close>

definition displayable_fields :: "field_spec list" where
  "displayable_fields = [FName ''title'', FName ''status'', FPair ''publish_date'' ''expiry_date'']"

text \<open>
  Lines 51-58: \<open>in_menu\<close>, the loop over \<open>ADMIN_MENU_ORDER\<close>. The test
  \<open>"mezzanine_agenda.EventLocation" in items\<close> compares the string with each entry; a
  (title, URL name) pair never equals it.
\<close>

fun in_menu_loop :: "(string \<times> menu_item list) list \<Rightarrow> bool" where
  "in_menu_loop [] = False"
| "in_menu_loop ((name, items) # rest) =
     (if MenuModel ''mezzanine_agenda.EventLocation'' \<in> set items then True else in_menu_loop rest)"

definition location_in_menu :: "agenda_settings \<Rightarrow> bool" where
  "location_in_menu s = in_menu_loop (admin_menu_order s)"

text \<open>Line 49: the one fieldset of \<open>EventLocationAdmin\<close>.\<close>

definition location_admin_fields :: "field_spec list" where
  "location_admin_fields =
     [FName ''title'', FName ''address'', FName ''mappable_location'', FName ''lat'', FName ''lon'']"

text \<open>The model fields a form entry names.\<close>

fun spec_names :: "field_spec \<Rightarrow> string list" where
  "spec_names (FName a) = [a]"
| "spec_names (FPair a b) = [a, b]"

section \<open>Lemmas\<close>

lemma py_insert_inside:
  assumes "0 \<le> i" "i \<le> int (length xs)"
  shows "py_insert i x xs = take (nat i) xs @ x # drop (nat i) xs"
  using assms by (simp add: py_insert_def Let_def min_def)

lemma py_insert_before_last2: "py_insert (-2) x (ys @ [a, b]) = ys @ [x, a, b]"
proof -
  have "nat (int (length ys + 2) + -2) = length ys" by simp
  then show ?thesis by (simp add: py_insert_def Let_def max_def)
qed

text \<open>
  C30. The event form shows, in this order, the first \<open>DisplayableAdmin\<close> field, the
  start and end on one line, the location, the Facebook event, the remaining
  \<open>DisplayableAdmin\<close> fields, the featured image when \<open>EVENT_USE_FEATURED_IMAGE\<close>
  is set, the content and the comment switch; the change list gains a thumbnail column in
  front exactly when the featured image is used.
\<close>

theorem event_fields_layout:
  "event_fields base featured =
     take 1 base @ [FPair ''start'' ''end'', FName ''location'', FName ''facebook_event''] @ drop 1 base @
     (if featured then [FName ''featured_image''] else []) @ [FName ''content'', FName ''allow_comments''] \<and>
   event_list_display featured = (if featured then [''admin_thumb''] else []) @ [''title'', ''user'', ''status'', ''admin_link'']"
proof -
  have core: "py_insert 3 (FName ''facebook_event'') (py_insert 2 (FName ''location'') (py_insert 1 (FPair ''start'' ''end'') base)) =
              take 1 base @ [FPair ''start'' ''end'', FName ''location'', FName ''facebook_event''] @ drop 1 base"
    by (cases base) (simp_all add: py_insert_def Let_def min_def)
  show ?thesis
  proof (cases featured)
    case True
    let ?f = "take 1 base @ [FPair ''start'' ''end'', FName ''location'', FName ''facebook_event''] @ drop 1 base"
    have "py_insert (-2) (FName ''featured_image'') (?f @ [FName ''content'', FName ''allow_comments'']) =
          ?f @ [FName ''featured_image'', FName ''content'', FName ''allow_comments'']"
      by (rule py_insert_before_last2)
    with True core show ?thesis
      by (simp add: event_fields_def event_list_display_def Let_def py_insert_inside)
  next
    case False
    with core show ?thesis by (simp add: event_fields_def event_list_display_def Let_def)
  qed
qed

text \<open>
  The location admin appears in the admin menu exactly when some group of
  \<open>ADMIN_MENU_ORDER\<close> lists the model \<open>mezzanine_agenda.EventLocation\<close>, which the
  default menu order does not.
\<close>

lemma location_in_menu_iff:
  "(location_in_menu s \<longleftrightarrow> (\<exists>g \<in> set (admin_menu_order s). MenuModel ''mezzanine_agenda.EventLocation'' \<in> set (snd g))) \<and>
   \<not> location_in_menu (agenda_defaults title tagline slash)"
proof -
  have loop: "in_menu_loop gs \<longleftrightarrow> (\<exists>g \<in> set gs. MenuModel ''mezzanine_agenda.EventLocation'' \<in> set (snd g))" for gs
    by (induction gs rule: in_menu_loop.induct) auto
  show ?thesis by (simp add: location_in_menu_def loop agenda_defaults_def)
qed

end
