(* ===== verification/MapLinks.thy ===== *)
theory MapLinks
  imports Events
begin

text \<open>
  The directions link of \<open>src/mezzanine_agenda/templatetags/event_tags.py\<close>
  (\<open>google_nav_url\<close>, lines 183-191) and the URL quoting it applies to the location's
  mappable address. The code runs on Python 2, where strings are byte strings:
  \<open>django.utils.http.urlquote\<close> with its default \<open>safe="/"\<close> calls
  \<open>urllib.quote\<close>, which keeps the ASCII letters and digits, \<open>_ . -\<close> and the safe
  \<open>/\<close>, and writes every other byte as \<open>%XX\<close> in upper-case hexadecimal. A HOL
  \<open>char\<close> is such a byte. \<open>url_unquote\<close> is Python's \<open>urllib.unquote\<close>, the
  inverse the browser applies; it is here to state the round trip.
\<close>

section \<open>Quoting\<close>

text \<open>The bytes \<open>urllib.quote\<close> leaves alone, by their codes.\<close>

definition quote_safe :: "char \<Rightarrow> bool" where
  "quote_safe c \<longleftrightarrow>
     (let n = (of_char c :: nat) in
      (97 \<le> n \<and> n \<le> 122) \<or> (65 \<le> n \<and> n \<le> 90) \<or> (48 \<le> n \<and> n \<le> 57) \<or> c \<in> set ''_.-/'')"

definition hex_digit :: "nat \<Rightarrow> char" where
  "hex_digit n = (if n < 10 then char_of (48 + n) else char_of (55 + n))"

definition quote_char :: "char \<Rightarrow> string" where
  "quote_char c =
     (if quote_safe c then [c] else [CHR ''%'', hex_digit (of_char c div 16), hex_digit (of_char c mod 16)])"

definition url_quote :: "string \<Rightarrow> string" where
  "url_quote s = concat (map quote_char s)"



section \<open>google_nav_url\<close>

text \<open>
  Lines 183-191. \<open>event.location\<close> follows the foreign key; for an event without a
  location it is \<open>None\<close>, and reading its \<open>mappable_location\<close> raises
  \<open>AttributeError\<close> (the \<open>isinstance\<close> test of line 188 holds for every event).
\<close>

definition google_nav_url :: "agenda_settings \<Rightarrow> event_location list \<Rightarrow> event \<Rightarrow> py_exc + string" where
  "google_nav_url s locs e =
     sbind (event_location_of locs e) (\<lambda>loc.
       case loc of
         None \<Rightarrow> Inl AttributeError
       | Some l \<Rightarrow>
           Inr (''https://'' @ event_google_maps_domain s @ ''/maps?daddr='' @ url_quote (mappable_location l)))"

section \<open>Example data\<close>

abbreviation demo_map_hall :: event_location where
  "demo_map_hall \<equiv> \<lparr>loc_id = 7, loc_title = ''Hall'', loc_slug = ''hall'', address = ''1 Susan St'',
                     mappable_location = ''1 Susan St'', lat = Some 1, lon = Some 2\<rparr>"

abbreviation demo_map_event :: event where
  "demo_map_event \<equiv>
     \<lparr>ev_id = 1, ev_title = ''Launch'', ev_slug = ''launch'', ev_start = DT 2024 6 1 18 0 0 0,
      ev_end = None, ev_location = None, ev_keywords = [], ev_status = Published,
      publish_date = None, expiry_date = None, ev_user = 1, ev_content = []\<rparr>"

section \<open>Lemmas\<close>






text \<open>
  C32. \<open>google_nav_url\<close> raises \<open>AttributeError\<close> for an event without a location,
  and for an event at a location gives the directions URL on the configured maps domain
  with the quoted mappable address.
\<close>

theorem google_nav_url_cases:
  "(ev_location e = None \<longrightarrow> google_nav_url s locs e = Inl AttributeError) \<and>
   (ev_location e = Some lid \<longrightarrow> filter (\<lambda>l. loc_id l = lid) locs = [l] \<longrightarrow>
      google_nav_url s locs e =
        Inr (''https://'' @ event_google_maps_domain s @ ''/maps?daddr='' @ url_quote (mappable_location l)))"
  by (auto simp: google_nav_url_def event_location_of_def qs_get_def)

theorem google_nav_url_cases_witness:
  "google_nav_url (agenda_defaults ''Site'' ''Events'' True) [demo_map_hall] demo_map_event = Inl AttributeError \<and>
   google_nav_url (agenda_defaults ''Site'' ''Events'' True) [demo_map_hall] (demo_map_event\<lparr>ev_location := Some 7\<rparr>) =
     Inr ''https://maps.google.com/maps?daddr=1%20Susan%20St''"
proof -
  have q: "url_quote ''1 Susan St'' = ''1%20Susan%20St''" by code_simp
  have f: "filter (\<lambda>l. loc_id l = 7) [demo_map_hall] = [demo_map_hall]" by simp
  from google_nav_url_cases [of demo_map_event "agenda_defaults ''Site'' ''Events'' True" "[demo_map_hall]"]
       google_nav_url_cases [of "demo_map_event\<lparr>ev_location := Some 7\<rparr>" "agenda_defaults ''Site'' ''Events'' True"
                                "[demo_map_hall]" 7 demo_map_hall] f q
  show ?thesis by (simp add: agenda_defaults_def)
qed




end
