(* ===== verification/GoogleCalendar.thy ===== *)
theory GoogleCalendar
  imports TimeZone MapLinks
begin

text \<open>
  The remaining Google links of \<open>src/mezzanine_agenda/templatetags/event_tags.py\<close>:
  \<open>_get_utc\<close> (lines 143-159) with the zone it picks, \<open>google_calendar_url\<close>
  (lines 162-180) and \<open>google_static_map\<close> (lines 194-204). The zone database of
  pytz is a parameter \<open>tzdb\<close> from zone names to zones; \<open>pytz.timezone\<close> raises
  \<open>UnknownTimeZoneError\<close>, a subclass of \<open>KeyError\<close>, for a name it does not know.
  \<open>tz.get_default_timezone()\<close> is the zone of the site's \<open>TIME_ZONE\<close>, the
  parameter \<open>default_tz\<close>. Event times are naive (\<open>is_naive\<close> holds), so
  \<open>_get_utc\<close> always localizes. The current \<open>Site\<close>'s domain is the parameter
  \<open>domain\<close>.
\<close>

section \<open>_get_utc and google_calendar_url\<close>

definition get_utc :: "agenda_settings \<Rightarrow> (string \<Rightarrow> time_zone option) \<Rightarrow> string \<Rightarrow> datetime \<Rightarrow> py_exc + datetime" where
  "get_utc s tzdb default_tz d =
     (case tzdb (if event_time_zone s \<noteq> [] then event_time_zone s else default_tz) of
        None \<Rightarrow> Inl KeyError
      | Some z \<Rightarrow> to_utc z d)"

text \<open>
  Lines 167-180. The \<open>isinstance\<close> test holds for every event. \<open>event.end\<close> is
  tested by Python truth, and a \<open>datetime\<close> is always true; \<open>event.location\<close>
  follows the foreign key. A missing location leaves \<open>location = None\<close>, which
  \<open>str.format\<close> writes as \<open>None\<close>.
\<close>

definition google_calendar_url ::
  "agenda_settings \<Rightarrow> (string \<Rightarrow> time_zone option) \<Rightarrow> string \<Rightarrow> string \<Rightarrow> string \<Rightarrow> event_location list \<Rightarrow> event \<Rightarrow> py_exc + string" where
  "google_calendar_url s tzdb default_tz domain base locs e =
     (let title = url_quote (ev_title e) in
      sbind (sbind (get_utc s tzdb default_tz (ev_start e)) strftime_stamp) (\<lambda>start_date.
      sbind (case ev_end e of
               Some en \<Rightarrow> sbind (get_utc s tzdb default_tz en) strftime_stamp
             | None \<Rightarrow> Inr start_date) (\<lambda>end_date.
      sbind (event_get_absolute_url s base e) (\<lambda>path.
      sbind (event_location_of locs e) (\<lambda>loc.
        let location = (case loc of None \<Rightarrow> ''None'' | Some l \<Rightarrow> url_quote (mappable_location l)) in
        Inr (''http://www.google.com/calendar/event?action=TEMPLATE&text='' @ title @
             ''&dates='' @ start_date @ ''/'' @ end_date @ ''&sprop=website:'' @ domain @ path @
             ''&location='' @ location @ ''&trp=true''))))))"

section \<open>google_static_map\<close>

text \<open>
  \<open>'{:.6}'.format(x)\<close> of a coordinate. The field's \<open>Decimal\<close> has the coefficient
  \<open>|n|\<close> and the exponent \<open>-7\<close>. Python 2's \<open>Decimal.__format__\<close> with no type
  uses \<open>'G'\<close>: a coefficient of more than six digits is rounded to six significant
  digits (half to even, the context's rounding), and a carry to seven digits drops a
  zero and raises the exponent.
\<close>

definition dec_round6 :: "nat \<Rightarrow> int \<Rightarrow> string \<times> int" where
  "dec_round6 v ex =
     (let ds = str_nat v; n = length ds in
      if n \<le> 6 then (ds, ex)
      else
        (let p = 10 ^ (n - 6); q = v div p; r = v mod p;
             q' = (if p < 2 * r \<or> (2 * r = p \<and> odd q) then Suc q else q)
         in if q' = 10 ^ 6 then (str_nat (q' div 10), ex + int (n - 6) + 1)
            else (str_nat q', ex + int (n - 6))))"

text \<open>
  The placement of the point: fixed notation when the exponent is at most 0 and the
  number of digits left of the point is above \<open>-6\<close>, scientific otherwise (the
  \<open>_format_number\<close> step writes the exponent as \<open>E\<close> with its sign).
\<close>

definition dec_format_g :: "bool \<Rightarrow> string \<Rightarrow> int \<Rightarrow> string" where
  "dec_format_g neg ds ex =
     (let n = int (length ds); left = ex + n;
          dot = (if ex \<le> 0 \<and> - 6 < left then left else 1);
          ip = (if dot < 0 then ''0''
                else if n < dot then ds @ replicate (nat (dot - n)) CHR ''0''
                else if dot = 0 then ''0'' else take (nat dot) ds);
          fp = (if dot < 0 then replicate (nat (- dot)) CHR ''0'' @ ds
                else if n < dot then [] else drop (nat dot) ds);
          x = left - dot
      in (if neg then ''-'' else []) @ ip @ (if fp = [] then [] else CHR ''.'' # fp) @
         (if x = 0 then [] else CHR ''E'' # (if x < 0 then CHR ''-'' else CHR ''+'') # str_nat (nat \<bar>x\<bar>)))"

text \<open>A nullable coordinate; \<open>format(None, '.6')\<close> is \<open>str(None)\<close> cut to six characters.\<close>

definition coord_format :: "int option \<Rightarrow> string" where
  "coord_format c =
     (case c of
        None \<Rightarrow> ''None''
      | Some n \<Rightarrow> (case dec_round6 (nat \<bar>n\<bar>) (- 7) of (ds, ex) \<Rightarrow> dec_format_g (n < 0) ds ex))"

text \<open>Lines 199-204. \<open>width\<close>, \<open>height\<close> and \<open>zoom\<close> are the tag's arguments as written.\<close>

definition google_static_map ::
  "agenda_settings \<Rightarrow> event_location list \<Rightarrow> event \<Rightarrow> string \<Rightarrow> string \<Rightarrow> string \<Rightarrow> py_exc + string" where
  "google_static_map s locs e width height zoom =
     sbind (event_location_of locs e) (\<lambda>loc.
       case loc of
         None \<Rightarrow> Inl AttributeError
       | Some l \<Rightarrow>
           (let marker = url_quote (coord_format (lat l) @ '','' @ coord_format (lon l));
                scale = (if event_hidpi_static_maps s then ''2'' else ''1'')
            in Inr (''<img src='' @ [CHR 0x27] @ ''http://maps.googleapis.com/maps/api/staticmap?size='' @
                    width @ ''x'' @ height @ ''&scale='' @ scale @ ''&format=png&markers='' @ marker @
                    ''&sensor=false&zoom='' @ zoom @ [CHR 0x27] @ '' width='' @ [CHR 0x27] @ width @ [CHR 0x27] @
                    '' height='' @ [CHR 0x27] @ height @ [CHR 0x27] @ '' />'')))"


section \<open>Example data\<close>

abbreviation demo_day_settings :: agenda_settings where
  "demo_day_settings \<equiv> (agenda_defaults ''Site'' ''Events'' True)\<lparr>event_urls_date_format := ''day''\<rparr>"

abbreviation demo_cal_event :: event where
  "demo_cal_event \<equiv>
     \<lparr>ev_id = 1, ev_title = ''Launch'', ev_slug = ''launch'', ev_start = DT 2024 6 1 18 0 0 0,
      ev_end = None, ev_location = None, ev_keywords = [], ev_status = Published,
      publish_date = Some (DT 2024 5 9 12 0 0 0), expiry_date = None, ev_user = 1, ev_content = []\<rparr>"

text \<open>A zone two hours east of UTC all year, under the name \<open>Europe/Paris\<close>.\<close>

abbreviation demo_tzdb :: "string \<Rightarrow> time_zone option" where
  "demo_tzdb \<equiv> (\<lambda>n. if n = ''Europe/Paris'' then Some (\<lambda>d. [7200]) else None)"

section \<open>Lemmas\<close>

lemma get_utc_single_offset:
  assumes "tzdb (if event_time_zone s \<noteq> [] then event_time_zone s else default_tz) = Some z" "z d = [off]"
  shows "get_utc s tzdb default_tz d = dt_shift (- off) d"
  using assms by (simp add: get_utc_def to_utc_def localize_def)

lemma strftime_stamp_from_1900:
  "1900 \<le> dt_year u \<Longrightarrow> \<exists>st. strftime_stamp u = Inr st"
  by (simp add: strftime_stamp_def)

text \<open>
  C40. For an event with no end and no location whose start the zone maps to one
  offset of less than a day (start from 1901 to 9998), \<open>google_calendar_url\<close> always
  returns a link: the start's UTC stamp twice as the dates, the site domain and the
  event's URL as the website, and the literal text \<open>None\<close> as the location.
\<close>

theorem google_calendar_url_no_end_no_location:
  assumes "tzdb (if event_time_zone s \<noteq> [] then event_time_zone s else default_tz) = Some z"
    and "z (ev_start e) = [off]" "\<bar>off\<bar> < 86400"
    and "valid_datetime (ev_start e)" "1901 \<le> dt_year (ev_start e)" "dt_year (ev_start e) \<le> 9998"
    and "ev_end e = None" "ev_location e = None" "event_get_absolute_url s base e = Inr p"
  shows "\<exists>u st. dt_shift (- off) (ev_start e) = Inr u \<and> strftime_stamp u = Inr st \<and>
           google_calendar_url s tzdb default_tz domain base locs e =
             Inr (''http://www.google.com/calendar/event?action=TEMPLATE&text='' @ url_quote (ev_title e) @
                  ''&dates='' @ st @ ''/'' @ st @ ''&sprop=website:'' @ domain @ p @ ''&location=None&trp=true'')"
proof -
  have "\<bar>- off\<bar> < 86400" using assms(3) by simp
  then obtain u where u: "dt_shift (- off) (ev_start e) = Inr u" and y: "dt_year (ev_start e) - 1 \<le> dt_year u"
    using dt_shift_in_range [OF assms(4)] assms(5,6) by fastforce
  have "1900 \<le> dt_year u" using y assms(5) by linarith
  then obtain st where st: "strftime_stamp u = Inr st" using strftime_stamp_from_1900 by blast
  have "google_calendar_url s tzdb default_tz domain base locs e =
          Inr (''http://www.google.com/calendar/event?action=TEMPLATE&text='' @ url_quote (ev_title e) @
               ''&dates='' @ st @ ''/'' @ st @ ''&sprop=website:'' @ domain @ p @ ''&location=None&trp=true'')"
    using get_utc_single_offset [where tzdb = tzdb and s = s and default_tz = default_tz and z = z and d = "ev_start e", OF assms(1,2)]
          u st assms(7-9)
    by (simp add: google_calendar_url_def event_location_of_def Let_def)
  with u st show ?thesis by blast
qed

theorem google_calendar_url_no_end_no_location_witness:
  "google_calendar_url (demo_day_settings\<lparr>event_time_zone := ''Europe/Paris''\<rparr>) demo_tzdb ''UTC'' ''example.com''
     ''/events/'' [] demo_cal_event =
   Inr ''http://www.google.com/calendar/event?action=TEMPLATE&text=Launch&dates=20240601T160000Z/20240601T160000Z&sprop=website:example.com/events/2024/05/09/launch/&location=None&trp=true''"
proof -
  let ?s = "demo_day_settings\<lparr>event_time_zone := ''Europe/Paris''\<rparr>"
  have h: "append_slash ?s" "event_urls_date_format ?s = ''day''"
      "publish_date demo_cal_event = Some (DT 2024 5 9 12 0 0 0)" "valid_datetime (DT 2024 5 9 12 0 0 0)"
      "1000 \<le> dt_year (DT 2024 5 9 12 0 0 0)" "CHR ''\<newline>'' \<notin> set (ev_slug demo_cal_event)"
    by (simp_all add: agenda_defaults_def valid_datetime_def days_in_month_def)
  have pd: "pad2 2024 = ''2024''" "pad2 5 = ''05''" "pad2 9 = ''09''" by code_simp+
  have url: "event_get_absolute_url ?s ''/events/'' demo_cal_event = Inr ''/events/2024/05/09/launch/''"
    using event_url_day [OF h, of "''/events/''"] pd by simp
  have v: "valid_datetime (DT 2024 6 1 18 0 0 0)" by (simp add: valid_datetime_def days_in_month_def)
  have sh: "dt_shift (- 7200) (DT 2024 6 1 18 0 0 0) = Inr (DT 2024 6 1 16 0 0 0)"
    by (simp add: dt_shift_def seconds_of_day_def move_days_def)
  have stamp: "strftime_stamp (DT 2024 6 1 16 0 0 0) = Inr ''20240601T160000Z''" by code_simp
  have q: "url_quote ''Launch'' = ''Launch''" by code_simp
  have tz: "demo_tzdb (if event_time_zone ?s \<noteq> [] then event_time_zone ?s else ''UTC'') = Some (\<lambda>d. [7200])"
    by simp
  from google_calendar_url_no_end_no_location [where tzdb = demo_tzdb and s = ?s and default_tz = "''UTC''"
         and z = "\<lambda>d. [7200]" and e = demo_cal_event and off = 7200 and base = "''/events/''"
         and p = "''/events/2024/05/09/launch/''" and domain = "''example.com''" and locs = "[]"] tz v url sh stamp q
  show ?thesis by simp
qed

text \<open>
  The static map of the location the specification's example geocodes
  (latitude -34.9079240, longitude 138.5676240): \<open>{:.6}\<close> keeps six significant
  digits, so the marker is placed at 138.568, about 35 metres east of the stored
  longitude (the field holds seven decimal places).
\<close>

lemma google_static_map_marker_rounded:
  "google_static_map (agenda_defaults ''Site'' ''Events'' True)
     [\<lparr>loc_id = 7, loc_title = ''Hall'', loc_slug = ''hall'', address = ''1 Susan St'',
       mappable_location = ''1 Susan St'', lat = Some (-349079240), lon = Some 1385676240\<rparr>]
     (demo_cal_event\<lparr>ev_location := Some 7\<rparr>) ''300'' ''200'' ''15'' =
   Inr (''<img src='' @ [CHR 0x27] @ ''http://maps.googleapis.com/maps/api/staticmap?size=300x200&scale=2&format=png&markers=-34.9079%2C138.568&sensor=false&zoom=15'' @
        [CHR 0x27] @ '' width='' @ [CHR 0x27] @ ''300'' @ [CHR 0x27] @ '' height='' @ [CHR 0x27] @ ''200'' @ [CHR 0x27] @ '' />'')"
proof -
  have c: "coord_format (Some (-349079240)) = ''-34.9079''" "coord_format (Some 1385676240) = ''138.568''"
    by (simp_all add: coord_format_def dec_round6_def dec_format_g_def Let_def str_nat.simps digit_char_eval)
  have q: "url_quote ''-34.9079,138.568'' = ''-34.9079%2C138.568''" by code_simp
  show ?thesis
    using c q by (simp add: google_static_map_def event_location_of_def qs_get_def agenda_defaults_def)
qed

end
