(* ===== verification/Migration.thy ===== *)
theory Migration
  imports Prelude "HOL-Library.AList"
begin

text \<open>
  The initial migration \<open>src/mezzanine_agenda/migrations/0001_initial.py\<close> and the
  field declarations of \<open>src/mezzanine_agenda/models.py\<close> it was generated from. A
  field is its type and the keyword arguments that decide what its column stores and
  what forms accept (\<open>null\<close>, \<open>blank\<close>, \<open>editable\<close>, \<open>default\<close>), as written;
  verbose names, help texts, choices, indexes, and the settings a field class makes in
  its own \<open>__init__\<close> are left out on both sides. The migration runs on a project
  state: the tables created so far, keyed by the lower-cased \<open>app.model\<close> name as
  Django's migration state keys them, each with its columns in order and its
  \<open>Meta.ordering\<close>. \<open>CreateModel\<close> fails on a table that exists, a repeated column
  or a foreign key to a table that does not exist yet; \<open>AddField\<close> fails on a missing
  table, an existing column or an unresolved foreign key. The dependencies of lines
  12-15 provide the tables \<open>sites.site\<close> and \<open>settings.AUTH_USER_MODEL\<close>.
\<close>

section \<open>Fields and the project state\<close>

datatype field_type =
    AutoField | IntegerField | BigIntegerField | FloatField | BooleanField | CharField nat
  | TextField | URLField | DateTimeField | DecimalField nat nat | RichTextField | FileField nat
  | ForeignKey string

record field_decl =
  fd_type :: field_type
  fd_null :: bool
  fd_blank :: bool
  fd_editable :: bool
  fd_default :: "string option"

text \<open>A field with Django's defaults for the omitted arguments.\<close>

definition col :: "field_type \<Rightarrow> field_decl" where
  "col t = \<lparr>fd_type = t, fd_null = False, fd_blank = False, fd_editable = True, fd_default = None\<rparr>"

type_synonym field_list = "(string \<times> field_decl) list"

record model_state =
  ms_fields :: field_list
  ms_ordering :: "string list"




text \<open>Lower-casing of ASCII letters, as the migration state keys models.\<close>

definition lower_ascii :: "string \<Rightarrow> string" where
  "lower_ascii s = map (\<lambda>c. if 65 \<le> (of_char c :: nat) \<and> (of_char c :: nat) \<le> 90 then char_of (of_char c + (32::nat)) else c) s"



fun first_dup :: "string list \<Rightarrow> string option" where
  "first_dup [] = None"
| "first_dup (x # xs) = (if x \<in> set xs then Some x else first_dup xs)"

section \<open>Applying a migration\<close>




text \<open>A column a model form may name: it exists and is editable.\<close>

definition editable_column :: "model_state \<Rightarrow> string \<Rightarrow> bool" where
  "editable_column ms f = (case map_of (ms_fields ms) f of None \<Rightarrow> False | Some d \<Rightarrow> fd_editable d)"

section \<open>0001_initial\<close>





section \<open>The declarations of models.py\<close>

text \<open>
  The fields \<open>Event\<close> declares itself (models.py lines 28-38; \<open>comments\<close> and
  \<open>rating\<close> are generic relations, whose counter columns Mezzanine's field classes
  add) and its \<open>Meta.ordering\<close> (line 45). \<open>ForeignKey("EventLocation")\<close> names a
  model of the same app.
\<close>

definition event_model_fields :: field_list where
  "event_model_fields =
     [(''start'', col DateTimeField),
      (''end'', (col DateTimeField)\<lparr>fd_null := True, fd_blank := True\<rparr>),
      (''location'', (col (ForeignKey ''mezzanine_agenda.EventLocation''))\<lparr>fd_null := True, fd_blank := True\<rparr>),
      (''facebook_event'', (col BigIntegerField)\<lparr>fd_null := True, fd_blank := True\<rparr>),
      (''allow_comments'', (col BooleanField)\<lparr>fd_default := Some ''True''\<rparr>),
      (''featured_image'', (col (FileField 255))\<lparr>fd_null := True, fd_blank := True\<rparr>)]"

text \<open>The fields \<open>EventLocation\<close> declares itself (lines 110-113) and its ordering (line 118).\<close>

definition location_model_fields :: field_list where
  "location_model_fields =
     [(''address'', col TextField),
      (''mappable_location'', (col (CharField 128))\<lparr>fd_blank := True\<rparr>),
      (''lat'', (col (DecimalField 10 7))\<lparr>fd_null := True, fd_blank := True\<rparr>),
      (''lon'', (col (DecimalField 10 7))\<lparr>fd_null := True, fd_blank := True\<rparr>)]"


section \<open>Lemmas\<close>

lemma first_dup_None [simp]: "first_dup xs = None \<longleftrightarrow> distinct xs"
  by (induction xs) auto







lemma lower_ascii_literals:
  "lower_ascii ''mezzanine_agenda.Event'' = ''mezzanine_agenda.event''"
  "lower_ascii ''mezzanine_agenda.EventLocation'' = ''mezzanine_agenda.eventlocation''"
  "lower_ascii ''mezzanine_agenda.event'' = ''mezzanine_agenda.event''"
  "lower_ascii ''sites.Site'' = ''sites.site''"
  by code_simp+



end
