(* ===== verification/Spec2Isabelle.thy ===== *)
theory Spec2Isabelle
  imports DateTime TimeZone Locations Routing Settings Events Queries Feeds Archive Links Admin MapLinks GoogleCalendar Migration
begin

text \<open>
  \<^bold>\<open>A verification development of mezzanine-agenda.\<close>

  mezzanine-agenda (\<open>src/mezzanine_agenda/\<close>) is a Mezzanine/Django app for events:
  editors save events and geocoded locations (\<open>models.py\<close>); visitors reach list,
  detail, feed and calendar views (\<open>views.py\<close>, \<open>feeds.py\<close>) through the URL
  configuration (\<open>urls.py\<close>); templates use the tags of
  \<open>templatetags/event_tags.py\<close>; the settings and their defaults are registered in
  \<open>defaults.py\<close>. The development is a shallow embedding: each model is a record, each
  enumeration a datatype, each method, view or tag one executable HOL function, and every
  exception the code raises or lets through is a value \<open>Inl e\<close> of the sum
  \<open>py_exc + 'a\<close> (\<open>sbind\<close> threads the early exits). The database is a record of
  tables, each a list of rows in primary-key order; the current time, the viewer, the
  site domain, the URL prefix of the app (\<open>base\<close>) and the geocoding service are
  parameters.

  \<^bold>\<open>Theories and what they model.\<close>
  \<^item> \<open>Prelude\<close>: the exceptions \<open>py_exc\<close>, the bind \<open>sbind\<close>, Django's
    \<open>QuerySet.get\<close> (\<open>qs_get\<close>) and \<open>get_object_or_404\<close>, Python's \<open>str\<close> and
    \<open>int\<close> on naturals (\<open>str_nat\<close>, \<open>parse_nat\<close>), the zero padding of
    \<open>Event.get_absolute_url\<close> (\<open>pad2\<close>), \<open>str.replace\<close> of one character, and the
    stable ORM orderings \<open>order_asc\<close>/\<open>order_desc\<close> (\<open>order_by("start")\<close> and
    \<open>Meta.ordering = ("-start",)\<close>), with their lemmas.
  \<^item> \<open>DateTime\<close>: Python's naive \<open>datetime\<close> as a datatype ordered
    lexicographically (a \<open>linorder\<close> instance), its validity, \<open>month_name\<close>.
  \<^item> \<open>TimeZone\<close>: the date arithmetic of \<open>_get_utc\<close> (event_tags.py 143-159):
    a zone as the UTC offsets it gives a wall time, pytz's \<open>localize\<close> with
    \<open>is_dst=None\<close> (\<open>localize\<close>), \<open>make_naive\<close>'s shift with its day carry
    (\<open>dt_shift\<close> over \<open>next_day\<close>/\<open>prev_day\<close>/\<open>move_days\<close>, \<open>OverflowError\<close>
    outside the years 1 to 9999), and \<open>strftime("%Y%m%dT%H%M%SZ")\<close>
    (\<open>strftime_stamp\<close>, \<open>ValueError\<close> before 1900 as in Python 2).
  \<^item> \<open>Locations\<close>: \<open>EventLocation\<close> (models.py 105-149) and
    \<open>EventLocation.clean\<close> (lines 120-145) as \<open>location_clean\<close>, composed of
    \<open>location_coords_check\<close>, \<open>location_default_mappable\<close> and
    \<open>location_geocode\<close>; \<open>location_full_clean\<close> adds Django's field checks.
  \<^item> \<open>Routing\<close>: the 24 patterns of \<open>urls.py\<close> (\<open>urlpatterns\<close>), a
    backtracking matcher for the four regular-expression forms they use
    (\<open>match_segs\<close>), Django's first-match \<open>resolve\<close> and \<open>reverse\<close>.
  \<^item> \<open>Settings\<close>: the settings record and the defaults of \<open>defaults.py\<close>.
  \<^item> \<open>Events\<close>: the \<open>Event\<close> model, \<open>Event.clean\<close> (\<open>event_clean\<close>),
    \<open>get_absolute_url\<close> (\<open>event_url_route\<close>, \<open>event_get_absolute_url\<close>) and
    \<open>get_icalendar_event\<close>; the visibility rule of Mezzanine's \<open>published()\<close>
    (\<open>published_at\<close>, \<open>visible_to\<close>), taken from the specification.
  \<^item> \<open>Queries\<close>: the views \<open>event_list\<close>, \<open>event_detail\<close>,
    \<open>icalendar_event\<close>, \<open>icalendar\<close> and the tags \<open>recent_events\<close>,
    \<open>upcoming_events\<close>. The shared filter chain of \<open>event_list\<close>/\<open>icalendar\<close> is
    \<open>list_query\<close>, one step per \<open>if\<close> block (\<open>step_tag\<close>,
    \<open>step_year_month\<close>, \<open>step_location\<close>, \<open>step_author\<close>, \<open>step_window\<close>) over
    a \<open>list_state\<close> holding the query set and the objects looked up. The query
    contract of the specification is \<open>spec_query\<close> over \<open>request_criteria\<close>.
  \<^item> \<open>Feeds\<close>: \<open>EventsRSS\<close>/\<open>EventsAtom\<close> (\<open>feed_init\<close> for
    \<open>__init__\<close>, one definition per method) and the view \<open>event_feed\<close>; the call
    order of Django's \<open>Feed.get_feed\<close> is \<open>render_feed\<close>.
  \<^item> \<open>Archive\<close>: the tags \<open>event_months\<close>, \<open>event_locations\<close> and
    \<open>event_authors\<close>. \<open>event_months\<close> mutates dictionaries that two Python lists
    share, so its objects live in an explicit store \<open>dict_store\<close> (addresses to
    dictionaries) and the lists hold addresses (\<open>dedup_months\<close>, \<open>count_months\<close>).
  \<^item> \<open>Links\<close>: the tag \<open>icalendar_url\<close> over the template contexts of
    \<open>event_list\<close> and \<open>event_detail\<close> (\<open>list_context\<close>, \<open>detail_context\<close>),
    with positional \<open>reverse\<close> (\<open>reverse_args\<close>, in Routing), and
    \<open>EventLocation.get_absolute_url\<close>.
  \<^item> \<open>Admin\<close>: the event form layout built with Python's \<open>list.insert\<close>
    (\<open>py_insert\<close>, negative indices included), the change-list columns and filters,
    and \<open>EventLocationAdmin.in_menu\<close>.
  \<^item> \<open>MapLinks\<close>: \<open>google_nav_url\<close> and Python 2's byte-wise \<open>urlquote\<close>
    (\<open>url_quote\<close>), with \<open>urllib.unquote\<close> as its inverse.
  \<^item> \<open>Migration\<close>: \<open>migrations/0001_initial.py\<close> as a list of operations
    (\<open>migration_0001\<close>) applied by a step function on a table state keyed like
    Django's migration state (\<open>apply_op\<close>, \<open>apply_migration\<close>), with its failures
    as values of \<open>migration_error\<close>; the app's own field declarations of
    \<open>models.py\<close> (\<open>event_model_fields\<close>, \<open>location_model_fields\<close>).
  \<^item> \<open>GoogleCalendar\<close>: \<open>_get_utc\<close> with the zone it picks (\<open>get_utc\<close>, the
    pytz database a parameter), \<open>google_calendar_url\<close>, and \<open>google_static_map\<close>
    with Python 2's \<open>Decimal\<close> format \<open>{:.6}\<close> (\<open>dec_round6\<close>,
    \<open>dec_format_g\<close>, \<open>coord_format\<close>).
  \<^item> This theory: the properties that span components, through the URL
    configuration: the calendar links of the list pages resolved and fed to the
    \<open>icalendar\<close> view; and the migrated tables against \<open>models.py\<close> and the
    admin forms.

  \<^bold>\<open>What the lemmas show.\<close>
  \<^item> Location validation (C1-C6): a location that passes full validation has both
    coordinates; an address without coordinates is geocoded and every geocoder failure is
    a validation error; half a coordinate pair is rejected; given coordinates are kept
    and never re-geocoded; a zero coordinate counts as missing.
  \<^item> Events (C7-C10): \<open>Event.clean\<close> accepts exactly the events that end no earlier
    than they start; the iCalendar component has the documented fields with the
    identifier \<open>event-ID@DOMAIN\<close>; \<open>get_absolute_url\<close> and the URL configuration
    round-trip: the URL built for an event resolves to its detail view with the slug and
    the zero-padded date parts, which read back as the date.
  \<^item> Queries (C11-C18): the filter chain refines the conjunctive query contract
    (\<open>list_query_refines\<close>); anonymous visitors see only published events; the
    default window and its order; the \<open>Http404\<close> of an unknown tag and of a month past
    12; the calendar has one component per queried event with distinct identifiers; the
    template tags' soft miss and their descending order.
  \<^item> Feeds (C19-C21, C23-C24): the item limit; the \<open>AttributeError\<close> of a
    login-protected feed; Atom is RSS plus a subtitle; an unknown tag is \<open>Http404\<close>;
    the author-name fallback.
  \<^item> Migration (C22, C31): applying migration operations in order keeps the table
    state well formed (an invariant of the step function \<open>apply_op\<close>); across
    theories, \<open>0001_initial\<close> applies for any user model, its tables match the field
    declarations and orderings of \<open>models.py\<close>, and both admin forms name only
    editable columns.
  \<^item> Archive (C25-C27): the store-based \<open>event_months\<close> equals the functional
    month count (the in-place writes through shared objects do not disturb the later
    counts); the months are strictly descending and their counts add up to the published
    events; \<open>event_locations\<close> counts each location's published events once.
  \<^item> Across components (C28-C29, this theory): the calendar link of a tag page is built
    from the keyword's title and answers \<open>Http404\<close> when the title is not also a slug;
    the unfiltered list's calendar link exports exactly the events its pages show.
  \<^item> Admin (C30): the form field order with and without the featured image, and
    the change-list columns.
  \<^item> Map links and URLs (C32-C36): \<open>google_nav_url\<close> fails for an event without a
    location; quoting round-trips and emits only safe bytes; a location's URL resolves
    back to its list; the URL configuration has distinct pattern names and group names.
  \<^item> Time zones and Google Calendar (C37-C40): the UTC shift keeps a datetime valid and
    is undone by the opposite shift, across month, year and leap-day boundaries; the
    date stamp has a fixed width and reads back as the datetime; for an event without
    an end or a location whose zone gives its start one offset, the calendar link is
    always produced, with the UTC stamp as both dates and the text \<open>None\<close> as the
    location. The lemma \<open>google_static_map_marker_rounded\<close> evaluates the static map
    of the specification's example location: its marker keeps six significant digits.

  \<^bold>\<open>Bounds and choices.\<close> Every loop of the code runs over a finite list (the rows of
  a table, the segments of a pattern, the characters of a path), so every function is
  total and defined by structural recursion or \<open>fun\<close>; no fuel is needed. The
  regular-expression matcher tries the lengths of a group's match from the longest down,
  as Python's backtracking does; only the groups' contents depend on this choice.
  Coordinates are integers in units of \<open>10\<^sup>-\<^sup>7\<close> degrees, as the
  \<open>DecimalField(max_digits=10, decimal_places=7)\<close> stores them. Dates are naive
  \<open>datetime\<close> values compared as tuples (\<open>USE_TZ\<close> off, so \<open>_get_utc\<close>
  always localizes). A zone's offsets are whole seconds of any size; the shift moves
  the date one day per step of \<open>move_days\<close>, a loop bounded by the number of whole days
  in the offset, so it needs no fuel. The claim that the calendar link is produced
  assumes an offset of less than a day, as every zone of the tz database has.

  \<^bold>\<open>Not modelled.\<close> The SQL a migration emits and the column options that do
  not change what a column stores or a form accepts (verbose names, help texts, choices,
  indexes), \<open>setup.py\<close> (packaging),
  \<open>tests.py\<close>, in \<open>admin.py\<close> the method \<open>save_form\<close> (it only orders two of
  Mezzanine's methods) and the \<open>admin.site.register\<close> calls, template rendering and
  the HTTP responses, the XML and iCalendar serialisations, Mezzanine's rich-text filter
  for feed item descriptions, the rules of pytz's zone database (a parameter),
  URL quoting in \<open>reverse\<close>, and Python's rule that
  \<open>$\<close> also matches before a final line break (paths here never end in one).
\<close>

text \<open>
  C28. The calendar link on a tag's list page is broken (\<open>event_list\<close>, the
  \<open>icalendar_url\<close> tag, \<open>urls.py\<close> and \<open>icalendar\<close> together): the link is built
  from \<open>str(tag)\<close>, the keyword's title, it resolves to \<open>icalendar_tag\<close> with the
  title as the tag argument, and \<open>icalendar\<close> looks keywords up by slug, so unless
  some keyword's slug equals that title the calendar answers \<open>Http404\<close>.
\<close>

theorem tag_calendar_link_not_found:
  assumes "append_slash s"
    and "event_list s d v now (Some t) None None None None page = Inr p"
    and "\<forall>k \<in> set (db_keywords d). CHR ''/'' \<notin> set (kw_title k) \<and> CHR ''\<newline>'' \<notin> set (kw_title k)"
  shows "\<exists>k. lp_tag p = Some k \<and> kw_slug k = t \<and>
           icalendar_url s base (list_context p) = Inr (base @ ''tag/'' @ kw_title k @ ''/calendar.ics'') \<and>
           resolve (append_slash s) (''tag/'' @ kw_title k @ ''/calendar.ics'') =
             Some (''icalendar_tag'', ''icalendar'', [(''tag'', kw_title k)]) \<and>
           ((\<forall>k' \<in> set (db_keywords d). kw_slug k' \<noteq> kw_title k) \<longrightarrow>
              icalendar s ver domain base d v now (Some (kw_title k)) None None None None = Inl Http404)"
proof -
  from event_list_tag_context [OF assms(2)] obtain k where
    f: "filter (\<lambda>k. kw_slug k = t) (db_keywords d) = [k]" and tag: "lp_tag p = Some k"
    and cx: "list_context p = \<lparr>cx_event = None, cx_tag = Some k, cx_year = None, cx_month = None,
                               cx_location = None, cx_author = None\<rparr>"
    by blast
  from filter_singleton_mem [OF f] have k: "k \<in> set (db_keywords d)" "kw_slug k = t" by auto
  with assms(3) have title: "CHR ''/'' \<notin> set (kw_title k)" "CHR ''\<newline>'' \<notin> set (kw_title k)" by auto
  have url: "icalendar_url s base (list_context p) = Inr (base @ ''tag/'' @ kw_title k @ ''/calendar.ics'')"
    using assms(1) by (simp add: cx icalendar_url_def reverse_tag_calendar [OF title])
  have res: "resolve (append_slash s) (''tag/'' @ kw_title k @ ''/calendar.ics'') =
             Some (''icalendar_tag'', ''icalendar'', [(''tag'', kw_title k)])"
    using assms(1) resolve_tag_calendar [OF title] by simp
  have "(\<forall>k' \<in> set (db_keywords d). kw_slug k' \<noteq> kw_title k) \<longrightarrow>
          icalendar s ver domain base d v now (Some (kw_title k)) None None None None = Inl Http404"
    by (simp add: icalendar_def list_query_unknown_tag)
  with tag k url res show ?thesis by blast
qed

theorem tag_calendar_link_not_found_witness:
  "map_sum id (\<lambda>p. icalendar_url demo_settings ''/events/'' (list_context p))
     (event_list demo_settings demo_db Anonymous demo_now (Some ''music'') None None None None 1) =
     Inr (Inr ''/events/tag/Music/calendar.ics'') \<and>
   resolve True ''tag/Music/calendar.ics'' = Some (''icalendar_tag'', ''icalendar'', [(''tag'', ''Music'')]) \<and>
   icalendar demo_settings ''0.1'' ''example.com'' ''/events/'' demo_db Anonymous demo_now (Some ''Music'')
     None None None None = Inl Http404"
proof -
  have sl: "append_slash demo_settings" by (simp add: agenda_defaults_def)
  have "map_sum id lp_tag (event_list demo_settings demo_db Anonymous demo_now (Some ''music'') None None None None 1) =
        Inr (Some \<lparr>kw_id = 1, kw_title = ''Music'', kw_slug = ''music''\<rparr>)"
    by code_simp
  then obtain p where p: "event_list demo_settings demo_db Anonymous demo_now (Some ''music'') None None None None 1 = Inr p"
    and tag: "lp_tag p = Some \<lparr>kw_id = 1, kw_title = ''Music'', kw_slug = ''music''\<rparr>"
    by (cases "event_list demo_settings demo_db Anonymous demo_now (Some ''music'') None None None None 1") auto
  have titles: "\<forall>k \<in> set (db_keywords demo_db). CHR ''/'' \<notin> set (kw_title k) \<and> CHR ''\<newline>'' \<notin> set (kw_title k)"
    by simp
  from tag_calendar_link_not_found [OF sl p titles, of "''/events/''" "''0.1''" "''example.com''"] tag
  have "icalendar_url demo_settings ''/events/'' (list_context p) = Inr ''/events/tag/Music/calendar.ics''"
    "resolve True ''tag/Music/calendar.ics'' = Some (''icalendar_tag'', ''icalendar'', [(''tag'', ''Music'')])"
    "icalendar demo_settings ''0.1'' ''example.com'' ''/events/'' demo_db Anonymous demo_now (Some ''Music'')
       None None None None = Inl Http404"
    using sl by (auto simp del: match_segs.simps)
  with p show ?thesis by simp
qed

text \<open>
  C29. On the unfiltered list, every page's calendar link is \<open>calendar.ics\<close>, which
  resolves to the \<open>icalendar\<close> view; the pages of the list partition one event
  sequence, and the exported calendar has one component per event of that sequence, in
  order, identified by the event.
\<close>

theorem default_calendar_link_exports_list:
  assumes "append_slash s" "0 < event_per_page s"
    and "icalendar s ver domain base d v now None None None None None = Inr cal"
  shows "resolve (append_slash s) ''calendar.ics'' = Some (''icalendar'', ''icalendar'', []) \<and>
         (\<forall>n p. event_list s d v now None None None None None n = Inr p \<longrightarrow>
                icalendar_url s base (list_context p) = Inr (base @ ''calendar.ics'')) \<and>
         (\<exists>xs. (\<forall>n. map_sum id lp_events (event_list s d v now None None None None None n) =
                    Inr (paginate xs n (event_per_page s))) \<and>
               concat (map (\<lambda>n. paginate xs n (event_per_page s))
                         [1..<Suc (num_pages (length xs) (event_per_page s))]) = xs \<and>
               map (\<lambda>c. map_of c ''uid'') (cal_components cal) = map (\<lambda>e. Some (IText (event_uid domain e))) xs)"
proof (intro conjI allI impI)
  show "resolve (append_slash s) ''calendar.ics'' = Some (''icalendar'', ''icalendar'', [])"
    using assms(1) resolve_calendar by simp
next
  fix n p assume "event_list s d v now None None None None None n = Inr p"
  from event_list_default_context [OF this] assms(1)
  show "icalendar_url s base (list_context p) = Inr (base @ ''calendar.ics'')"
    by (simp add: icalendar_url_def opt_str_def reverse_calendar)
next
  let ?xs = "qs_eval (ls_qs (step_window now None None (init_state d v now)))"
  have pages: "map_sum id lp_events (event_list s d v now None None None None None n) =
               Inr (paginate ?xs n (event_per_page s))" for n
    by (simp add: event_list_def list_query_no_args)
  from assms(3) have "add_events s domain base (db_locations d) ?xs (make_icalendar ver) = Inr cal"
    by (simp add: icalendar_def list_query_no_args)
  from add_events_Inr [OF this] obtain cs where "cal_components cal = cs"
    "list_all2 (\<lambda>e c. get_icalendar_event s domain base (db_locations d) e = Inr c) ?xs cs"
    by (auto simp: make_icalendar_def)
  then have "map (\<lambda>c. map_of c ''uid'') (cal_components cal) = map (\<lambda>e. Some (IText (event_uid domain e))) ?xs"
    by (simp add: uids_of_components)
  with pages concat_paginate [OF assms(2)]
  show "\<exists>xs. (\<forall>n. map_sum id lp_events (event_list s d v now None None None None None n) =
                    Inr (paginate xs n (event_per_page s))) \<and>
               concat (map (\<lambda>n. paginate xs n (event_per_page s))
                         [1..<Suc (num_pages (length xs) (event_per_page s))]) = xs \<and>
               map (\<lambda>c. map_of c ''uid'') (cal_components cal) = map (\<lambda>e. Some (IText (event_uid domain e))) xs"
    by blast
qed

theorem default_calendar_link_exports_list_witness:
  "icalendar demo_settings ''0.1'' ''example.com'' ''/events/'' demo_db Anonymous demo_now None None None None None =
     Inr \<lparr>cal_prodid = ''-//mezzanine-agenda//NONSGML V0.1//EN'', cal_version = ''2.0'',
          cal_components =
            [[(''summary'', IText ''Launch''), (''url'', IText ''http://example.com/events/launch/''),
              (''dtstamp'', IDate (DT 2024 6 1 18 0 0 0)), (''dtstart'', IDate (DT 2024 6 1 18 0 0 0)),
              (''dtend'', IDate (DT 2024 6 1 22 0 0 0)), (''uid'', IText ''event-1@example.com'')]]\<rparr> \<and>
   resolve True ''calendar.ics'' = Some (''icalendar'', ''icalendar'', [])"
proof -
  have sl: "append_slash demo_settings" "0 < event_per_page demo_settings" by (simp_all add: agenda_defaults_def)
  have h: "icalendar demo_settings ''0.1'' ''example.com'' ''/events/'' demo_db Anonymous demo_now None None None None None =
     Inr \<lparr>cal_prodid = ''-//mezzanine-agenda//NONSGML V0.1//EN'', cal_version = ''2.0'',
          cal_components =
            [[(''summary'', IText ''Launch''), (''url'', IText ''http://example.com/events/launch/''),
              (''dtstamp'', IDate (DT 2024 6 1 18 0 0 0)), (''dtstart'', IDate (DT 2024 6 1 18 0 0 0)),
              (''dtend'', IDate (DT 2024 6 1 22 0 0 0)), (''uid'', IText ''event-1@example.com'')]]\<rparr>"
    by code_simp
  from default_calendar_link_exports_list [OF sl h] sl h show ?thesis by simp
qed




end
